theory Spec2Isabelle
  imports Main "HOL-Library.Char_ord" "HOL-Library.List_Lexorder" "HOL-Library.AList"
begin

section \<open>Errors\<close>

text \<open>
  A Go \<^verbatim>\<open>error\<close> value is an \<open>error option\<close>: \<open>None\<close> is \<^verbatim>\<open>nil\<close>. The
  constructors are the sentinel errors of package \<^verbatim>\<open>resource\<close> and of
  \<^verbatim>\<open>context\<close> that \<^verbatim>\<open>rest.NewError\<close> switches on, the \<^verbatim>\<open>*rest.Error\<close> struct,
  and \<^verbatim>\<open>errors.New\<close> for every other error. Go compares errors by interface
  identity; the model compares them by value.
\<close>

datatype rest_Error = Error (Code: int) (Message: string) (Issues: "(string \<times> string list) list")

datatype error =
    resource_ErrNotFound
  | resource_ErrForbidden
  | resource_ErrConflict
  | resource_ErrNotImplemented
  | resource_ErrNoStorage
  | context_Canceled
  | context_DeadlineExceeded
  | RestError rest_Error
  | errors_New string

section \<open>Content hash (resource/util.go)\<close>

text \<open>
  A payload is a Go \<^verbatim>\<open>map[string]interface{}\<close>. \<open>None\<close> is the \<^verbatim>\<open>nil\<close> map.
  A map that is not \<^verbatim>\<open>nil\<close> is kept as an association list with distinct
  keys, in whatever order the map happens to hold its entries. Reading a
  \<^verbatim>\<open>nil\<close> map is reading an empty one: \<open>entries\<close> are the entries of a map,
  and two payloads are equal field for field when \<open>map_of\<close> of their
  entries agrees. A \<^verbatim>\<open>nil\<close> map and an empty map are equal field for
  field and are different values.

  \<^verbatim>\<open>encoding/json\<close>, \<^verbatim>\<open>crypto/md5\<close> and \<^verbatim>\<open>fmt\<close> are not part of the repository.
  Their pieces are parameters: how one field value is encoded (which may
  fail), how a key is quoted, and the hexadecimal MD5 digest. The encoding
  of a field value is a function of the value. What \<^verbatim>\<open>json.Marshal\<close>
  documents for a map is written out: a \<^verbatim>\<open>nil\<close> map is encoded as \<^verbatim>\<open>null\<close>;
  the entries of any other map are emitted between braces in sorted key
  order, and the first value that cannot be encoded aborts the encoding with
  its error.
\<close>

type_synonym 'v payload = "(string \<times> 'v) list option"

definition entries :: "'v payload \<Rightarrow> (string \<times> 'v) list" where
  "entries payload = (case payload of None \<Rightarrow> [] | Some kvs \<Rightarrow> kvs)"

record 'v stdlib =
  json_value :: "'v \<Rightarrow> error + string"
  json_key :: "string \<Rightarrow> string"
  md5_hex :: "string \<Rightarrow> string"

fun marshal_fields :: "'v stdlib \<Rightarrow> (string \<times> 'v) list \<Rightarrow> error + string list" where
  "marshal_fields L [] = Inr []"
| "marshal_fields L ((k, v) # kvs) =
     (case json_value L v of
        Inl err \<Rightarrow> Inl err
      | Inr s \<Rightarrow>
          (case marshal_fields L kvs of
             Inl err \<Rightarrow> Inl err
           | Inr ss \<Rightarrow> Inr ((json_key L k @ '':'' @ s) # ss)))"

fun join_comma :: "string list \<Rightarrow> string" where
  "join_comma [] = []"
| "join_comma [s] = s"
| "join_comma (s # t # ss) = s @ '','' @ join_comma (t # ss)"

definition json_Marshal :: "'v stdlib \<Rightarrow> 'v payload \<Rightarrow> error + string" where
  "json_Marshal L payload =
     (case payload of
        None \<Rightarrow> Inr ''null''
      | Some kvs \<Rightarrow>
          (case marshal_fields L (sort_key fst kvs) of
             Inl err \<Rightarrow> Inl err
           | Inr ss \<Rightarrow> Inr (''{'' @ join_comma ss @ ''}'')))"

text \<open>
  \<^verbatim>\<open>GenEtag\<close> returns \<^verbatim>\<open>("", err)\<close> when marshalling fails and the hex digest
  otherwise; the pair is the sum \<open>error + string\<close>.
\<close>

definition GenEtag :: "'v stdlib \<Rightarrow> 'v payload \<Rightarrow> error + string" where
  "GenEtag L payload =
     (case json_Marshal L payload of
        Inl err \<Rightarrow> Inl err
      | Inr b \<Rightarrow> Inr (md5_hex L b))"

section \<open>Items, queries and the world the pipeline runs in\<close>

text \<open>
  Modelled from the spec: the declarations of \<^verbatim>\<open>Item\<close>, \<^verbatim>\<open>ItemList\<close>,
  \<^verbatim>\<open>query.Query\<close> and \<^verbatim>\<open>query.Window\<close> are not among the sources. An Item is
  identity, content hash, last-updated timestamp and payload; an ItemList is
  an ordered sequence of Items plus a total count, \<open>-1\<close> meaning unknown; a
  query is predicate, sort, window and projection, all opaque here.
\<close>

type_synonym addr = nat

text \<open>A \<^verbatim>\<open>*Item\<close>: \<open>None\<close> is the nil pointer.\<close>

type_synonym ptr = "addr option"

record 'v Item =
  ID :: 'v
  ETag :: string
  Updated :: int
  Payload :: "'v payload"

record ItemList =
  Total :: int
  Items :: "ptr list"

record Window =
  Offset :: int
  Limit :: int

record Query =
  Projection :: "string list"
  Predicate :: "string list"
  Sort :: "string list"
  Window :: "Window option"

text \<open>
  The calls the pipeline makes to its collaborators (hooks, storage,
  validator, commands), each with the arguments it was given and what it
  returned. A storage write records the items as they stand when the call is
  made.
\<close>

datatype 'v event =
    Ev_onGet 'v "error option"
  | Ev_storage_Get 'v ptr "error option"
  | Ev_onGot ptr "error option" ptr "error option"
  | Ev_storage_MultiGet "'v list" "ptr list" "error option"
  | Ev_onFind addr "error option"
  | Ev_storage_Find addr "ItemList option" "error option"
  | Ev_storage_Count Query int "error option"
  | Ev_onFound addr "ItemList option" "error option" "ItemList option" "error option"
  | Ev_storage_Reduce addr "error option"
  | Ev_onInsert addr "error option"
  | Ev_storage_Insert addr "'v Item option list" "error option"
  | Ev_onInserted addr "error option" "error option"
  | Ev_onUpdate ptr ptr "error option"
  | Ev_storage_Update ptr ptr "'v Item option" "error option"
  | Ev_onUpdated ptr ptr "error option" "error option"
  | Ev_onDelete ptr "error option"
  | Ev_storage_Delete ptr "error option"
  | Ev_onDeleted ptr "error option" "error option"
  | Ev_onClear addr "error option"
  | Ev_storage_Clear addr int "error option"
  | Ev_onCleared addr int "error option" int "error option"
  | Ev_Prepare "'v payload" "'v payload option" bool
  | Ev_Validate "'v payload" "'v payload"
  | Ev_Command ptr "'v payload"

text \<open>
  The world: the trace of collaborator calls, the heap of Items (every
  address holds an Item, so a non-nil pointer can always be dereferenced, as
  in Go), the backing arrays of \<^verbatim>\<open>[]*Item\<close> slices (a slice is the address of
  its array, whose length is the slice's), the queries behind
  \<^verbatim>\<open>*query.Query\<close> pointers, the next free address, and whatever state the
  storage backend and the hooks keep for themselves.
\<close>

record ('v, 'x) world =
  trace :: "'v event list"
  item_at :: "addr \<Rightarrow> 'v Item"
  slice_at :: "addr \<Rightarrow> ptr list"
  query_at :: "addr \<Rightarrow> Query"
  next_addr :: addr
  ext :: 'x

text \<open>
  A call that may read and change the world and returns normally. Hooks,
  storage methods and middlewares are such calls: they are parameters of the
  model, and a panic inside one of them is outside it.
\<close>

type_synonym ('a, 'v, 'x) act = "('v, 'x) world \<Rightarrow> 'a \<times> ('v, 'x) world"

text \<open>
  \<open>call ev f\<close> runs the collaborator \<open>f\<close> and appends the event built from its
  result to the trace as it stood before the call; the collaborator itself
  cannot touch the trace.
\<close>

definition call :: "('a \<Rightarrow> 'v event) \<Rightarrow> ('a, 'v, 'x) act \<Rightarrow> ('a, 'v, 'x) act" where
  "call ev f w = (case f w of (a, w') \<Rightarrow> (a, w'\<lparr>trace := trace w @ [ev a]\<rparr>))"

text \<open>
  The panics of the modelled code: a nil pointer dereferenced, an entry
  assigned in a \<^verbatim>\<open>nil\<close> map, and the panic of \<^verbatim>\<open>Chain\<close>.
\<close>

datatype panic = NilDereference | NilMapAssignment | UnknownMiddleware

section \<open>Hooks, storage, handlers (resource/middleware.go)\<close>

text \<open>
  Modelled from the spec: \<^verbatim>\<open>eventHandler\<close> and \<^verbatim>\<open>storageHandler\<close> are not among
  the sources. They are the event hooks (pre and post callbacks per operation
  kind, each able to observe and overwrite the in-flight items and error by
  reference) and the storage handler of the spec's external interfaces, with
  the signatures of their call sites in \<^verbatim>\<open>middleware.go\<close>. A parameter passed
  by reference (\<^verbatim>\<open>&item\<close>, \<^verbatim>\<open>&err\<close>, \<^verbatim>\<open>&list\<close>, \<^verbatim>\<open>&deleted\<close>) is an argument and
  a result.
\<close>

record ('v, 'x) eventHandler =
  onGet :: "'v \<Rightarrow> (error option, 'v, 'x) act"
  onGot :: "ptr \<Rightarrow> error option \<Rightarrow> (ptr \<times> error option, 'v, 'x) act"
  onFind :: "addr \<Rightarrow> (error option, 'v, 'x) act"
  onFound :: "addr \<Rightarrow> ItemList option \<Rightarrow> error option \<Rightarrow> (ItemList option \<times> error option, 'v, 'x) act"
  onInsert :: "addr \<Rightarrow> (error option, 'v, 'x) act"
  onInserted :: "addr \<Rightarrow> error option \<Rightarrow> (error option, 'v, 'x) act"
  onUpdate :: "ptr \<Rightarrow> ptr \<Rightarrow> (error option, 'v, 'x) act"
  onUpdated :: "ptr \<Rightarrow> ptr \<Rightarrow> error option \<Rightarrow> (error option, 'v, 'x) act"
  onDelete :: "ptr \<Rightarrow> (error option, 'v, 'x) act"
  onDeleted :: "ptr \<Rightarrow> error option \<Rightarrow> (error option, 'v, 'x) act"
  onClear :: "addr \<Rightarrow> (error option, 'v, 'x) act"
  onCleared :: "addr \<Rightarrow> int \<Rightarrow> error option \<Rightarrow> (int \<times> error option, 'v, 'x) act"

type_synonym ('v, 'x) ReducerFunc = "ptr \<Rightarrow> (error option, 'v, 'x) act"

record ('v, 'x) storageHandler =
  storage_Get :: "'v \<Rightarrow> (ptr \<times> error option, 'v, 'x) act"
  storage_MultiGet :: "'v list \<Rightarrow> (ptr list \<times> error option, 'v, 'x) act"
  storage_Find :: "addr \<Rightarrow> (ItemList option \<times> error option, 'v, 'x) act"
  storage_Count :: "Query \<Rightarrow> (int \<times> error option, 'v, 'x) act"
  storage_Reduce :: "addr \<Rightarrow> ('v, 'x) ReducerFunc \<Rightarrow> (error option, 'v, 'x) act"
  storage_Insert :: "addr \<Rightarrow> (error option, 'v, 'x) act"
  storage_Update :: "ptr \<Rightarrow> ptr \<Rightarrow> (error option, 'v, 'x) act"
  storage_Delete :: "ptr \<Rightarrow> (error option, 'v, 'x) act"
  storage_Clear :: "addr \<Rightarrow> (int \<times> error option, 'v, 'x) act"

text \<open>
  The handler types of \<^verbatim>\<open>middleware.go\<close>. The context argument is left out.
  The Find handler can panic (the default one dereferences the list the
  storage returned), so its result is a sum.
\<close>

type_synonym ('v, 'x) OnGetMiddlewareHandler = "'v \<Rightarrow> (ptr \<times> error option, 'v, 'x) act"
type_synonym ('v, 'x) OnMultiGetMiddlewareHandler = "'v list \<Rightarrow> (ptr list \<times> error option, 'v, 'x) act"
type_synonym ('v, 'x) OnFindMiddlewareHandler =
  "addr \<Rightarrow> bool \<Rightarrow> ('v, 'x) world \<Rightarrow> panic + ((ItemList option \<times> error option) \<times> ('v, 'x) world)"
type_synonym ('v, 'x) OnReduceMiddlewareHandler = "addr \<Rightarrow> ('v, 'x) ReducerFunc \<Rightarrow> (error option, 'v, 'x) act"
type_synonym ('v, 'x) OnInsertMiddlewareHandler = "addr \<Rightarrow> (addr \<times> error option, 'v, 'x) act"
type_synonym ('v, 'x) OnUpdateMiddlewareHandler = "ptr \<Rightarrow> ptr \<Rightarrow> (ptr \<times> error option, 'v, 'x) act"
type_synonym ('v, 'x) OnDeleteMiddlewareHandler = "ptr \<Rightarrow> (ptr \<times> error option, 'v, 'x) act"
type_synonym ('v, 'x) OnClearMiddlewareHandler = "addr \<Rightarrow> (int \<times> error option, 'v, 'x) act"

record ('v, 'x) middlewareHandlers =
  onGetC :: "(('v, 'x) OnGetMiddlewareHandler \<Rightarrow> ('v, 'x) OnGetMiddlewareHandler) list"
  onFindC :: "(('v, 'x) OnFindMiddlewareHandler \<Rightarrow> ('v, 'x) OnFindMiddlewareHandler) list"
  onReduceC :: "(('v, 'x) OnReduceMiddlewareHandler \<Rightarrow> ('v, 'x) OnReduceMiddlewareHandler) list"
  onInsertC :: "(('v, 'x) OnInsertMiddlewareHandler \<Rightarrow> ('v, 'x) OnInsertMiddlewareHandler) list"
  onUpdateC :: "(('v, 'x) OnUpdateMiddlewareHandler \<Rightarrow> ('v, 'x) OnUpdateMiddlewareHandler) list"
  onDeleteC :: "(('v, 'x) OnDeleteMiddlewareHandler \<Rightarrow> ('v, 'x) OnDeleteMiddlewareHandler) list"
  onClearC :: "(('v, 'x) OnClearMiddlewareHandler \<Rightarrow> ('v, 'x) OnClearMiddlewareHandler) list"
  onGetThen :: "('v, 'x) OnGetMiddlewareHandler"
  onMultiGetThen :: "('v, 'x) OnMultiGetMiddlewareHandler"
  onFindThen :: "('v, 'x) OnFindMiddlewareHandler"
  onReduceThen :: "('v, 'x) OnReduceMiddlewareHandler"
  onInsertThen :: "('v, 'x) OnInsertMiddlewareHandler"
  onUpdateThen :: "('v, 'x) OnUpdateMiddlewareHandler"
  onDeleteThen :: "('v, 'x) OnDeleteMiddlewareHandler"
  onClearThen :: "('v, 'x) OnClearMiddlewareHandler"

text \<open>
  Modelled from the spec: \<^verbatim>\<open>resource.Conf\<close> and the \<^verbatim>\<open>schema.Validator\<close>
  interface are not among the sources. The configuration says which
  operation modes (create, replace, update, delete, list) are permitted.
  \<open>Prepare\<close> splits a raw payload into the changes and the base they apply
  to; \<open>Validate\<close> returns the final document or a field-error set.
\<close>

datatype Mode = Create | Replace | Update | Delete | List

record Conf =
  IsModeAllowed :: "Mode \<Rightarrow> bool"

record ('v, 'x) Validator =
  Prepare :: "'v payload \<Rightarrow> 'v payload option \<Rightarrow> bool \<Rightarrow> ('v payload \<times> 'v payload, 'v, 'x) act"
  Validate :: "'v payload \<Rightarrow> 'v payload \<Rightarrow> ('v payload \<times> (string \<times> string list) list, 'v, 'x) act"

text \<open>
  The \<^verbatim>\<open>Resource\<close> struct with the fields the modelled functions read. A
  default handler is a closure over the resource pointer; none of the
  modelled functions changes the hooks or the storage after the handlers are
  built, so the closure holds them by value.
\<close>

record ('v, 'x) Resource =
  name :: string
  validator :: "('v, 'x) Validator"
  storage :: "('v, 'x) storageHandler"
  conf :: Conf
  hooks :: "('v, 'x) eventHandler"
  middlewares :: "('v, 'x) middlewareHandlers"

subsection \<open>Default handlers\<close>

definition onGetMiddlewareDefault :: "('v, 'x) Resource \<Rightarrow> ('v, 'x) OnGetMiddlewareHandler" where
  "onGetMiddlewareDefault r ident w =
     (case call (Ev_onGet ident) (onGet (hooks r) ident) w of
        (err, w1) \<Rightarrow>
          (case (if err = None
                 then call (\<lambda>(item, err). Ev_storage_Get ident item err) (storage_Get (storage r) ident) w1
                 else ((None, err), w1)) of
             ((item, err), w2) \<Rightarrow>
               call (\<lambda>(item', err'). Ev_onGot item err item' err') (onGot (hooks r) item err) w2))"

text \<open>
  First loop of the default MultiGet handler: one pre-hook per id, the first
  pre-hook error becoming the global error.
\<close>

fun multiGet_pre ::
  "('v, 'x) Resource \<Rightarrow> 'v list \<Rightarrow> error option list \<Rightarrow> error option \<Rightarrow>
     (error option list \<times> error option, 'v, 'x) act" where
  "multiGet_pre r [] errs err w = ((errs, err), w)"
| "multiGet_pre r (ident # ids) errs err w =
     (case call (Ev_onGet ident) (onGet (hooks r) ident) w of
        (e, w1) \<Rightarrow>
          multiGet_pre r ids (errs @ [e]) (if err = None \<and> e \<noteq> None then e else err) w1)"

text \<open>
  Second loop, over the indices \<open>i\<close> of the ids: the post-hook of id \<open>i\<close> gets
  the item at \<open>i\<close> if the storage returned that many, and the pre-hook error
  of \<open>i\<close> or else the global error.
\<close>

fun multiGet_post ::
  "('v, 'x) Resource \<Rightarrow> error option list \<Rightarrow> error option \<Rightarrow> nat list \<Rightarrow> ptr list \<Rightarrow> error option \<Rightarrow>
     (ptr list \<times> error option, 'v, 'x) act" where
  "multiGet_post r errs err [] items errOverwrite w = ((items, errOverwrite), w)"
| "multiGet_post r errs err (i # is) items errOverwrite w =
     (let item0 = (if length items > i then items ! i else None);
          err0 = (if errs ! i = None then err else errs ! i)
      in case call (\<lambda>(item', err'). Ev_onGot item0 err0 item' err') (onGot (hooks r) item0 err0) w of
           ((item1, err1), w1) \<Rightarrow>
             multiGet_post r errs err is
               (if err1 = None \<and> length items > i \<and> item1 \<noteq> items ! i then items[i := item1] else items)
               (if errOverwrite = None \<and> err1 \<noteq> errs ! i then err1 else errOverwrite)
               w1)"

definition onMultiGetMiddlewareDefault :: "('v, 'x) Resource \<Rightarrow> ('v, 'x) OnMultiGetMiddlewareHandler" where
  "onMultiGetMiddlewareDefault r ids w =
     (case multiGet_pre r ids [] None w of
        ((errs, err), w1) \<Rightarrow>
          (case (if err = None
                 then call (\<lambda>(items, err). Ev_storage_MultiGet ids items err) (storage_MultiGet (storage r) ids) w1
                 else (([], err), w1)) of
             ((items, err), w2) \<Rightarrow>
               (case multiGet_post r errs err [0..<length ids] items None w2 of
                  ((items, errOverwrite), w3) \<Rightarrow>
                    (let err = (if errOverwrite \<noteq> None then errOverwrite else err)
                     in ((if err \<noteq> None then [] else items, err), w3)))))"

definition onFindMiddlewareDefault :: "('v, 'x) Resource \<Rightarrow> ('v, 'x) OnFindMiddlewareHandler" where
  "onFindMiddlewareDefault r q forceTotal w =
     (case call (Ev_onFind q) (onFind (hooks r) q) w of
        (err, w1) \<Rightarrow>
          (case (if err = None
                 then (case call (\<lambda>(list, err). Ev_storage_Find q list err) (storage_Find (storage r) q) w1 of
                         ((list, err), w2) \<Rightarrow>
                           if err = None
                           then (case list of
                                   None \<Rightarrow> Inl NilDereference
                                 | Some l \<Rightarrow>
                                     if Total l = - 1 \<and> forceTotal
                                     then (let cq = \<lparr>Projection = [], Predicate = Predicate (query_at w2 q),
                                                      Sort = [], Window = None\<rparr>
                                           in case call (\<lambda>(tot, err). Ev_storage_Count cq tot err)
                                                     (storage_Count (storage r) cq) w2 of
                                                ((tot, err), w3) \<Rightarrow> Inr ((Some (l\<lparr>Total := tot\<rparr>), err), w3))
                                     else Inr ((list, err), w2))
                           else Inr ((list, err), w2))
                 else Inr ((None, err), w1)) of
             Inl p \<Rightarrow> Inl p
           | Inr ((list, err), w4) \<Rightarrow>
               Inr (call (\<lambda>(list', err'). Ev_onFound q list err list' err') (onFound (hooks r) q list err) w4)))"

definition onReduceMiddlewareDefault :: "('v, 'x) Resource \<Rightarrow> ('v, 'x) OnReduceMiddlewareHandler" where
  "onReduceMiddlewareDefault r q reducer w =
     call (Ev_storage_Reduce q) (storage_Reduce (storage r) q reducer) w"

text \<open>
  \<^verbatim>\<open>recalcEtag\<close> (resource/resource.go) walks the slice's pointers, skips nil
  ones and writes each hash through the pointer; it stops at the first item
  whose payload cannot be hashed, leaving the hashes already written.
\<close>

fun recalcEtag :: "'v stdlib \<Rightarrow> ptr list \<Rightarrow> (error option, 'v, 'x) act" where
  "recalcEtag L [] w = (None, w)"
| "recalcEtag L (None # vs) w = recalcEtag L vs w"
| "recalcEtag L (Some a # vs) w =
     (case GenEtag L (Payload (item_at w a)) of
        Inl err \<Rightarrow> (Some err, w)
      | Inr etag \<Rightarrow> recalcEtag L vs (w\<lparr>item_at := (item_at w)(a := (item_at w a)\<lparr>ETag := etag\<rparr>)\<rparr>))"

definition onInsertMiddlewareDefault ::
  "'v stdlib \<Rightarrow> ('v, 'x) Resource \<Rightarrow> ('v, 'x) OnInsertMiddlewareHandler" where
  "onInsertMiddlewareDefault L r items w =
     (case call (Ev_onInsert items) (onInsert (hooks r) items) w of
        (err, w1) \<Rightarrow>
          (case (if err = None
                 then (case recalcEtag L (slice_at w1 items) w1 of
                         (err, w2) \<Rightarrow>
                           if err = None
                           then call (Ev_storage_Insert items (map (map_option (item_at w2)) (slice_at w2 items)))
                                  (storage_Insert (storage r) items) w2
                           else (err, w2))
                 else (err, w1)) of
             (err, w3) \<Rightarrow>
               (case call (Ev_onInserted items err) (onInserted (hooks r) items err) w3 of
                  (err, w4) \<Rightarrow> ((items, err), w4))))"

definition onUpdateMiddlewareDefault ::
  "'v stdlib \<Rightarrow> ('v, 'x) Resource \<Rightarrow> ('v, 'x) OnUpdateMiddlewareHandler" where
  "onUpdateMiddlewareDefault L r item original w =
     (case call (Ev_onUpdate item original) (onUpdate (hooks r) item original) w of
        (err, w1) \<Rightarrow>
          (case (if err = None
                 then (case recalcEtag L [item] w1 of
                         (err, w2) \<Rightarrow>
                           if err = None
                           then call (Ev_storage_Update item original (map_option (item_at w2) item))
                                  (storage_Update (storage r) item original) w2
                           else (err, w2))
                 else (err, w1)) of
             (err, w3) \<Rightarrow>
               (case call (Ev_onUpdated item original err) (onUpdated (hooks r) item original err) w3 of
                  (err, w4) \<Rightarrow> ((item, err), w4))))"

definition onDeleteMiddlewareDefault :: "('v, 'x) Resource \<Rightarrow> ('v, 'x) OnDeleteMiddlewareHandler" where
  "onDeleteMiddlewareDefault r item w =
     (case call (Ev_onDelete item) (onDelete (hooks r) item) w of
        (err, w1) \<Rightarrow>
          (case (if err = None
                 then call (Ev_storage_Delete item) (storage_Delete (storage r) item) w1
                 else (err, w1)) of
             (err, w2) \<Rightarrow>
               (case call (Ev_onDeleted item err) (onDeleted (hooks r) item err) w2 of
                  (err, w3) \<Rightarrow> ((item, err), w3))))"

definition onClearMiddlewareDefault :: "('v, 'x) Resource \<Rightarrow> ('v, 'x) OnClearMiddlewareHandler" where
  "onClearMiddlewareDefault r q w =
     (case call (Ev_onClear q) (onClear (hooks r) q) w of
        (err, w1) \<Rightarrow>
          (case (if err = None
                 then call (\<lambda>(deleted, err). Ev_storage_Clear q deleted err) (storage_Clear (storage r) q) w1
                 else ((0, err), w1)) of
             ((deleted, err), w2) \<Rightarrow>
               call (\<lambda>(deleted', err'). Ev_onCleared q deleted err deleted' err')
                 (onCleared (hooks r) q deleted err) w2))"

subsection \<open>Registration: \<^verbatim>\<open>initMiddlewares\<close> and \<^verbatim>\<open>Chain\<close>\<close>

definition initMiddlewares :: "'v stdlib \<Rightarrow> ('v, 'x) Resource \<Rightarrow> ('v, 'x) Resource" where
  "initMiddlewares L r =
     r\<lparr>middlewares := (middlewares r)
        \<lparr>onGetThen := onGetMiddlewareDefault r,
         onMultiGetThen := onMultiGetMiddlewareDefault r,
         onFindThen := onFindMiddlewareDefault r,
         onReduceThen := onReduceMiddlewareDefault r,
         onInsertThen := onInsertMiddlewareDefault L r,
         onUpdateThen := onUpdateMiddlewareDefault L r,
         onDeleteThen := onDeleteMiddlewareDefault r,
         onClearThen := onClearMiddlewareDefault r\<rparr>\<rparr>"

text \<open>
  The wrapping loop \<^verbatim>\<open>for i := len(c) - 1; i >= 0; i-- { then = c[i](then) }\<close>:
  \<open>wrap c n h\<close> has still to wrap the middlewares at the indices below \<open>n\<close>
  around \<open>h\<close>, the highest index first.
\<close>

fun wrap :: "('h \<Rightarrow> 'h) list \<Rightarrow> nat \<Rightarrow> 'h \<Rightarrow> 'h" where
  "wrap c 0 h = h"
| "wrap c (Suc i) h = wrap c i ((c ! i) h)"

text \<open>
  A value passed to \<^verbatim>\<open>Chain\<close>: one of the seven middleware types of its type
  switch, a \<^verbatim>\<open>[]interface{}\<close> of further values, or anything else.
\<close>

datatype ('v, 'x) middleware =
    OnGetMiddleware "('v, 'x) OnGetMiddlewareHandler \<Rightarrow> ('v, 'x) OnGetMiddlewareHandler"
  | OnFindMiddleware "('v, 'x) OnFindMiddlewareHandler \<Rightarrow> ('v, 'x) OnFindMiddlewareHandler"
  | OnReduceMiddleware "('v, 'x) OnReduceMiddlewareHandler \<Rightarrow> ('v, 'x) OnReduceMiddlewareHandler"
  | OnInsertMiddleware "('v, 'x) OnInsertMiddlewareHandler \<Rightarrow> ('v, 'x) OnInsertMiddlewareHandler"
  | OnUpdateMiddleware "('v, 'x) OnUpdateMiddlewareHandler \<Rightarrow> ('v, 'x) OnUpdateMiddlewareHandler"
  | OnDeleteMiddleware "('v, 'x) OnDeleteMiddlewareHandler \<Rightarrow> ('v, 'x) OnDeleteMiddlewareHandler"
  | OnClearMiddleware "('v, 'x) OnClearMiddlewareHandler \<Rightarrow> ('v, 'x) OnClearMiddlewareHandler"
  | MiddlewareSlice "('v, 'x) middleware list"
  | OtherValue

text \<open>
  \<^verbatim>\<open>Chain\<close> registers the values in order. A value of an unknown type panics;
  the registrations made before it are lost with the panic.
\<close>

fun Chain :: "'v stdlib \<Rightarrow> ('v, 'x) Resource \<Rightarrow> ('v, 'x) middleware list \<Rightarrow> panic + ('v, 'x) Resource"
  and Chain_one :: "'v stdlib \<Rightarrow> ('v, 'x) Resource \<Rightarrow> ('v, 'x) middleware \<Rightarrow> panic + ('v, 'x) Resource" where
  "Chain L r [] = Inr r"
| "Chain L r (m # ms) =
     (case Chain_one L r m of
        Inl p \<Rightarrow> Inl p
      | Inr r' \<Rightarrow> Chain L r' ms)"
| "Chain_one L r (MiddlewareSlice ms) = Chain L r ms"
| "Chain_one L r (OnGetMiddleware m) =
     (let c = onGetC (middlewares r) @ [m]
      in Inr (r\<lparr>middlewares := (middlewares r)
                 \<lparr>onGetC := c, onGetThen := wrap c (length c) (onGetMiddlewareDefault r)\<rparr>\<rparr>))"
| "Chain_one L r (OnFindMiddleware m) =
     (let c = onFindC (middlewares r) @ [m]
      in Inr (r\<lparr>middlewares := (middlewares r)
                 \<lparr>onFindC := c, onFindThen := wrap c (length c) (onFindMiddlewareDefault r)\<rparr>\<rparr>))"
| "Chain_one L r (OnReduceMiddleware m) =
     (let c = onReduceC (middlewares r) @ [m]
      in Inr (r\<lparr>middlewares := (middlewares r)
                 \<lparr>onReduceC := c, onReduceThen := wrap c (length c) (onReduceMiddlewareDefault r)\<rparr>\<rparr>))"
| "Chain_one L r (OnInsertMiddleware m) =
     (let c = onInsertC (middlewares r) @ [m]
      in Inr (r\<lparr>middlewares := (middlewares r)
                 \<lparr>onInsertC := c, onInsertThen := wrap c (length c) (onInsertMiddlewareDefault L r)\<rparr>\<rparr>))"
| "Chain_one L r (OnUpdateMiddleware m) =
     (let c = onUpdateC (middlewares r) @ [m]
      in Inr (r\<lparr>middlewares := (middlewares r)
                 \<lparr>onUpdateC := c, onUpdateThen := wrap c (length c) (onUpdateMiddlewareDefault L r)\<rparr>\<rparr>))"
| "Chain_one L r (OnDeleteMiddleware m) =
     (let c = onDeleteC (middlewares r) @ [m]
      in Inr (r\<lparr>middlewares := (middlewares r)
                 \<lparr>onDeleteC := c, onDeleteThen := wrap c (length c) (onDeleteMiddlewareDefault r)\<rparr>\<rparr>))"
| "Chain_one L r (OnClearMiddleware m) =
     (let c = onClearC (middlewares r) @ [m]
      in Inr (r\<lparr>middlewares := (middlewares r)
                 \<lparr>onClearC := c, onClearThen := wrap c (length c) (onClearMiddlewareDefault r)\<rparr>\<rparr>))"
| "Chain_one L r OtherValue = Inl UnknownMiddleware"

section \<open>The resource's operations (resource/resource.go)\<close>

text \<open>
  The debug logging of these methods is left out: it is a deferred call
  that reads the results and changes none of them.
\<close>

definition Resource_Get :: "('v, 'x) Resource \<Rightarrow> 'v \<Rightarrow> (ptr \<times> error option, 'v, 'x) act" where
  "Resource_Get r ident w = onGetThen (middlewares r) ident w"

definition Resource_MultiGet :: "('v, 'x) Resource \<Rightarrow> 'v list \<Rightarrow> (ptr list \<times> error option, 'v, 'x) act" where
  "Resource_MultiGet r ids w = onMultiGetThen (middlewares r) ids w"

definition Resource_find :: "('v, 'x) Resource \<Rightarrow> ('v, 'x) OnFindMiddlewareHandler" where
  "Resource_find r q forceTotal w = onFindThen (middlewares r) q forceTotal w"

definition Resource_Find ::
  "('v, 'x) Resource \<Rightarrow> addr \<Rightarrow> ('v, 'x) world \<Rightarrow> panic + ((ItemList option \<times> error option) \<times> ('v, 'x) world)" where
  "Resource_Find r q w = Resource_find r q False w"

definition FindWithTotal ::
  "('v, 'x) Resource \<Rightarrow> addr \<Rightarrow> ('v, 'x) world \<Rightarrow> panic + ((ItemList option \<times> error option) \<times> ('v, 'x) world)" where
  "FindWithTotal r q w = Resource_find r q True w"

definition Resource_Reduce ::
  "('v, 'x) Resource \<Rightarrow> addr \<Rightarrow> ('v, 'x) ReducerFunc \<Rightarrow> (error option, 'v, 'x) act" where
  "Resource_Reduce r q reducer w = onReduceThen (middlewares r) q reducer w"

text \<open>
  Go's \<^verbatim>\<open>copy(dst, src)\<close> on the contents of two slices: the first
  \<open>min (len dst) (len src)\<close> elements of \<open>dst\<close> are replaced.
\<close>

definition copy :: "'a list \<Rightarrow> 'a list \<Rightarrow> 'a list" where
  "copy dst src = (let n = min (length dst) (length src) in take n src @ drop n dst)"

definition Resource_Insert :: "('v, 'x) Resource \<Rightarrow> addr \<Rightarrow> (error option, 'v, 'x) act" where
  "Resource_Insert r items w =
     (case onInsertThen (middlewares r) items w of
        ((newItems, err), w1) \<Rightarrow>
          if err = None
          then (err, w1\<lparr>slice_at := (slice_at w1)(items := copy (slice_at w1 items) (slice_at w1 newItems))\<rparr>)
          else (err, w1))"

text \<open>
  \<^verbatim>\<open>*item = *newItem\<close> dereferences both pointers: a nil one panics.
\<close>

definition assign_item :: "ptr \<Rightarrow> ptr \<Rightarrow> ('v, 'x) world \<Rightarrow> panic + ('v, 'x) world" where
  "assign_item item newItem w =
     (case newItem of
        None \<Rightarrow> Inl NilDereference
      | Some b \<Rightarrow>
          (case item of
             None \<Rightarrow> Inl NilDereference
           | Some a \<Rightarrow> Inr (w\<lparr>item_at := (item_at w)(a := item_at w b)\<rparr>)))"

definition Resource_Update ::
  "('v, 'x) Resource \<Rightarrow> ptr \<Rightarrow> ptr \<Rightarrow> ('v, 'x) world \<Rightarrow> panic + (error option \<times> ('v, 'x) world)" where
  "Resource_Update r item original w =
     (case onUpdateThen (middlewares r) item original w of
        ((newItem, err), w1) \<Rightarrow>
          if err = None
          then (case assign_item item newItem w1 of
                  Inl p \<Rightarrow> Inl p
                | Inr w2 \<Rightarrow> Inr (err, w2))
          else Inr (err, w1))"

definition Resource_Delete ::
  "('v, 'x) Resource \<Rightarrow> ptr \<Rightarrow> ('v, 'x) world \<Rightarrow> panic + (error option \<times> ('v, 'x) world)" where
  "Resource_Delete r item w =
     (case onDeleteThen (middlewares r) item w of
        ((newItem, err), w1) \<Rightarrow>
          if err = None
          then (case assign_item item newItem w1 of
                  Inl p \<Rightarrow> Inl p
                | Inr w2 \<Rightarrow> Inr (err, w2))
          else Inr (err, w1))"

definition Resource_Clear :: "('v, 'x) Resource \<Rightarrow> addr \<Rightarrow> (int \<times> error option, 'v, 'x) act" where
  "Resource_Clear r q w = onClearThen (middlewares r) q w"

definition Resource_Count :: "('v, 'x) Resource \<Rightarrow> addr \<Rightarrow> (int \<times> error option, 'v, 'x) act" where
  "Resource_Count r q w =
     call (\<lambda>(tot, err). Ev_storage_Count (query_at w q) tot err) (storage_Count (storage r) (query_at w q)) w"

section \<open>REST errors (package rest)\<close>

definition ErrNotFound :: rest_Error where "ErrNotFound = Error 404 ''Not Found'' []"
definition ErrForbidden :: rest_Error where "ErrForbidden = Error 403 ''Forbidden'' []"
definition ErrPreconditionFailed :: rest_Error where "ErrPreconditionFailed = Error 412 ''Precondition Failed'' []"
definition ErrConflict :: rest_Error where "ErrConflict = Error 409 ''Conflict'' []"
definition ErrInvalidMethod :: rest_Error where "ErrInvalidMethod = Error 405 ''Invalid Method'' []"
definition ErrClientClosedRequest :: rest_Error where "ErrClientClosedRequest = Error 499 ''Client Closed Request'' []"
definition ErrNotImplemented :: rest_Error where "ErrNotImplemented = Error 501 ''Not Implemented'' []"
definition ErrGatewayTimeout :: rest_Error where "ErrGatewayTimeout = Error 504 ''Deadline Exceeded'' []"
definition ErrUnknown :: rest_Error where "ErrUnknown = Error 520 ''Unknown Error'' []"

text \<open>
  \<^verbatim>\<open>NewError\<close>. The text of \<^verbatim>\<open>resource.ErrNoStorage\<close> is not among the sources and
  is a parameter. An error that only wraps a \<^verbatim>\<open>*rest.Error\<close> is not modelled.
\<close>

fun NewError :: "string \<Rightarrow> error option \<Rightarrow> error option \<times> int" where
  "NewError noStorage (Some (RestError e)) = (Some (RestError e), Code e)"
| "NewError noStorage (Some context_Canceled) = (Some (RestError ErrClientClosedRequest), Code ErrClientClosedRequest)"
| "NewError noStorage (Some context_DeadlineExceeded) = (Some (RestError ErrGatewayTimeout), Code ErrGatewayTimeout)"
| "NewError noStorage (Some resource_ErrNotFound) = (Some (RestError ErrNotFound), Code ErrNotFound)"
| "NewError noStorage (Some resource_ErrForbidden) = (Some (RestError ErrForbidden), Code ErrForbidden)"
| "NewError noStorage (Some resource_ErrConflict) = (Some (RestError ErrConflict), Code ErrConflict)"
| "NewError noStorage (Some resource_ErrNotImplemented) = (Some (RestError ErrNotImplemented), Code ErrNotImplemented)"
| "NewError noStorage (Some resource_ErrNoStorage) = (Some (RestError (Error 501 noStorage [])), 501)"
| "NewError noStorage None = (None, 0)"
| "NewError noStorage (Some (errors_New msg)) = (Some (RestError (Error 520 msg [])), 520)"

section \<open>PUT on an item (rest/method_item_put.go)\<close>

text \<open>
  What the handlers read of an \<^verbatim>\<open>*http.Request\<close>: the outcome of
  \<^verbatim>\<open>decodePayload\<close>, the conditional-request tokens (the expected content
  hash of \<^verbatim>\<open>If-Match\<close>, the timestamp of \<^verbatim>\<open>If-Unmodified-Since\<close>) and the
  outcome of \<^verbatim>\<open>isNoContent\<close>. Neither helper is among the sources.
\<close>

record 'v Request =
  decodePayload :: "rest_Error + 'v payload"
  If_Match :: "string option"
  If_Unmodified_Since :: "int option"
  isNoContent :: bool

type_synonym Header = "(string \<times> string list) list"

text \<open>The \<^verbatim>\<open>body interface{}\<close> a handler returns: nil, an error or an item.\<close>

datatype body = Body_nil | Body_error error | Body_item ptr

type_synonym response = "int \<times> Header \<times> body"

type_synonym ('v, 'x) Command =
  "'v Request \<Rightarrow> ptr \<Rightarrow> 'v payload \<Rightarrow> (Header \<times> ptr \<times> 'v \<times> error option, 'v, 'x) act"

text \<open>
  What the handlers read of a \<^verbatim>\<open>*RouteMatch\<close>: the outcome of \<^verbatim>\<open>Query()\<close> (a
  pointer to the query built for the route), the resource, the lookup fields
  of the resource path and the command, if the route names one.
\<close>

record ('v, 'x) RouteMatch =
  route_Query :: "rest_Error + addr"
  route_Resource :: "('v, 'x) Resource"
  route_ResourcePath_Values :: "'v payload"
  route_Command :: "('v, 'x) Command option"

text \<open>
  The functions the handlers call that are not among the sources, as
  parameters: \<^verbatim>\<open>checkIntegrityRequest\<close> (given the original item, if any),
  \<^verbatim>\<open>resource.NewItem\<close>, \<^verbatim>\<open>Projection.Eval\<close>, \<^verbatim>\<open>clone.Clone\<close>, the
  \<^verbatim>\<open>schema.Tombstone\<close> value, the text of \<^verbatim>\<open>resource.ErrNoStorage\<close>, and how a
  map is held as an \<^verbatim>\<open>interface{}\<close> value.
\<close>

record ('v, 'x) rest_env =
  checkIntegrityRequest :: "'v Request \<Rightarrow> 'v Item option \<Rightarrow> rest_Error option"
  NewItem :: "'v payload \<Rightarrow> (ptr \<times> error option, 'v, 'x) act"
  Projection_Eval :: "string list \<Rightarrow> 'v payload \<Rightarrow> ('v, 'x) Resource \<Rightarrow> ('v payload \<times> error option, 'v, 'x) act"
  clone_Clone :: "ptr \<Rightarrow> (ptr, 'v, 'x) act"
  Tombstone :: 'v
  ErrNoStorage_text :: string
  map_value :: "'v payload \<Rightarrow> 'v"

text \<open>
  Modelled from the spec: \<^verbatim>\<open>checkIntegrityRequest\<close> is not among the sources.
  The integrity check compares the caller-supplied conditional-request tokens
  (an expected content hash, an expected not-modified-since timestamp) against
  the original's actual content hash and timestamp; a mismatch is the
  precondition-failed condition. Without an original (the create path) there
  is no integrity check.
\<close>

definition checkIntegrityRequest_spec :: "'v Request \<Rightarrow> 'v Item option \<Rightarrow> rest_Error option" where
  "checkIntegrityRequest_spec r original =
     (case original of
        None \<Rightarrow> None
      | Some orig \<Rightarrow>
          if (case If_Match r of None \<Rightarrow> False | Some etag \<Rightarrow> etag \<noteq> ETag orig) then Some ErrPreconditionFailed
          else if (case If_Unmodified_Since r of None \<Rightarrow> False | Some t \<Rightarrow> t < Updated orig)
          then Some ErrPreconditionFailed
          else None)"

text \<open>\<^verbatim>\<open>e, code := NewError(err); return code, nil, e\<close>\<close>

definition error_response :: "('v, 'x) rest_env \<Rightarrow> error option \<Rightarrow> response" where
  "error_response env err =
     (case NewError (ErrNoStorage_text env) err of
        (e, code) \<Rightarrow> (code, [], case e of None \<Rightarrow> Body_nil | Some e' \<Rightarrow> Body_error e'))"

text \<open>\<^verbatim>\<open>return e.Code, nil, e\<close> for a \<^verbatim>\<open>*rest.Error\<close>\<close>

definition rest_error_response :: "rest_Error \<Rightarrow> response" where
  "rest_error_response e = (Code e, [], Body_error (RestError e))"

text \<open>\<^verbatim>\<open>q.Window = &query.Window{Limit: 1}\<close>\<close>

definition limit_one :: "addr \<Rightarrow> ('v, 'x) world \<Rightarrow> ('v, 'x) world" where
  "limit_one q w = w\<lparr>query_at := (query_at w)(q := (query_at w q)\<lparr>Window := Some \<lparr>Offset = 0, Limit = 1\<rparr>\<rparr>)\<rparr>"

text \<open>\<^verbatim>\<open>[]*resource.Item{item}\<close>: a new backing array at the next free address.\<close>

definition new_slice :: "ptr list \<Rightarrow> ('v, 'x) world \<Rightarrow> addr \<times> ('v, 'x) world" where
  "new_slice ps w =
     (next_addr w, w\<lparr>slice_at := (slice_at w)(next_addr w := ps), next_addr := Suc (next_addr w)\<rparr>)"

text \<open>\<^verbatim>\<open>item.Payload = p\<close> through the pointer.\<close>

definition set_Payload :: "addr \<Rightarrow> 'v payload \<Rightarrow> ('v, 'x) world \<Rightarrow> ('v, 'x) world" where
  "set_Payload a p w = w\<lparr>item_at := (item_at w)(a := (item_at w a)\<lparr>Payload := p\<rparr>)\<rparr>"

text \<open>
  The loop over the lookup fields in \<^verbatim>\<open>itemPutCreateReplace\<close>: each is set in
  the base, which panics when the base is the \<^verbatim>\<open>nil\<close> map, and a tombstone
  on it is taken out of the changes (\<^verbatim>\<open>delete\<close> leaves a \<^verbatim>\<open>nil\<close> map as it
  is). The fields have distinct keys, so the order of the loop does not
  matter.
\<close>

fun lookup_fields ::
  "'v \<Rightarrow> (string \<times> 'v) list \<Rightarrow> 'v payload \<times> 'v payload \<Rightarrow> panic + ('v payload \<times> 'v payload)" where
  "lookup_fields tomb [] (changes, base) = Inr (changes, base)"
| "lookup_fields tomb ((k, v) # kvs) (changes, base) =
     (case base of
        None \<Rightarrow> Inl NilMapAssignment
      | Some b \<Rightarrow>
          lookup_fields tomb kvs
            (if map_of (entries changes) k = Some tomb then map_option (AList.delete k) changes else changes,
             Some (AList.update k v b)))"

text \<open>The same loop in \<^verbatim>\<open>itemPutCommand\<close>, which only sets the base.\<close>

fun lookup_base :: "(string \<times> 'v) list \<Rightarrow> 'v payload \<Rightarrow> panic + 'v payload" where
  "lookup_base [] base = Inr base"
| "lookup_base ((k, v) # kvs) base =
     (case base of
        None \<Rightarrow> Inl NilMapAssignment
      | Some b \<Rightarrow> lookup_base kvs (Some (AList.update k v b)))"

text \<open>
  \<^verbatim>\<open>id, found := doc["id"]; found && id != original.ID\<close>
\<close>

definition changes_ID :: "'v payload \<Rightarrow> 'v Item \<Rightarrow> bool" where
  "changes_ID doc original = (case map_of (entries doc) ''id'' of None \<Rightarrow> False | Some i \<Rightarrow> i \<noteq> ID original)"

text \<open>
  \<^verbatim>\<open>itemPutCreateReplace\<close>, lines 139 to 147: the response, without the payload
  when no content was asked for and the two hashes agree.
\<close>

definition itemPutCreateReplace_respond ::
  "'v Request \<Rightarrow> int \<Rightarrow> addr \<Rightarrow> string \<Rightarrow> string \<Rightarrow> ('v, 'x) world \<Rightarrow> response \<times> ('v, 'x) world" where
  "itemPutCreateReplace_respond r status item preHookEtag postHookEtag w =
     (if isNoContent r \<and> preHookEtag = postHookEtag
      then ((if status = 200 then 204 else status, [], Body_item (Some item)), set_Payload item None w)
      else ((status, [], Body_item (Some item)), w))"

text \<open>
  Lines 94 to 106: the hash of the output before the mutation, the item's own
  hash or, under a projection, the hash of the projected payload. \<open>Inl\<close> is
  the early return of an error response.
\<close>

definition itemPutCreateReplace_preHookEtag ::
  "'v stdlib \<Rightarrow> ('v, 'x) rest_env \<Rightarrow> ('v, 'x) Resource \<Rightarrow> addr \<Rightarrow> addr \<Rightarrow> ('v, 'x) world \<Rightarrow>
     (response + string) \<times> ('v, 'x) world" where
  "itemPutCreateReplace_preHookEtag L env rsrc q item w =
     (if length (Projection (query_at w q)) > 0
      then (case Projection_Eval env (Projection (query_at w q)) (Payload (item_at w item)) rsrc w of
              ((projected, err), w1) \<Rightarrow>
                if err \<noteq> None then (Inl (error_response env err), w1)
                else (case GenEtag L projected of
                        Inl err \<Rightarrow> (Inl (error_response env (Some err)), w1)
                      | Inr etag \<Rightarrow> (Inr etag, w1)))
      else (Inr (ETag (item_at w item)), w))"

text \<open>
  Lines 123 to 137: the hash of the output after the mutation; the item's
  payload becomes the projected payload.
\<close>

definition itemPutCreateReplace_postHookEtag ::
  "'v stdlib \<Rightarrow> ('v, 'x) rest_env \<Rightarrow> ('v, 'x) Resource \<Rightarrow> addr \<Rightarrow> addr \<Rightarrow> ('v, 'x) world \<Rightarrow>
     (response + string) \<times> ('v, 'x) world" where
  "itemPutCreateReplace_postHookEtag L env rsrc q item w =
     (let postHookEtag = ETag (item_at w item)
      in case Projection_Eval env (Projection (query_at w q)) (Payload (item_at w item)) rsrc w of
           ((payload, err), w1) \<Rightarrow>
             (let w2 = set_Payload item payload w1
              in if err \<noteq> None then (Inl (error_response env err), w2)
                 else if length (Projection (query_at w2 q)) > 0
                 then (case GenEtag L (Payload (item_at w2 item)) of
                         Inl err \<Rightarrow> (Inl (error_response env (Some err)), w2)
                       | Inr etag \<Rightarrow> (Inr etag, w2))
                 else (Inr postHookEtag, w2)))"

text \<open>Lines 107 to 121: Update when there is an original, Insert otherwise.\<close>

definition itemPutCreateReplace_mutate ::
  "('v, 'x) Resource \<Rightarrow> addr \<Rightarrow> ptr \<Rightarrow> ('v, 'x) world \<Rightarrow> panic + (error option \<times> ('v, 'x) world)" where
  "itemPutCreateReplace_mutate rsrc item original w =
     (if original \<noteq> None then Resource_Update rsrc (Some item) original w
      else (case new_slice [Some item] w of (items, w1) \<Rightarrow> Inr (Resource_Insert rsrc items w1)))"

text \<open>Lines 94 to 147 together.\<close>

definition itemPutCreateReplace_store ::
  "'v stdlib \<Rightarrow> ('v, 'x) rest_env \<Rightarrow> 'v Request \<Rightarrow> ('v, 'x) Resource \<Rightarrow> addr \<Rightarrow> ptr \<Rightarrow> int \<Rightarrow> addr \<Rightarrow>
     ('v, 'x) world \<Rightarrow> panic + (response \<times> ('v, 'x) world)" where
  "itemPutCreateReplace_store L env r rsrc q original status item w =
     (case itemPutCreateReplace_preHookEtag L env rsrc q item w of
        (Inl resp, w1) \<Rightarrow> Inr (resp, w1)
      | (Inr preHookEtag, w1) \<Rightarrow>
          (case itemPutCreateReplace_mutate rsrc item original w1 of
             Inl p \<Rightarrow> Inl p
           | Inr (err, w2) \<Rightarrow>
               if err \<noteq> None then Inr (error_response env err, w2)
               else (case itemPutCreateReplace_postHookEtag L env rsrc q item w2 of
                       (Inl resp, w3) \<Rightarrow> Inr (resp, w3)
                     | (Inr postHookEtag, w3) \<Rightarrow>
                         Inr (itemPutCreateReplace_respond r status item preHookEtag postHookEtag w3))))"

text \<open>
  Lines 43 to 92: the mode check, the integrity check, Prepare, the lookup
  fields, Validate, the identity check and \<^verbatim>\<open>NewItem\<close>.
\<close>

definition itemPutCreateReplace_validate ::
  "'v stdlib \<Rightarrow> ('v, 'x) rest_env \<Rightarrow> 'v Request \<Rightarrow> ('v, 'x) RouteMatch \<Rightarrow> 'v payload \<Rightarrow> addr \<Rightarrow> ptr \<Rightarrow>
     ('v, 'x) world \<Rightarrow> panic + (response \<times> ('v, 'x) world)" where
  "itemPutCreateReplace_validate L env r route payload q original w =
     (let rsrc = route_Resource route;
          mode = (if original \<noteq> None then Replace else Create)
      in if \<not> IsModeAllowed (conf rsrc) mode
         then Inr ((405, [], Body_error (RestError (Error 405 ''Method Not Allowed'' []))), w)
         else (case checkIntegrityRequest env r (map_option (item_at w) original) of
                 Some err \<Rightarrow> Inr (rest_error_response err, w)
               | None \<Rightarrow>
                   (let status = (if original = None then 201 else 200);
                        originalPayload = map_option (\<lambda>a. Payload (item_at w a)) original;
                        replace = (original \<noteq> None)
                    in case call (\<lambda>res. Ev_Prepare payload originalPayload replace)
                              (Prepare (validator rsrc) payload originalPayload replace) w of
                         (prepared, w1) \<Rightarrow>
                           (case lookup_fields (Tombstone env) (entries (route_ResourcePath_Values route))
                                   prepared of
                              Inl p \<Rightarrow> Inl p
                            | Inr (changes, base) \<Rightarrow>
                                (case call (\<lambda>res. Ev_Validate changes base)
                                        (Validate (validator rsrc) changes base) w1 of
                                   ((doc, errs), w2) \<Rightarrow>
                                     if length errs > 0
                                     then Inr ((422, [], Body_error (RestError
                                                 (Error 422 ''Document contains error(s)'' errs))), w2)
                                     else if (case original of None \<Rightarrow> False
                                              | Some a \<Rightarrow> changes_ID doc (item_at w2 a))
                                     then Inr ((422, [], Body_error (RestError
                                                 (Error 422 ''Cannot change document ID'' []))), w2)
                                     else (case NewItem env doc w2 of
                                             ((item, err), w3) \<Rightarrow>
                                               if err \<noteq> None then Inr (error_response env err, w3)
                                               else (case item of
                                                       None \<Rightarrow> Inl NilDereference
                                                     | Some a \<Rightarrow>
                                                         itemPutCreateReplace_store L env r rsrc q original
                                                           status a w3)))))))"

text \<open>
  \<^verbatim>\<open>itemPutCreateReplace\<close>, with lines 24 to 42: the payload, the query and the
  fetch of the original.
\<close>

definition itemPutCreateReplace ::
  "'v stdlib \<Rightarrow> ('v, 'x) rest_env \<Rightarrow> 'v Request \<Rightarrow> ('v, 'x) RouteMatch \<Rightarrow> ('v, 'x) world \<Rightarrow>
     panic + (response \<times> ('v, 'x) world)" where
  "itemPutCreateReplace L env r route w =
     (case decodePayload r of
        Inl e \<Rightarrow> Inr (rest_error_response e, w)
      | Inr payload \<Rightarrow>
          (case route_Query route of
             Inl e \<Rightarrow> Inr (rest_error_response e, w)
           | Inr q \<Rightarrow>
               (case Resource_Find (route_Resource route) q (limit_one q w) of
                  Inl p \<Rightarrow> Inl p
                | Inr ((l, err), w1) \<Rightarrow>
                    if err \<noteq> None \<and> err \<noteq> Some (RestError ErrNotFound)
                    then Inr (error_response env err, w1)
                    else (case l of
                            None \<Rightarrow> Inl NilDereference
                          | Some lst \<Rightarrow>
                              itemPutCreateReplace_validate L env r route payload q
                                (if length (Items lst) = 1 then Items lst ! 0 else None) w1))))"

text \<open>
  \<^verbatim>\<open>itemPutCommand\<close>, lines 224 to 234: the response map holds the command's
  response and, unless no content was asked for and nothing changed, the
  item's payload; it is returned as the payload of the item.
\<close>

definition itemPutCommand_respond ::
  "('v, 'x) rest_env \<Rightarrow> 'v Request \<Rightarrow> Header \<Rightarrow> 'v \<Rightarrow> 'v payload \<Rightarrow> addr \<Rightarrow> ('v, 'x) world \<Rightarrow>
     response \<times> ('v, 'x) world" where
  "itemPutCommand_respond env r commandHeaders responseBody changes item w =
     (let response = [(''response'', responseBody)] @
            (if \<not> isNoContent r \<or> length (entries changes) > 0
             then [(''item'', map_value env (Payload (item_at w item)))] else [])
      in ((200, commandHeaders, Body_item (Some item)), set_Payload item (Some response) w))"

text \<open>Lines 188 to 222: a command that changed the payload is validated and stored as an update.\<close>

definition itemPutCommand_store ::
  "('v, 'x) rest_env \<Rightarrow> 'v Request \<Rightarrow> ('v, 'x) RouteMatch \<Rightarrow> addr \<Rightarrow> addr \<Rightarrow> Header \<Rightarrow> 'v \<Rightarrow>
     'v payload \<Rightarrow> 'v payload \<Rightarrow> ('v, 'x) world \<Rightarrow> panic + (response \<times> ('v, 'x) world)" where
  "itemPutCommand_store env r route q original commandHeaders responseBody changes base0 w =
     (let rsrc = route_Resource route
      in case lookup_base (entries (route_ResourcePath_Values route)) base0 of
           Inl p \<Rightarrow> Inl p
         | Inr base \<Rightarrow>
             (case call (\<lambda>res. Ev_Validate changes base) (Validate (validator rsrc) changes base) w of
                ((doc, errs), w1) \<Rightarrow>
                  if length errs > 0
                  then Inr ((422, [], Body_error (RestError (Error 422 ''Document contains error(s)'' errs))), w1)
                  else if changes_ID doc (item_at w1 original)
                  then Inr ((422, [], Body_error (RestError (Error 422 ''Cannot change document ID'' []))), w1)
                  else (case NewItem env doc w1 of
                          ((item, err), w2) \<Rightarrow>
                            if err \<noteq> None then Inr (error_response env err, w2)
                            else (case Resource_Update rsrc item (Some original) w2 of
                                    Inl p \<Rightarrow> Inl p
                                  | Inr (err, w3) \<Rightarrow>
                                      if err \<noteq> None then Inr (error_response env err, w3)
                                      else (case item of
                                              None \<Rightarrow> Inl NilDereference
                                            | Some a \<Rightarrow>
                                                (case Projection_Eval env (Projection (query_at w3 q))
                                                        (Payload (item_at w3 a)) rsrc w3 of
                                                   ((payload, err), w4) \<Rightarrow>
                                                     (let w5 = set_Payload a payload w4
                                                      in if err \<noteq> None then Inr (error_response env err, w5)
                                                         else Inr (itemPutCommand_respond env r commandHeaders
                                                                     responseBody changes a w5))))))))"

text \<open>Lines 175 to 187: the integrity check, the command on a copy of the original, Prepare.\<close>

definition itemPutCommand_run ::
  "('v, 'x) rest_env \<Rightarrow> 'v Request \<Rightarrow> ('v, 'x) RouteMatch \<Rightarrow> 'v payload \<Rightarrow> addr \<Rightarrow> ptr \<Rightarrow>
     ('v, 'x) world \<Rightarrow> panic + (response \<times> ('v, 'x) world)" where
  "itemPutCommand_run env r route payload q original w =
     (case checkIntegrityRequest env r (map_option (item_at w) original) of
        Some err \<Rightarrow> Inr (rest_error_response err, w)
      | None \<Rightarrow>
          (case route_Command route of
             None \<Rightarrow> Inl NilDereference
           | Some command \<Rightarrow>
               (case clone_Clone env original w of
                  (copied, w1) \<Rightarrow>
                    (case call (\<lambda>res. Ev_Command copied payload) (command r copied payload) w1 of
                       ((commandHeaders, item, responseBody, err), w2) \<Rightarrow>
                         if err \<noteq> None then Inr (error_response env err, w2)
                         else (case item of
                                 None \<Rightarrow> Inl NilDereference
                               | Some a \<Rightarrow>
                                   (case original of
                                      None \<Rightarrow> Inl NilDereference
                                    | Some orig \<Rightarrow>
                                        (let itemPayload = Payload (item_at w2 a);
                                             originalPayload = Some (Payload (item_at w2 orig))
                                         in case call (\<lambda>res. Ev_Prepare itemPayload originalPayload True)
                                                   (Prepare (validator (route_Resource route)) itemPayload
                                                      originalPayload True) w2 of
                                              ((changes, base), w3) \<Rightarrow>
                                                if length (entries changes) > 0
                                                then itemPutCommand_store env r route q orig commandHeaders
                                                       responseBody changes base w3
                                                else Inr (itemPutCommand_respond env r commandHeaders
                                                            responseBody changes a w3))))))))"

definition itemPutCommand ::
  "('v, 'x) rest_env \<Rightarrow> 'v Request \<Rightarrow> ('v, 'x) RouteMatch \<Rightarrow> ('v, 'x) world \<Rightarrow>
     panic + (response \<times> ('v, 'x) world)" where
  "itemPutCommand env r route w =
     (case decodePayload r of
        Inl e \<Rightarrow> Inr (rest_error_response e, w)
      | Inr payload \<Rightarrow>
          (case route_Query route of
             Inl e \<Rightarrow> Inr (rest_error_response e, w)
           | Inr q \<Rightarrow>
               (case Resource_Find (route_Resource route) q (limit_one q w) of
                  Inl p \<Rightarrow> Inl p
                | Inr ((l, err), w1) \<Rightarrow>
                    if err \<noteq> None then Inr (error_response env err, w1)
                    else (case l of
                            None \<Rightarrow> Inl NilDereference
                          | Some lst \<Rightarrow>
                              if length (Items lst) = 0 then Inr (rest_error_response ErrNotFound, w1)
                              else itemPutCommand_run env r route payload q (Items lst ! 0) w1))))"

definition itemPut ::
  "'v stdlib \<Rightarrow> ('v, 'x) rest_env \<Rightarrow> 'v Request \<Rightarrow> ('v, 'x) RouteMatch \<Rightarrow> ('v, 'x) world \<Rightarrow>
     panic + (response \<times> ('v, 'x) world)" where
  "itemPut L env r route w =
     (if route_Command route \<noteq> None then itemPutCommand env r route w
      else itemPutCreateReplace L env r route w)"

text \<open>The calls a fetch makes: the Find hooks and the storage's Find and Count.\<close>

fun is_fetch :: "'v event \<Rightarrow> bool" where
  "is_fetch (Ev_onFind q err) = True"
| "is_fetch (Ev_storage_Find q list err) = True"
| "is_fetch (Ev_storage_Count q n err) = True"
| "is_fetch (Ev_onFound q list err list' err') = True"
| "is_fetch ev = False"


section \<open>Registration order, as the claim words it\<close>

text \<open>
  The values a call of \<^verbatim>\<open>Chain\<close> goes through, nested slices opened in place,
  and the middlewares of each kind among them, in that order.
\<close>

fun flatten :: "('v, 'x) middleware list \<Rightarrow> ('v, 'x) middleware list"
  and flatten_one :: "('v, 'x) middleware \<Rightarrow> ('v, 'x) middleware list" where
  "flatten [] = []"
| "flatten (m # ms) = flatten_one m @ flatten ms"
| "flatten_one (MiddlewareSlice ms) = flatten ms"
| "flatten_one m = [m]"

definition Gets where "Gets ms = [m. OnGetMiddleware m \<leftarrow> ms]"
definition Finds where "Finds ms = [m. OnFindMiddleware m \<leftarrow> ms]"
definition Reduces where "Reduces ms = [m. OnReduceMiddleware m \<leftarrow> ms]"
definition Inserts where "Inserts ms = [m. OnInsertMiddleware m \<leftarrow> ms]"
definition Updates where "Updates ms = [m. OnUpdateMiddleware m \<leftarrow> ms]"
definition Deletes where "Deletes ms = [m. OnDeleteMiddleware m \<leftarrow> ms]"
definition Clears where "Clears ms = [m. OnClearMiddleware m \<leftarrow> ms]"

text \<open>
  The claim's words: the first-registered middleware is applied outermost
  around the second, and so on, with the default handler innermost.
\<close>

definition compose :: "('h \<Rightarrow> 'h) list \<Rightarrow> 'h \<Rightarrow> 'h" where
  "compose c h = foldr (\<lambda>m next. m next) c h"

definition composed :: "'v stdlib \<Rightarrow> ('v, 'x) Resource \<Rightarrow> bool" where
  "composed L r \<longleftrightarrow>
     onGetThen (middlewares r) = compose (onGetC (middlewares r)) (onGetMiddlewareDefault r) \<and>
     onFindThen (middlewares r) = compose (onFindC (middlewares r)) (onFindMiddlewareDefault r) \<and>
     onReduceThen (middlewares r) = compose (onReduceC (middlewares r)) (onReduceMiddlewareDefault r) \<and>
     onInsertThen (middlewares r) = compose (onInsertC (middlewares r)) (onInsertMiddlewareDefault L r) \<and>
     onUpdateThen (middlewares r) = compose (onUpdateC (middlewares r)) (onUpdateMiddlewareDefault L r) \<and>
     onDeleteThen (middlewares r) = compose (onDeleteC (middlewares r)) (onDeleteMiddlewareDefault r) \<and>
     onClearThen (middlewares r) = compose (onClearC (middlewares r)) (onClearMiddlewareDefault r)"

text \<open>
  What registering the middlewares \<open>new\<close> of one kind leaves: the stored list
  grows by them, in order, and the handler is rebuilt from the whole list
  and the default handler \<open>d\<close> (it is untouched when there is none).
\<close>

definition rebuilt :: "('h \<Rightarrow> 'h) list \<Rightarrow> 'h \<Rightarrow> ('h \<Rightarrow> 'h) list \<Rightarrow> 'h \<Rightarrow> ('h \<Rightarrow> 'h) list \<Rightarrow> 'h \<Rightarrow> bool" where
  "rebuilt c h new d c' h' \<longleftrightarrow> c' = c @ new \<and> h' = (if new = [] then h else compose c' d)"

definition registers :: "'v stdlib \<Rightarrow> ('v, 'x) Resource \<Rightarrow> ('v, 'x) middleware list \<Rightarrow> ('v, 'x) Resource \<Rightarrow> bool" where
  "registers L r fl r' \<longleftrightarrow>
     hooks r' = hooks r \<and> storage r' = storage r \<and>
     rebuilt (onGetC (middlewares r)) (onGetThen (middlewares r)) (Gets fl) (onGetMiddlewareDefault r)
       (onGetC (middlewares r')) (onGetThen (middlewares r')) \<and>
     rebuilt (onFindC (middlewares r)) (onFindThen (middlewares r)) (Finds fl) (onFindMiddlewareDefault r)
       (onFindC (middlewares r')) (onFindThen (middlewares r')) \<and>
     rebuilt (onReduceC (middlewares r)) (onReduceThen (middlewares r)) (Reduces fl) (onReduceMiddlewareDefault r)
       (onReduceC (middlewares r')) (onReduceThen (middlewares r')) \<and>
     rebuilt (onInsertC (middlewares r)) (onInsertThen (middlewares r)) (Inserts fl) (onInsertMiddlewareDefault L r)
       (onInsertC (middlewares r')) (onInsertThen (middlewares r')) \<and>
     rebuilt (onUpdateC (middlewares r)) (onUpdateThen (middlewares r)) (Updates fl) (onUpdateMiddlewareDefault L r)
       (onUpdateC (middlewares r')) (onUpdateThen (middlewares r')) \<and>
     rebuilt (onDeleteC (middlewares r)) (onDeleteThen (middlewares r)) (Deletes fl) (onDeleteMiddlewareDefault r)
       (onDeleteC (middlewares r')) (onDeleteThen (middlewares r')) \<and>
     rebuilt (onClearC (middlewares r)) (onClearThen (middlewares r)) (Clears fl) (onClearMiddlewareDefault r)
       (onClearC (middlewares r')) (onClearThen (middlewares r'))"

section \<open>The content-hash invariant and the MultiGet rule, as the claims word them\<close>

text \<open>
  The claim's words for the content-hash invariant: an item carries the hash
  of its current payload; \<open>hashed\<close> is the item with that hash written in.
\<close>

definition carries_hash :: "'v stdlib \<Rightarrow> 'v Item \<Rightarrow> bool" where
  "carries_hash L it \<longleftrightarrow> GenEtag L (Payload it) = Inr (ETag it)"

definition hashed :: "'v stdlib \<Rightarrow> 'v Item \<Rightarrow> 'v Item" where
  "hashed L it = (case GenEtag L (Payload it) of Inl err \<Rightarrow> it | Inr etag \<Rightarrow> it\<lparr>ETag := etag\<rparr>)"

definition hashable :: "'v stdlib \<Rightarrow> 'v Item \<Rightarrow> bool" where
  "hashable L it \<longleftrightarrow> (case GenEtag L (Payload it) of Inl err \<Rightarrow> False | Inr etag \<Rightarrow> True)"






section \<open>Example inputs\<close>

text \<open>
  Concrete collaborators and a concrete world, at which the theorems below
  are instantiated. Values are integers; the field encoder refuses negative
  ones; the digest is the marshalled text itself.
\<close>

definition lib0 :: "int stdlib" where
  "lib0 = \<lparr>json_value = (\<lambda>v. if v < 0 then Inl (errors_New ''json: unsupported value'')
                              else if v = 0 then Inr ''0'' else if v = 1 then Inr ''1''
                              else if v = 2 then Inr ''2'' else Inr ''n''),
           json_key = (\<lambda>k. k),
           md5_hex = (\<lambda>b. b)\<rparr>"

text \<open>No hook registered: pre-hooks return nil, post-hooks change nothing.\<close>

definition no_hooks :: "('v, 'x) eventHandler" where
  "no_hooks =
     \<lparr>onGet = (\<lambda>ident w. (None, w)),
      onGot = (\<lambda>item err w. ((item, err), w)),
      onFind = (\<lambda>q w. (None, w)),
      onFound = (\<lambda>q list err w. ((list, err), w)),
      onInsert = (\<lambda>items w. (None, w)),
      onInserted = (\<lambda>items err w. (err, w)),
      onUpdate = (\<lambda>item original w. (None, w)),
      onUpdated = (\<lambda>item original err w. (err, w)),
      onDelete = (\<lambda>item w. (None, w)),
      onDeleted = (\<lambda>item err w. (err, w)),
      onClear = (\<lambda>q w. (None, w)),
      onCleared = (\<lambda>q deleted err w. ((deleted, err), w))\<rparr>"

text \<open>
  A storage that finds the item at address 1 without knowing the total,
  counts 7, and notes its writes in its own state.
\<close>

definition storage0 :: "('v, string list) storageHandler" where
  "storage0 =
     \<lparr>storage_Get = (\<lambda>ident w. ((Some 1, None), w)),
      storage_MultiGet = (\<lambda>ids w. ((map (\<lambda>_. Some 1) ids, None), w)),
      storage_Find = (\<lambda>q w. ((Some \<lparr>Total = - 1, Items = [Some 1]\<rparr>, None), w)),
      storage_Count = (\<lambda>cq w. ((7, None), w)),
      storage_Reduce = (\<lambda>q reducer w. (None, w)),
      storage_Insert = (\<lambda>items w. (None, w\<lparr>ext := ext w @ [''insert'']\<rparr>)),
      storage_Update = (\<lambda>item original w. (None, w\<lparr>ext := ext w @ [''update'']\<rparr>)),
      storage_Delete = (\<lambda>item w. (None, w\<lparr>ext := ext w @ [''delete'']\<rparr>)),
      storage_Clear = (\<lambda>q w. ((3, None), w))\<rparr>"

definition validator0 :: "('v, 'x) Validator" where
  "validator0 =
     \<lparr>Prepare = (\<lambda>payload original replace w.
        ((payload, case original of None \<Rightarrow> Some [] | Some p \<Rightarrow> p), w)),
      Validate = (\<lambda>changes base w.
        ((Some (entries changes @ filter (\<lambda>(k, v). map_of (entries changes) k = None) (entries base)), []), w))\<rparr>"

text \<open>The handlers of a resource before \<^verbatim>\<open>initMiddlewares\<close>: nil functions, no registrations.\<close>

definition nil_handlers :: "('v, 'x) middlewareHandlers" where
  "nil_handlers =
     \<lparr>onGetC = [], onFindC = [], onReduceC = [], onInsertC = [], onUpdateC = [], onDeleteC = [],
      onClearC = [],
      onGetThen = (\<lambda>ident w. ((None, None), w)),
      onMultiGetThen = (\<lambda>ids w. (([], None), w)),
      onFindThen = (\<lambda>q forceTotal w. Inl NilDereference),
      onReduceThen = (\<lambda>q reducer w. (None, w)),
      onInsertThen = (\<lambda>items w. ((items, None), w)),
      onUpdateThen = (\<lambda>item original w. ((None, None), w)),
      onDeleteThen = (\<lambda>item w. ((None, None), w)),
      onClearThen = (\<lambda>q w. ((0, None), w))\<rparr>"

definition resource0 :: "(int, string list) Resource" where
  "resource0 =
     initMiddlewares lib0
       \<lparr>name = ''users'', validator = validator0, storage = storage0,
        conf = \<lparr>IsModeAllowed = (\<lambda>m. True)\<rparr>, hooks = no_hooks, middlewares = nil_handlers\<rparr>"

definition item0 :: "int Item" where
  "item0 = \<lparr>ID = 1, ETag = ''stale'', Updated = 100, Payload = Some [(''name'', 2), (''id'', 1)]\<rparr>"

definition item1 :: "int Item" where
  "item1 = \<lparr>ID = 1, ETag = ''{id:1,name:0}'', Updated = 50, Payload = Some [(''id'', 1), (''name'', 0)]\<rparr>"

definition query0 :: Query where
  "query0 = \<lparr>Projection = [], Predicate = [''id == 1''], Sort = [''name''],
             Window = Some \<lparr>Offset = 0, Limit = 20\<rparr>\<rparr>"

text \<open>The item of a request at address 0, the stored original at address 1, and two slices.\<close>

definition world0 :: "(int, string list) world" where
  "world0 =
     \<lparr>trace = [],
      item_at = (\<lambda>a. if a = 0 then item0 else item1),
      slice_at = (\<lambda>a. if a = 0 then [Some 0] else if a = 1 then [Some 1, Some 0] else []),
      query_at = (\<lambda>a. query0),
      next_addr = 10,
      ext = []\<rparr>"

text \<open>A Get middleware that notes in the storage's journal when it is entered and left.\<close>

definition noting :: "string \<Rightarrow> (int, string list) OnGetMiddlewareHandler \<Rightarrow> (int, string list) OnGetMiddlewareHandler" where
  "noting tag next ident w =
     (case next ident (w\<lparr>ext := ext w @ [tag @ '' in'']\<rparr>) of
        (res, w') \<Rightarrow> (res, w'\<lparr>ext := ext w' @ [tag @ '' out'']\<rparr>))"

text \<open>
  Hooks for a MultiGet over the ids 1 and 2: the pre-hook refuses id 2; the
  post-hook leaves its first call as it is and rewrites the error of every
  later call.
\<close>

definition hooks_multi :: "(int, string list) eventHandler" where
  "hooks_multi =
     no_hooks
       \<lparr>onGet := (\<lambda>ident w. (if ident = 2 then Some resource_ErrForbidden else None, w)),
        onGot := (\<lambda>item err w.
                    if ext w = [] then ((item, err), w\<lparr>ext := [''seen'']\<rparr>)
                    else ((item, Some resource_ErrNotFound), w))\<rparr>"


text \<open>The world with an item at address 0 whose payload cannot be hashed.\<close>

definition world_unhashable :: "(int, string list) world" where
  "world_unhashable =
     world0\<lparr>item_at := (\<lambda>a. if a = 0 then item0\<lparr>Payload := Some [(''name'', - 1), (''id'', 1)]\<rparr> else item1)\<rparr>"

text \<open>A post-hook of Update that clears whatever error it is given.\<close>

definition hooks_clearing :: "(int, string list) eventHandler" where
  "hooks_clearing = no_hooks\<lparr>onUpdated := (\<lambda>item original err w. (None, w))\<rparr>"

text \<open>
  A resource whose composed handlers are interceptors that do not call the
  next handler: Update answers with the item at address 1 and no error,
  Delete with a conflict, Insert with the slice at address 1 and no error.
\<close>

definition resource_intercepted :: "(int, string list) Resource" where
  "resource_intercepted =
     resource0\<lparr>middlewares := (middlewares resource0)
       \<lparr>onUpdateThen := (\<lambda>item original w. ((Some 1, None), w)),
        onDeleteThen := (\<lambda>item w. ((Some 1, Some resource_ErrConflict), w)),
        onInsertThen := (\<lambda>items w. ((1, None), w))\<rparr>\<rparr>"

text \<open>
  Two Find middlewares: one hands on a forced total whatever it was asked,
  the other an unforced one. The resources that \<^verbatim>\<open>Chain\<close> makes of \<open>resource0\<close>
  when one of them is registered.
\<close>

definition forcing :: "(int, string list) OnFindMiddlewareHandler \<Rightarrow> (int, string list) OnFindMiddlewareHandler" where
  "forcing next q forceTotal w = next q True w"

definition unforcing :: "(int, string list) OnFindMiddlewareHandler \<Rightarrow> (int, string list) OnFindMiddlewareHandler" where
  "unforcing next q forceTotal w = next q False w"

definition resource_forcing :: "(int, string list) Resource" where
  "resource_forcing =
     resource0\<lparr>middlewares := (middlewares resource0)
       \<lparr>onFindC := [forcing], onFindThen := forcing (onFindMiddlewareDefault resource0)\<rparr>\<rparr>"

definition resource_unforcing :: "(int, string list) Resource" where
  "resource_unforcing =
     resource0\<lparr>middlewares := (middlewares resource0)
       \<lparr>onFindC := [unforcing], onFindThen := unforcing (onFindMiddlewareDefault resource0)\<rparr>\<rparr>"

text \<open>
  A request that replaces the name, asks for no content and expects the
  stored hash; helpers that build an item as \<^verbatim>\<open>NewItem\<close> would, project by
  field name and copy an item to a new address; a route to the item with id 1
  of \<open>resource0\<close>.
\<close>

definition request0 :: "int Request" where
  "request0 =
     \<lparr>decodePayload = Inr (Some [(''name'', 2)]), If_Match = Some ''{id:1,name:0}'',
      If_Unmodified_Since = None, isNoContent = True\<rparr>"

definition env0 :: "(int, string list) rest_env" where
  "env0 =
     \<lparr>checkIntegrityRequest = checkIntegrityRequest_spec,
      NewItem = (\<lambda>doc w.
        case map_of (entries doc) ''id'' of
          None \<Rightarrow> ((None, Some (errors_New ''Missing ID field'')), w)
        | Some i \<Rightarrow>
            (case GenEtag lib0 doc of
               Inl err \<Rightarrow> ((None, Some err), w)
             | Inr etag \<Rightarrow>
                 ((Some (next_addr w), None),
                  w\<lparr>item_at := (item_at w)(next_addr w := \<lparr>ID = i, ETag = etag, Updated = 200, Payload = doc\<rparr>),
                    next_addr := Suc (next_addr w)\<rparr>))),
      Projection_Eval = (\<lambda>projection payload rsrc w.
        ((if projection = [] then payload else map_option (filter (\<lambda>(k, v). k \<in> set projection)) payload,
          None), w)),
      clone_Clone = (\<lambda>p w.
        case p of
          None \<Rightarrow> (None, w)
        | Some a \<Rightarrow> (Some (next_addr w),
                      w\<lparr>item_at := (item_at w)(next_addr w := item_at w a), next_addr := Suc (next_addr w)\<rparr>)),
      Tombstone = - 99,
      ErrNoStorage_text = ''No Storage Defined'',
      map_value = (\<lambda>p. int (length (entries p)))\<rparr>"

definition route0 :: "(int, string list) RouteMatch" where
  "route0 =
     \<lparr>route_Query = Inr 0, route_Resource = resource0, route_ResourcePath_Values = Some [(''id'', 1)],
      route_Command = None\<rparr>"

text \<open>The world as the fetch of the original leaves it.\<close>

definition world_fetched :: "(int, string list) world" where
  "world_fetched =
     world0
       \<lparr>trace :=
          [Ev_onFind 0 None, Ev_storage_Find 0 (Some \<lparr>Total = - 1, Items = [Some 1]\<rparr>) None,
           Ev_onFound 0 (Some \<lparr>Total = - 1, Items = [Some 1]\<rparr>) None (Some \<lparr>Total = - 1, Items = [Some 1]\<rparr>) None],
        query_at := (query_at world0)(0 := query0\<lparr>Window := Some \<lparr>Offset = 0, Limit = 1\<rparr>\<rparr>)\<rparr>"

text \<open>
  A command that gives its item the request's payload; a route that names it.
\<close>

definition command0 :: "(int, string list) Command" where
  "command0 r item payload w =
     (case item of
        None \<Rightarrow> (([], None, 0, Some (errors_New ''no item'')), w)
      | Some a \<Rightarrow> (([(''X-Command'', [''done''])], Some a, 1, None), set_Payload a payload w))"

definition route_command :: "(int, string list) RouteMatch" where
  "route_command = route0\<lparr>route_Command := Some command0\<rparr>"

text \<open>A storage without the item, and the route to its resource: there a PUT creates.\<close>

definition resource_empty :: "(int, string list) Resource" where
  "resource_empty =
     initMiddlewares lib0
       \<lparr>name = ''users'', validator = validator0,
        storage = storage0\<lparr>storage_Find := (\<lambda>q w. ((Some \<lparr>Total = 0, Items = []\<rparr>, None), w))\<rparr>,
        conf = \<lparr>IsModeAllowed = (\<lambda>m. True)\<rparr>, hooks = no_hooks, middlewares = nil_handlers\<rparr>"

text \<open>The world of \<open>world0\<close> with the item at address 0 carrying the hash of its payload.\<close>

definition world_fresh :: "(int, string list) world" where
  "world_fresh = world0\<lparr>item_at := (item_at world0)(0 := item0\<lparr>ETag := ''{id:1,name:2}''\<rparr>)\<rparr>"

text \<open>A request whose payload names another id than the route's.\<close>

definition request_rename :: "int Request" where
  "request_rename = request0\<lparr>decodePayload := Inr (Some [(''id'', 5), (''name'', 2)])\<rparr>"


text \<open>
  An Update pre-hook that gives the item it is handed the ID 5, and
  \<open>resource0\<close> with it.
\<close>

definition hooks_renaming :: "(int, string list) eventHandler" where
  "hooks_renaming =
     no_hooks
       \<lparr>onUpdate := (\<lambda>item original w.
          (None, case item of
                   None \<Rightarrow> w
                 | Some a \<Rightarrow> w\<lparr>item_at := (item_at w)(a := (item_at w a)\<lparr>ID := 5\<rparr>)\<rparr>))\<rparr>"

definition resource_renaming :: "(int, string list) Resource" where
  "resource_renaming =
     initMiddlewares lib0
       \<lparr>name = ''users'', validator = validator0, storage = storage0,
        conf = \<lparr>IsModeAllowed = (\<lambda>m. True)\<rparr>, hooks = hooks_renaming, middlewares = nil_handlers\<rparr>"


section \<open>Properties of the content hash\<close>

lemma same_keys_same_entries:
  "map fst xs = map fst ys \<Longrightarrow> distinct (map fst xs) \<Longrightarrow> map_of xs = map_of ys \<Longrightarrow> xs = ys"
proof (induction xs arbitrary: ys)
  case Nil
  then show ?case by simp
next
  case (Cons x xs)
  then obtain y ys' where ys: "ys = y # ys'" by (cases ys) auto
  obtain k v where x: "x = (k, v)" by (cases x)
  obtain k' v' where y: "y = (k', v')" by (cases y)
  from Cons.prems ys x y have k: "k' = k" and keys: "map fst xs = map fst ys'" by auto
  from Cons.prems(3) have "map_of (x # xs) k = map_of ys k" by (rule fun_cong)
  with ys x y k have v: "v' = v" by simp
  have "k \<notin> fst ` set xs" "k \<notin> fst ` set ys'"
    using Cons.prems(2) keys x by (auto simp flip: set_map)
  then have notin: "map_of xs k = None" "map_of ys' k = None"
    by (simp_all add: map_of_eq_None_iff)
  have "map_of xs = map_of ys'"
  proof
    fix a
    show "map_of xs a = map_of ys' a"
    proof (cases "a = k")
      case True
      then show ?thesis using notin by simp
    next
      case False
      from Cons.prems(3) have "map_of (x # xs) a = map_of ys a" by (rule fun_cong)
      with False ys x y k show ?thesis by simp
    qed
  qed
  with Cons.IH [OF keys] Cons.prems(2) have "xs = ys'" by simp
  with ys x y k v show ?case by simp
qed

lemma sort_key_fst_unique:
  assumes "distinct (map fst p)" and "distinct (map fst q)" and "map_of p = map_of q"
  shows "sort_key fst p = sort_key fst q"
proof -
  have "dom (map_of p) = dom (map_of q)" using assms(3) by simp
  then have keys: "set (map fst p) = set (map fst q)" by (simp add: dom_map_of_conv_image_fst)
  have "map fst (sort_key fst p) = map fst (sort_key fst q)"
  proof (rule sorted_distinct_set_unique)
    show "sorted (map fst (sort_key fst p))" by simp
    show "sorted (map fst (sort_key fst q))" by simp
    show "distinct (map fst (sort_key fst p))" using assms(1) by (simp add: distinct_map)
    show "distinct (map fst (sort_key fst q))" using assms(2) by (simp add: distinct_map)
    show "set (map fst (sort_key fst p)) = set (map fst (sort_key fst q))" using keys by simp
  qed
  moreover have "distinct (map fst (sort_key fst p))" using assms(1) by (simp add: distinct_map)
  moreover have "map_of (sort_key fst p) = map_of (sort_key fst q)"
  proof -
    have "map_of (sort_key fst p) = map_of p"
      by (rule map_of_eqI[symmetric]) (use assms(1) in \<open>auto simp: map_of_eq_Some_iff distinct_map dest: map_of_SomeD\<close>)
    moreover have "map_of (sort_key fst q) = map_of q"
      by (rule map_of_eqI[symmetric]) (use assms(2) in \<open>auto simp: map_of_eq_Some_iff distinct_map dest: map_of_SomeD\<close>)
    ultimately show ?thesis using assms(3) by simp
  qed
  ultimately show ?thesis by (rule same_keys_same_entries)
qed

text \<open>
  C10, as amended. \<^verbatim>\<open>GenEtag\<close> is deterministic on payloads that are both
  \<^verbatim>\<open>nil\<close> or both not \<^verbatim>\<open>nil\<close>: two such payloads that are equal field for
  field, in whatever order the maps hold their entries, give the same hash
  string and the same success or error outcome. The encoding of a field
  value is a function of the value.
\<close>

theorem GenEtag_deterministic:
  assumes "p = None \<longleftrightarrow> p' = None"
    and "distinct (map fst (entries p))" and "distinct (map fst (entries p'))"
    and "map_of (entries p) = map_of (entries p')"
  shows "GenEtag L p = GenEtag L p'"
proof (cases p)
  case None
  with assms(1) show ?thesis by simp
next
  case (Some kvs)
  with assms(1) obtain kvs' where p': "p' = Some kvs'" by (cases p') auto
  from assms(2-4) Some p' have "sort_key fst kvs = sort_key fst kvs'"
    by (intro sort_key_fst_unique) (simp_all add: entries_def)
  with Some p' show ?thesis by (simp add: GenEtag_def json_Marshal_def)
qed

text \<open>
  Two orders of the same two fields, with a value that can be encoded and
  with one that cannot; and the \<^verbatim>\<open>nil\<close> map twice.
\<close>

theorem GenEtag_deterministic_witness:
  "distinct (map fst (entries (Some [(''name'', 2::int), (''id'', 1)]))) \<and>
   distinct (map fst (entries (Some [(''id'', 1::int), (''name'', 2)]))) \<and>
   map_of (entries (Some [(''name'', 2::int), (''id'', 1)])) = map_of (entries (Some [(''id'', 1), (''name'', 2)])) \<and>
   GenEtag lib0 (Some [(''name'', 2), (''id'', 1)]) = GenEtag lib0 (Some [(''id'', 1), (''name'', 2)]) \<and>
   GenEtag lib0 (Some [(''id'', 1), (''name'', 2)]) = Inr ''{id:1,name:2}'' \<and>
   GenEtag lib0 (Some [(''name'', - 1), (''id'', 1)]) = GenEtag lib0 (Some [(''id'', 1), (''name'', - 1)]) \<and>
   GenEtag lib0 (Some [(''id'', 1), (''name'', - 1)]) = Inl (errors_New ''json: unsupported value'') \<and>
   GenEtag lib0 None = Inr ''null''"
proof -
  let ?a = "Some [(''name'', 2::int), (''id'', 1)]" and ?b = "Some [(''id'', 1::int), (''name'', 2)]"
  let ?c = "Some [(''name'', - 1::int), (''id'', 1)]" and ?d = "Some [(''id'', 1::int), (''name'', - 1)]"
  have n: "?a = None \<longleftrightarrow> ?b = None" "?c = None \<longleftrightarrow> ?d = None" by simp_all
  have d1: "distinct (map fst (entries ?a))" by (simp add: entries_def)
  have d2: "distinct (map fst (entries ?b))" by (simp add: entries_def)
  have m: "map_of (entries ?a) = map_of (entries ?b)"
    by (rule ext) (simp add: entries_def)
  have d3: "distinct (map fst (entries ?c))" by (simp add: entries_def)
  have d4: "distinct (map fst (entries ?d))" by (simp add: entries_def)
  have m': "map_of (entries ?c) = map_of (entries ?d)"
    by (rule ext) (simp add: entries_def)
  have v: "GenEtag lib0 ?b = Inr ''{id:1,name:2}''"
    by (simp add: GenEtag_def json_Marshal_def lib0_def)
  have v': "GenEtag lib0 ?d = Inl (errors_New ''json: unsupported value'')"
    by (simp add: GenEtag_def json_Marshal_def lib0_def)
  have z: "GenEtag lib0 None = Inr ''null''"
    by (simp add: GenEtag_def json_Marshal_def lib0_def)
  from d1 d2 m v v' z GenEtag_deterministic [OF n(1) d1 d2 m, of lib0]
    GenEtag_deterministic [OF n(2) d3 d4 m', of lib0]
  show ?thesis by simp
qed

text \<open>
  As the claim words it, any two payloads that are equal field for field
  have the same hash. The \<^verbatim>\<open>nil\<close> map and the empty map have the same
  fields, none, and are hashed from the texts \<^verbatim>\<open>null\<close> and \<^verbatim>\<open>{}\<close>.
\<close>

theorem GenEtag_deterministic_counterexample:
  "map_of (entries (None :: int payload)) = map_of (entries (Some [])) \<and>
   json_Marshal lib0 None = Inr ''null'' \<and>
   json_Marshal lib0 (Some []) = Inr ''{}'' \<and>
   GenEtag lib0 None = Inr (md5_hex lib0 ''null'') \<and>
   GenEtag lib0 (Some []) = Inr (md5_hex lib0 ''{}'') \<and>
   GenEtag lib0 None \<noteq> GenEtag lib0 (Some [])"
  by (simp add: entries_def GenEtag_def json_Marshal_def lib0_def)


section \<open>Registration (C4)\<close>


lemmas kinds_defs = Gets_def Finds_def Reduces_def Inserts_def Updates_def Deletes_def Clears_def

lemma wrap_take: "n \<le> length c \<Longrightarrow> wrap c n h = compose (take n c) h"
proof (induction n arbitrary: h)
  case 0
  then show ?case by (simp add: compose_def)
next
  case (Suc n)
  then show ?case by (simp add: take_Suc_conv_app_nth compose_def)
qed

lemma wrap_all: "wrap c (length c) h = compose c h"
  by (simp add: wrap_take)

lemma default_cong:
  assumes "hooks r' = hooks r" and "storage r' = storage r"
  shows "onGetMiddlewareDefault r' = onGetMiddlewareDefault r"
    and "onFindMiddlewareDefault r' = onFindMiddlewareDefault r"
    and "onReduceMiddlewareDefault r' = onReduceMiddlewareDefault r"
    and "onInsertMiddlewareDefault L r' = onInsertMiddlewareDefault L r"
    and "onUpdateMiddlewareDefault L r' = onUpdateMiddlewareDefault L r"
    and "onDeleteMiddlewareDefault r' = onDeleteMiddlewareDefault r"
    and "onClearMiddlewareDefault r' = onClearMiddlewareDefault r"
  unfolding onGetMiddlewareDefault_def onFindMiddlewareDefault_def onReduceMiddlewareDefault_def
    onInsertMiddlewareDefault_def onUpdateMiddlewareDefault_def onDeleteMiddlewareDefault_def
    onClearMiddlewareDefault_def
  by (simp_all add: assms cong: if_cong sum.case_cong option.case_cong)

lemma default_mw:
  "onGetMiddlewareDefault (r\<lparr>middlewares := m\<rparr>) = onGetMiddlewareDefault r"
  "onFindMiddlewareDefault (r\<lparr>middlewares := m\<rparr>) = onFindMiddlewareDefault r"
  "onReduceMiddlewareDefault (r\<lparr>middlewares := m\<rparr>) = onReduceMiddlewareDefault r"
  "onInsertMiddlewareDefault L (r\<lparr>middlewares := m\<rparr>) = onInsertMiddlewareDefault L r"
  "onUpdateMiddlewareDefault L (r\<lparr>middlewares := m\<rparr>) = onUpdateMiddlewareDefault L r"
  "onDeleteMiddlewareDefault (r\<lparr>middlewares := m\<rparr>) = onDeleteMiddlewareDefault r"
  "onClearMiddlewareDefault (r\<lparr>middlewares := m\<rparr>) = onClearMiddlewareDefault r"
  by (rule default_cong; simp)+

lemma kinds_append:
  "Gets (xs @ ys) = Gets xs @ Gets ys" "Finds (xs @ ys) = Finds xs @ Finds ys"
  "Reduces (xs @ ys) = Reduces xs @ Reduces ys" "Inserts (xs @ ys) = Inserts xs @ Inserts ys"
  "Updates (xs @ ys) = Updates xs @ Updates ys" "Deletes (xs @ ys) = Deletes xs @ Deletes ys"
  "Clears (xs @ ys) = Clears xs @ Clears ys"
  by (simp_all add: kinds_defs)

lemma rebuilt_refl: "rebuilt c h [] d c h"
  by (simp add: rebuilt_def)

lemma rebuilt_trans: "rebuilt c h xs d c1 h1 \<Longrightarrow> rebuilt c1 h1 ys d c' h' \<Longrightarrow> rebuilt c h (xs @ ys) d c' h'"
  by (auto simp: rebuilt_def)

lemma rebuilt_one: "rebuilt c h [m] d (c @ [m]) (wrap (c @ [m]) (length (c @ [m])) d)"
  by (simp only: wrap_all rebuilt_def) simp

lemma rebuilt_composed: "h = compose c d \<Longrightarrow> rebuilt c h new d c' h' \<Longrightarrow> h' = compose c' d"
  by (auto simp: rebuilt_def)

lemma registers_refl: "registers L r [] r"
  by (simp add: registers_def kinds_defs rebuilt_refl)

lemma registersD:
  assumes "registers L r fl r'"
  shows "hooks r' = hooks r" and "storage r' = storage r"
    and "rebuilt (onGetC (middlewares r)) (onGetThen (middlewares r)) (Gets fl) (onGetMiddlewareDefault r)
       (onGetC (middlewares r')) (onGetThen (middlewares r'))"
    and "rebuilt (onFindC (middlewares r)) (onFindThen (middlewares r)) (Finds fl) (onFindMiddlewareDefault r)
       (onFindC (middlewares r')) (onFindThen (middlewares r'))"
    and "rebuilt (onReduceC (middlewares r)) (onReduceThen (middlewares r)) (Reduces fl) (onReduceMiddlewareDefault r)
       (onReduceC (middlewares r')) (onReduceThen (middlewares r'))"
    and "rebuilt (onInsertC (middlewares r)) (onInsertThen (middlewares r)) (Inserts fl) (onInsertMiddlewareDefault L r)
       (onInsertC (middlewares r')) (onInsertThen (middlewares r'))"
    and "rebuilt (onUpdateC (middlewares r)) (onUpdateThen (middlewares r)) (Updates fl) (onUpdateMiddlewareDefault L r)
       (onUpdateC (middlewares r')) (onUpdateThen (middlewares r'))"
    and "rebuilt (onDeleteC (middlewares r)) (onDeleteThen (middlewares r)) (Deletes fl) (onDeleteMiddlewareDefault r)
       (onDeleteC (middlewares r')) (onDeleteThen (middlewares r'))"
    and "rebuilt (onClearC (middlewares r)) (onClearThen (middlewares r)) (Clears fl) (onClearMiddlewareDefault r)
       (onClearC (middlewares r')) (onClearThen (middlewares r'))"
  using assms unfolding registers_def by blast+

lemma registers_trans:
  assumes a: "registers L r xs r1" and b: "registers L r1 ys r'"
  shows "registers L r (xs @ ys) r'"
proof -
  note A = registersD[OF a]
  note d = default_cong[OF A(1,2)]
  note B = registersD[OF b, unfolded d]
  show ?thesis
    unfolding registers_def kinds_append
  proof (intro conjI)
    show "hooks r' = hooks r" using A(1) B(1) by simp
    show "storage r' = storage r" using A(2) B(2) by simp
  qed (rule rebuilt_trans[OF A(3) B(3)] rebuilt_trans[OF A(4) B(4)] rebuilt_trans[OF A(5) B(5)]
        rebuilt_trans[OF A(6) B(6)] rebuilt_trans[OF A(7) B(7)] rebuilt_trans[OF A(8) B(8)]
        rebuilt_trans[OF A(9) B(9)])+
qed

lemma registers_one:
  assumes "Chain_one L r m = Inr r'" and "\<And>ms. m \<noteq> MiddlewareSlice ms"
  shows "registers L r [m] r'"
proof (cases m)
  case (MiddlewareSlice ms)
  with assms(2) show ?thesis by blast
next
  case OtherValue
  with assms(1) show ?thesis by simp
next
  case (OnGetMiddleware x)
  with assms(1) have "r' = r\<lparr>middlewares := (middlewares r)
      \<lparr>onGetC := onGetC (middlewares r) @ [x],
       onGetThen := wrap (onGetC (middlewares r) @ [x]) (length (onGetC (middlewares r) @ [x])) (onGetMiddlewareDefault r)\<rparr>\<rparr>"
    by (simp only: Chain_one.simps Let_def sum.inject)
  then show ?thesis
    unfolding registers_def OnGetMiddleware
    by (simp add: kinds_defs rebuilt_refl rebuilt_one del: wrap.simps length_append)
next
  case (OnFindMiddleware x)
  with assms(1) have "r' = r\<lparr>middlewares := (middlewares r)
      \<lparr>onFindC := onFindC (middlewares r) @ [x],
       onFindThen := wrap (onFindC (middlewares r) @ [x]) (length (onFindC (middlewares r) @ [x])) (onFindMiddlewareDefault r)\<rparr>\<rparr>"
    by (simp only: Chain_one.simps Let_def sum.inject)
  then show ?thesis
    unfolding registers_def OnFindMiddleware
    by (simp add: kinds_defs rebuilt_refl rebuilt_one del: wrap.simps length_append)
next
  case (OnReduceMiddleware x)
  with assms(1) have "r' = r\<lparr>middlewares := (middlewares r)
      \<lparr>onReduceC := onReduceC (middlewares r) @ [x],
       onReduceThen := wrap (onReduceC (middlewares r) @ [x]) (length (onReduceC (middlewares r) @ [x])) (onReduceMiddlewareDefault r)\<rparr>\<rparr>"
    by (simp only: Chain_one.simps Let_def sum.inject)
  then show ?thesis
    unfolding registers_def OnReduceMiddleware
    by (simp add: kinds_defs rebuilt_refl rebuilt_one del: wrap.simps length_append)
next
  case (OnInsertMiddleware x)
  with assms(1) have "r' = r\<lparr>middlewares := (middlewares r)
      \<lparr>onInsertC := onInsertC (middlewares r) @ [x],
       onInsertThen := wrap (onInsertC (middlewares r) @ [x]) (length (onInsertC (middlewares r) @ [x])) (onInsertMiddlewareDefault L r)\<rparr>\<rparr>"
    by (simp only: Chain_one.simps Let_def sum.inject)
  then show ?thesis
    unfolding registers_def OnInsertMiddleware
    by (simp add: kinds_defs rebuilt_refl rebuilt_one del: wrap.simps length_append)
next
  case (OnUpdateMiddleware x)
  with assms(1) have "r' = r\<lparr>middlewares := (middlewares r)
      \<lparr>onUpdateC := onUpdateC (middlewares r) @ [x],
       onUpdateThen := wrap (onUpdateC (middlewares r) @ [x]) (length (onUpdateC (middlewares r) @ [x])) (onUpdateMiddlewareDefault L r)\<rparr>\<rparr>"
    by (simp only: Chain_one.simps Let_def sum.inject)
  then show ?thesis
    unfolding registers_def OnUpdateMiddleware
    by (simp add: kinds_defs rebuilt_refl rebuilt_one del: wrap.simps length_append)
next
  case (OnDeleteMiddleware x)
  with assms(1) have "r' = r\<lparr>middlewares := (middlewares r)
      \<lparr>onDeleteC := onDeleteC (middlewares r) @ [x],
       onDeleteThen := wrap (onDeleteC (middlewares r) @ [x]) (length (onDeleteC (middlewares r) @ [x])) (onDeleteMiddlewareDefault r)\<rparr>\<rparr>"
    by (simp only: Chain_one.simps Let_def sum.inject)
  then show ?thesis
    unfolding registers_def OnDeleteMiddleware
    by (simp add: kinds_defs rebuilt_refl rebuilt_one del: wrap.simps length_append)
next
  case (OnClearMiddleware x)
  with assms(1) have "r' = r\<lparr>middlewares := (middlewares r)
      \<lparr>onClearC := onClearC (middlewares r) @ [x],
       onClearThen := wrap (onClearC (middlewares r) @ [x]) (length (onClearC (middlewares r) @ [x])) (onClearMiddlewareDefault r)\<rparr>\<rparr>"
    by (simp only: Chain_one.simps Let_def sum.inject)
  then show ?thesis
    unfolding registers_def OnClearMiddleware
    by (simp add: kinds_defs rebuilt_refl rebuilt_one del: wrap.simps length_append)
qed

lemma Chain_registers:
  "Chain L r ms = Inr r' \<Longrightarrow> registers L r (flatten ms) r'"
  "Chain_one L r m = Inr r' \<Longrightarrow> registers L r (flatten_one m) r'"
proof (induction L r ms and L r m arbitrary: r' and r' rule: Chain_Chain_one.induct)
  case (1 L r)
  then show ?case by (simp add: registers_refl)
next
  case (2 L r m ms)
  from 2(3) obtain r1 where a: "Chain_one L r m = Inr r1" and b: "Chain L r1 ms = Inr r'"
    by (auto split: sum.splits)
  from registers_trans[OF 2(1)[OF a] 2(2)[OF a b]] show ?case by simp
next
  case (3 L r ms)
  then show ?case by simp
qed (simp_all only: flatten_one.simps, (rule registers_one, assumption, simp)+)

lemma composed_registers:
  assumes c: "composed L r" and g: "registers L r fl r'"
  shows "composed L r'"
proof -
  note G = registersD[OF g]
  note d = default_cong[OF G(1,2)]
  from c have C: "onGetThen (middlewares r) = compose (onGetC (middlewares r)) (onGetMiddlewareDefault r)"
    "onFindThen (middlewares r) = compose (onFindC (middlewares r)) (onFindMiddlewareDefault r)"
    "onReduceThen (middlewares r) = compose (onReduceC (middlewares r)) (onReduceMiddlewareDefault r)"
    "onInsertThen (middlewares r) = compose (onInsertC (middlewares r)) (onInsertMiddlewareDefault L r)"
    "onUpdateThen (middlewares r) = compose (onUpdateC (middlewares r)) (onUpdateMiddlewareDefault L r)"
    "onDeleteThen (middlewares r) = compose (onDeleteC (middlewares r)) (onDeleteMiddlewareDefault r)"
    "onClearThen (middlewares r) = compose (onClearC (middlewares r)) (onClearMiddlewareDefault r)"
    unfolding composed_def by blast+
  show ?thesis
    unfolding composed_def d
    by (intro conjI)
       (rule rebuilt_composed[OF C(1) G(3)] rebuilt_composed[OF C(2) G(4)] rebuilt_composed[OF C(3) G(5)]
          rebuilt_composed[OF C(4) G(6)] rebuilt_composed[OF C(5) G(7)] rebuilt_composed[OF C(6) G(8)]
          rebuilt_composed[OF C(7) G(9)])+
qed


text \<open>
  C4. For every operation kind with a registration point and every run of
  \<^verbatim>\<open>Chain\<close> that returns: the stored registration list grows by the
  middlewares of that kind in the order \<^verbatim>\<open>Chain\<close> met them, and if there is
  at least one, the handler is rebuilt from the whole stored list and the
  default handler, the first-registered middleware outermost and the default
  handler innermost. The handlers \<^verbatim>\<open>initMiddlewares\<close> installs are composed this
  way from the empty lists, and \<^verbatim>\<open>Chain\<close> keeps every handler so composed.
\<close>

theorem Chain_first_registered_outermost:
  assumes "Chain L r ms = Inr r'"
  shows
    "(onGetC (middlewares r') = onGetC (middlewares r) @ Gets (flatten ms) \<and>
      onGetThen (middlewares r') =
        (if Gets (flatten ms) = [] then onGetThen (middlewares r)
         else compose (onGetC (middlewares r')) (onGetMiddlewareDefault r'))) \<and>
     (onFindC (middlewares r') = onFindC (middlewares r) @ Finds (flatten ms) \<and>
      onFindThen (middlewares r') =
        (if Finds (flatten ms) = [] then onFindThen (middlewares r)
         else compose (onFindC (middlewares r')) (onFindMiddlewareDefault r'))) \<and>
     (onReduceC (middlewares r') = onReduceC (middlewares r) @ Reduces (flatten ms) \<and>
      onReduceThen (middlewares r') =
        (if Reduces (flatten ms) = [] then onReduceThen (middlewares r)
         else compose (onReduceC (middlewares r')) (onReduceMiddlewareDefault r'))) \<and>
     (onInsertC (middlewares r') = onInsertC (middlewares r) @ Inserts (flatten ms) \<and>
      onInsertThen (middlewares r') =
        (if Inserts (flatten ms) = [] then onInsertThen (middlewares r)
         else compose (onInsertC (middlewares r')) (onInsertMiddlewareDefault L r'))) \<and>
     (onUpdateC (middlewares r') = onUpdateC (middlewares r) @ Updates (flatten ms) \<and>
      onUpdateThen (middlewares r') =
        (if Updates (flatten ms) = [] then onUpdateThen (middlewares r)
         else compose (onUpdateC (middlewares r')) (onUpdateMiddlewareDefault L r'))) \<and>
     (onDeleteC (middlewares r') = onDeleteC (middlewares r) @ Deletes (flatten ms) \<and>
      onDeleteThen (middlewares r') =
        (if Deletes (flatten ms) = [] then onDeleteThen (middlewares r)
         else compose (onDeleteC (middlewares r')) (onDeleteMiddlewareDefault r'))) \<and>
     (onClearC (middlewares r') = onClearC (middlewares r) @ Clears (flatten ms) \<and>
      onClearThen (middlewares r') =
        (if Clears (flatten ms) = [] then onClearThen (middlewares r)
         else compose (onClearC (middlewares r')) (onClearMiddlewareDefault r'))) \<and>
     (composed L r \<longrightarrow> composed L r') \<and>
     (middlewares r0 = nil_handlers \<longrightarrow> composed L (initMiddlewares L r0))"
proof -
  note R = Chain_registers(1)[OF assms]
  note D = registersD[OF R]
  note dc = default_cong[OF D(1,2)]
  have init: "middlewares r0 = nil_handlers \<longrightarrow> composed L (initMiddlewares L r0)"
    by (simp add: composed_def initMiddlewares_def nil_handlers_def compose_def default_mw)
  have keep: "composed L r \<longrightarrow> composed L r'"
    using composed_registers[OF _ R] by blast
  show ?thesis
    using D(3-9) init keep unfolding rebuilt_def dc by blast
qed

theorem Chain_first_registered_outermost_witness:
  "(case Chain lib0 resource0 [OnGetMiddleware (noting ''A''), MiddlewareSlice [OnGetMiddleware (noting ''B'')]] of
      Inl p \<Rightarrow> False
    | Inr r' \<Rightarrow>
        composed lib0 resource0 \<and> composed lib0 r' \<and>
        onGetC (middlewares r') = [noting ''A'', noting ''B''] \<and>
        onGetThen (middlewares r') = noting ''A'' (noting ''B'' (onGetMiddlewareDefault r')) \<and>
        onFindThen (middlewares r') = onFindMiddlewareDefault r' \<and>
        Resource_Get r' 5 world0 =
          ((Some 1, None),
           world0\<lparr>trace := [Ev_onGet 5 None, Ev_storage_Get 5 (Some 1) None, Ev_onGot (Some 1) None (Some 1) None],
                  ext := [''A in'', ''B in'', ''B out'', ''A out'']\<rparr>))"
proof -
  let ?ms = "[OnGetMiddleware (noting ''A''), MiddlewareSlice [OnGetMiddleware (noting ''B'')]]"
  obtain r' where c: "Chain lib0 resource0 ?ms = Inr r'"
    by (simp add: Let_def)
  have r0: "middlewares (resource0) = middlewares (initMiddlewares lib0
       \<lparr>name = ''users'', validator = validator0, storage = storage0,
        conf = \<lparr>IsModeAllowed = (\<lambda>m. True)\<rparr>, hooks = no_hooks, middlewares = nil_handlers\<rparr>)"
    by (simp add: resource0_def)
  note T = Chain_first_registered_outermost[OF c,
      where ?r0.0 = "\<lparr>name = ''users'', validator = validator0, storage = storage0,
        conf = \<lparr>IsModeAllowed = (\<lambda>m. True)\<rparr>, hooks = no_hooks, middlewares = nil_handlers\<rparr>"]
  have c0: "composed lib0 resource0" using T by (simp add: resource0_def)
  with T have c1: "composed lib0 r'" by blast
  have lists: "onGetC (middlewares resource0) = []" "onFindC (middlewares resource0) = []"
    by (simp_all add: resource0_def initMiddlewares_def nil_handlers_def)
  have fl: "Gets (flatten ?ms) = [noting ''A'', noting ''B'']" "Finds (flatten ?ms) = []"
    by (simp_all add: Gets_def Finds_def)
  from T lists fl have g: "onGetC (middlewares r') = [noting ''A'', noting ''B'']"
    and gt: "onGetThen (middlewares r') = noting ''A'' (noting ''B'' (onGetMiddlewareDefault r'))"
    and ft: "onFindThen (middlewares r') = onFindThen (middlewares resource0)"
    by (simp_all add: compose_def)
  from c0 lists have "onFindThen (middlewares resource0) = onFindMiddlewareDefault resource0"
    by (simp add: composed_def compose_def)
  moreover have hs: "hooks r' = no_hooks" "storage r' = storage0"
    using registersD(1,2)[OF Chain_registers(1)[OF c]] by (simp_all add: resource0_def initMiddlewares_def)
  ultimately have ft': "onFindThen (middlewares r') = onFindMiddlewareDefault r'"
    using ft default_cong(2)[of r' resource0] by (simp add: resource0_def initMiddlewares_def)
  have run: "Resource_Get r' 5 world0 =
          ((Some 1, None),
           world0\<lparr>trace := [Ev_onGet 5 None, Ev_storage_Get 5 (Some 1) None, Ev_onGot (Some 1) None (Some 1) None],
                  ext := [''A in'', ''B in'', ''B out'', ''A out'']\<rparr>)"
    by (simp add: Resource_Get_def gt noting_def onGetMiddlewareDefault_def hs call_def no_hooks_def
        storage0_def world0_def)
  show ?thesis
    unfolding c sum.case using c0 c1 g gt ft' run by blast
qed

section \<open>Default handlers (C5, C6)\<close>


lemma recalcEtag_frame:
  "recalcEtag L vs w = (err, w') \<Longrightarrow>
     trace w' = trace w \<and> slice_at w' = slice_at w \<and> query_at w' = query_at w \<and>
     next_addr w' = next_addr w \<and> ext w' = ext w"
  by (induction L vs w rule: recalcEtag.induct) (auto split: sum.splits)

lemma call_trace: "call ev f w = (a, w') \<Longrightarrow> trace w' = trace w @ [ev a]"
  by (auto simp: call_def split: prod.splits)

lemma call_result: "call ev f w = (a, w') \<Longrightarrow> a = fst (f w)"
  by (auto simp: call_def split: prod.splits)

lemma initMiddlewares_frame:
  "hooks (initMiddlewares L r) = hooks r" "storage (initMiddlewares L r) = storage r"
  "conf (initMiddlewares L r) = conf r" "validator (initMiddlewares L r) = validator r"
  by (simp_all add: initMiddlewares_def)

lemma initMiddlewares_handlers:
  "onGetThen (middlewares (initMiddlewares L r)) = onGetMiddlewareDefault (initMiddlewares L r)"
  "onFindThen (middlewares (initMiddlewares L r)) = onFindMiddlewareDefault (initMiddlewares L r)"
  "onReduceThen (middlewares (initMiddlewares L r)) = onReduceMiddlewareDefault (initMiddlewares L r)"
  "onInsertThen (middlewares (initMiddlewares L r)) = onInsertMiddlewareDefault L (initMiddlewares L r)"
  "onUpdateThen (middlewares (initMiddlewares L r)) = onUpdateMiddlewareDefault L (initMiddlewares L r)"
  "onDeleteThen (middlewares (initMiddlewares L r)) = onDeleteMiddlewareDefault (initMiddlewares L r)"
  "onClearThen (middlewares (initMiddlewares L r)) = onClearMiddlewareDefault (initMiddlewares L r)"
  unfolding default_cong[OF initMiddlewares_frame(1,2)]
  by (simp_all add: initMiddlewares_def)

lemma resource0_parts:
  "hooks resource0 = no_hooks" "storage resource0 = storage0"
  "conf resource0 = \<lparr>IsModeAllowed = (\<lambda>m. True)\<rparr>" "validator resource0 = validator0"
  by (simp_all add: resource0_def initMiddlewares_frame)

lemma resource0_handlers:
  "onGetThen (middlewares resource0) = onGetMiddlewareDefault resource0"
  "onFindThen (middlewares resource0) = onFindMiddlewareDefault resource0"
  "onReduceThen (middlewares resource0) = onReduceMiddlewareDefault resource0"
  "onInsertThen (middlewares resource0) = onInsertMiddlewareDefault lib0 resource0"
  "onUpdateThen (middlewares resource0) = onUpdateMiddlewareDefault lib0 resource0"
  "onDeleteThen (middlewares resource0) = onDeleteMiddlewareDefault resource0"
  "onClearThen (middlewares resource0) = onClearMiddlewareDefault resource0"
  unfolding resource0_def by (rule initMiddlewares_handlers)+

text \<open>
  C5, as amended. Every default handler of a hooked operation calls the
  pre-hook first. If the pre-hook returns an error, the storage is not
  called and the post-hook is given no result and that error. If it returns
  none, the storage step runs on the world the pre-hook left: for Get,
  Delete and Clear the storage call; for Insert and Update the content
  hashes are recomputed first, and the storage is called only if every
  payload could be hashed, the hashing error going to the post-hook
  otherwise; for Find the storage's Find and, when the total is forced, the
  list has total \<open>-1\<close> and there is no error, the storage's Count. The
  post-hook then runs on the world the storage step left, with the result
  and error as they stand, and the handler returns what the post-hook
  leaves. The trace holds exactly these calls in this order. One run does
  not reach the post-hook: Find panics when the storage returns a nil list
  with a nil error.
\<close>

theorem default_handlers_pre_storage_post:
  "(\<forall>e w1 res w2.
      onGet (hooks r) ident w = (Some e, w1) \<and>
      onGot (hooks r) None (Some e) (w1\<lparr>trace := trace w @ [Ev_onGet ident (Some e)]\<rparr>) = (res, w2) \<longrightarrow>
      onGetMiddlewareDefault r ident w =
        (res, w2\<lparr>trace := trace w @ [Ev_onGet ident (Some e), Ev_onGot None (Some e) (fst res) (snd res)]\<rparr>)) \<and>
   (\<forall>w1 got serr w2 res w3.
      onGet (hooks r) ident w = (None, w1) \<and>
      storage_Get (storage r) ident (w1\<lparr>trace := trace w @ [Ev_onGet ident None]\<rparr>) = ((got, serr), w2) \<and>
      onGot (hooks r) got serr
        (w2\<lparr>trace := trace w @ [Ev_onGet ident None, Ev_storage_Get ident got serr]\<rparr>) = (res, w3) \<longrightarrow>
      onGetMiddlewareDefault r ident w =
        (res, w3\<lparr>trace := trace w @ [Ev_onGet ident None, Ev_storage_Get ident got serr,
                                       Ev_onGot got serr (fst res) (snd res)]\<rparr>)) \<and>
   (\<forall>e w1 res w2.
      onFind (hooks r) q w = (Some e, w1) \<and>
      onFound (hooks r) q None (Some e) (w1\<lparr>trace := trace w @ [Ev_onFind q (Some e)]\<rparr>) = (res, w2) \<longrightarrow>
      onFindMiddlewareDefault r q forceTotal w =
        Inr (res, w2\<lparr>trace := trace w @ [Ev_onFind q (Some e),
                                           Ev_onFound q None (Some e) (fst res) (snd res)]\<rparr>)) \<and>
   (\<forall>w1 found serr w2 res w3.
      onFind (hooks r) q w = (None, w1) \<and>
      storage_Find (storage r) q (w1\<lparr>trace := trace w @ [Ev_onFind q None]\<rparr>) = ((found, serr), w2) \<and>
      (serr \<noteq> None \<or> (\<exists>l. found = Some l \<and> \<not> (Total l = - 1 \<and> forceTotal))) \<and>
      onFound (hooks r) q found serr
        (w2\<lparr>trace := trace w @ [Ev_onFind q None, Ev_storage_Find q found serr]\<rparr>) = (res, w3) \<longrightarrow>
      onFindMiddlewareDefault r q forceTotal w =
        Inr (res, w3\<lparr>trace := trace w @ [Ev_onFind q None, Ev_storage_Find q found serr,
                                           Ev_onFound q found serr (fst res) (snd res)]\<rparr>)) \<and>
   (\<forall>w1 l w2 tot cerr w3 res w4.
      onFind (hooks r) q w = (None, w1) \<and>
      storage_Find (storage r) q (w1\<lparr>trace := trace w @ [Ev_onFind q None]\<rparr>) = ((Some l, None), w2) \<and>
      Total l = - 1 \<and> forceTotal \<and>
      storage_Count (storage r) \<lparr>Projection = [], Predicate = Predicate (query_at w2 q), Sort = [], Window = None\<rparr>
        (w2\<lparr>trace := trace w @ [Ev_onFind q None, Ev_storage_Find q (Some l) None]\<rparr>) = ((tot, cerr), w3) \<and>
      onFound (hooks r) q (Some (l\<lparr>Total := tot\<rparr>)) cerr
        (w3\<lparr>trace := trace w @
           [Ev_onFind q None, Ev_storage_Find q (Some l) None,
            Ev_storage_Count \<lparr>Projection = [], Predicate = Predicate (query_at w2 q), Sort = [], Window = None\<rparr>
              tot cerr]\<rparr>) = (res, w4) \<longrightarrow>
      onFindMiddlewareDefault r q forceTotal w =
        Inr (res, w4\<lparr>trace := trace w @
               [Ev_onFind q None, Ev_storage_Find q (Some l) None,
                Ev_storage_Count \<lparr>Projection = [], Predicate = Predicate (query_at w2 q), Sort = [], Window = None\<rparr>
                  tot cerr,
                Ev_onFound q (Some (l\<lparr>Total := tot\<rparr>)) cerr (fst res) (snd res)]\<rparr>)) \<and>
   (\<forall>w1 w2.
      onFind (hooks r) q w = (None, w1) \<and>
      storage_Find (storage r) q (w1\<lparr>trace := trace w @ [Ev_onFind q None]\<rparr>) = ((None, None), w2) \<longrightarrow>
      onFindMiddlewareDefault r q forceTotal w = Inl NilDereference) \<and>
   (\<forall>e w1 err' w2.
      onInsert (hooks r) items w = (Some e, w1) \<and>
      onInserted (hooks r) items (Some e) (w1\<lparr>trace := trace w @ [Ev_onInsert items (Some e)]\<rparr>) = (err', w2) \<longrightarrow>
      onInsertMiddlewareDefault L r items w =
        ((items, err'), w2\<lparr>trace := trace w @ [Ev_onInsert items (Some e),
                                                 Ev_onInserted items (Some e) err']\<rparr>)) \<and>
   (\<forall>w1 e w2 err' w3.
      onInsert (hooks r) items w = (None, w1) \<and>
      recalcEtag L (slice_at w1 items) (w1\<lparr>trace := trace w @ [Ev_onInsert items None]\<rparr>) = (Some e, w2) \<and>
      onInserted (hooks r) items (Some e) w2 = (err', w3) \<longrightarrow>
      onInsertMiddlewareDefault L r items w =
        ((items, err'), w3\<lparr>trace := trace w @ [Ev_onInsert items None, Ev_onInserted items (Some e) err']\<rparr>)) \<and>
   (\<forall>w1 w2 serr w3 err' w4.
      onInsert (hooks r) items w = (None, w1) \<and>
      recalcEtag L (slice_at w1 items) (w1\<lparr>trace := trace w @ [Ev_onInsert items None]\<rparr>) = (None, w2) \<and>
      storage_Insert (storage r) items w2 = (serr, w3) \<and>
      onInserted (hooks r) items serr
        (w3\<lparr>trace := trace w @
           [Ev_onInsert items None,
            Ev_storage_Insert items (map (map_option (item_at w2)) (slice_at w2 items)) serr]\<rparr>) = (err', w4) \<longrightarrow>
      onInsertMiddlewareDefault L r items w =
        ((items, err'), w4\<lparr>trace := trace w @
           [Ev_onInsert items None,
            Ev_storage_Insert items (map (map_option (item_at w2)) (slice_at w2 items)) serr,
            Ev_onInserted items serr err']\<rparr>)) \<and>
   (\<forall>e w1 err' w2.
      onUpdate (hooks r) item original w = (Some e, w1) \<and>
      onUpdated (hooks r) item original (Some e)
        (w1\<lparr>trace := trace w @ [Ev_onUpdate item original (Some e)]\<rparr>) = (err', w2) \<longrightarrow>
      onUpdateMiddlewareDefault L r item original w =
        ((item, err'), w2\<lparr>trace := trace w @ [Ev_onUpdate item original (Some e),
                                                Ev_onUpdated item original (Some e) err']\<rparr>)) \<and>
   (\<forall>w1 e w2 err' w3.
      onUpdate (hooks r) item original w = (None, w1) \<and>
      recalcEtag L [item] (w1\<lparr>trace := trace w @ [Ev_onUpdate item original None]\<rparr>) = (Some e, w2) \<and>
      onUpdated (hooks r) item original (Some e) w2 = (err', w3) \<longrightarrow>
      onUpdateMiddlewareDefault L r item original w =
        ((item, err'), w3\<lparr>trace := trace w @ [Ev_onUpdate item original None,
                                                Ev_onUpdated item original (Some e) err']\<rparr>)) \<and>
   (\<forall>w1 w2 serr w3 err' w4.
      onUpdate (hooks r) item original w = (None, w1) \<and>
      recalcEtag L [item] (w1\<lparr>trace := trace w @ [Ev_onUpdate item original None]\<rparr>) = (None, w2) \<and>
      storage_Update (storage r) item original w2 = (serr, w3) \<and>
      onUpdated (hooks r) item original serr
        (w3\<lparr>trace := trace w @
           [Ev_onUpdate item original None,
            Ev_storage_Update item original (map_option (item_at w2) item) serr]\<rparr>) = (err', w4) \<longrightarrow>
      onUpdateMiddlewareDefault L r item original w =
        ((item, err'), w4\<lparr>trace := trace w @
           [Ev_onUpdate item original None,
            Ev_storage_Update item original (map_option (item_at w2) item) serr,
            Ev_onUpdated item original serr err']\<rparr>)) \<and>
   (\<forall>e w1 err' w2.
      onDelete (hooks r) item w = (Some e, w1) \<and>
      onDeleted (hooks r) item (Some e) (w1\<lparr>trace := trace w @ [Ev_onDelete item (Some e)]\<rparr>) = (err', w2) \<longrightarrow>
      onDeleteMiddlewareDefault r item w =
        ((item, err'), w2\<lparr>trace := trace w @ [Ev_onDelete item (Some e), Ev_onDeleted item (Some e) err']\<rparr>)) \<and>
   (\<forall>w1 serr w2 err' w3.
      onDelete (hooks r) item w = (None, w1) \<and>
      storage_Delete (storage r) item (w1\<lparr>trace := trace w @ [Ev_onDelete item None]\<rparr>) = (serr, w2) \<and>
      onDeleted (hooks r) item serr
        (w2\<lparr>trace := trace w @ [Ev_onDelete item None, Ev_storage_Delete item serr]\<rparr>) = (err', w3) \<longrightarrow>
      onDeleteMiddlewareDefault r item w =
        ((item, err'), w3\<lparr>trace := trace w @ [Ev_onDelete item None, Ev_storage_Delete item serr,
                                                Ev_onDeleted item serr err']\<rparr>)) \<and>
   (\<forall>e w1 res w2.
      onClear (hooks r) q w = (Some e, w1) \<and>
      onCleared (hooks r) q 0 (Some e) (w1\<lparr>trace := trace w @ [Ev_onClear q (Some e)]\<rparr>) = (res, w2) \<longrightarrow>
      onClearMiddlewareDefault r q w =
        (res, w2\<lparr>trace := trace w @ [Ev_onClear q (Some e),
                                       Ev_onCleared q 0 (Some e) (fst res) (snd res)]\<rparr>)) \<and>
   (\<forall>w1 deleted serr w2 res w3.
      onClear (hooks r) q w = (None, w1) \<and>
      storage_Clear (storage r) q (w1\<lparr>trace := trace w @ [Ev_onClear q None]\<rparr>) = ((deleted, serr), w2) \<and>
      onCleared (hooks r) q deleted serr
        (w2\<lparr>trace := trace w @ [Ev_onClear q None, Ev_storage_Clear q deleted serr]\<rparr>) = (res, w3) \<longrightarrow>
      onClearMiddlewareDefault r q w =
        (res, w3\<lparr>trace := trace w @ [Ev_onClear q None, Ev_storage_Clear q deleted serr,
                                       Ev_onCleared q deleted serr (fst res) (snd res)]\<rparr>))"
  apply (intro conjI allI impI; elim conjE)
  subgoal by (simp add: onGetMiddlewareDefault_def call_def split_beta)
  subgoal by (simp add: onGetMiddlewareDefault_def call_def split_beta)
  subgoal by (simp add: onFindMiddlewareDefault_def call_def split_beta)
  subgoal by (auto simp: onFindMiddlewareDefault_def call_def split_beta)
  subgoal by (simp add: onFindMiddlewareDefault_def call_def split_beta)
  subgoal by (simp add: onFindMiddlewareDefault_def call_def split_beta)
  subgoal by (simp add: onInsertMiddlewareDefault_def call_def split_beta)
  subgoal for w1 e w2 err' w3
    using recalcEtag_frame[of L "slice_at w1 items" "w1\<lparr>trace := trace w @ [Ev_onInsert items None]\<rparr>" "Some e" w2]
    by (simp add: onInsertMiddlewareDefault_def call_def split_beta)
  subgoal for w1 w2 serr w3 err' w4
    using recalcEtag_frame[of L "slice_at w1 items" "w1\<lparr>trace := trace w @ [Ev_onInsert items None]\<rparr>" None w2]
    by (simp add: onInsertMiddlewareDefault_def call_def split_beta)
  subgoal by (simp add: onUpdateMiddlewareDefault_def call_def split_beta)
  subgoal for w1 e w2 err' w3
    using recalcEtag_frame[of L "[item]" "w1\<lparr>trace := trace w @ [Ev_onUpdate item original None]\<rparr>" "Some e" w2]
    by (simp add: onUpdateMiddlewareDefault_def call_def split_beta del: recalcEtag.simps)
  subgoal for w1 w2 serr w3 err' w4
    using recalcEtag_frame[of L "[item]" "w1\<lparr>trace := trace w @ [Ev_onUpdate item original None]\<rparr>" None w2]
    by (simp add: onUpdateMiddlewareDefault_def call_def split_beta del: recalcEtag.simps)
  subgoal by (simp add: onDeleteMiddlewareDefault_def call_def split_beta)
  subgoal by (simp add: onDeleteMiddlewareDefault_def call_def split_beta)
  subgoal by (simp add: onClearMiddlewareDefault_def call_def split_beta)
  subgoal by (simp add: onClearMiddlewareDefault_def call_def split_beta)
  done

text \<open>
  Three runs: a Get whose pre-hook refuses the id, so that the storage is
  not called and the post-hook sees the refusal; a Get whose post-hook turns
  the storage's success into an error; a Delete through all three calls.
\<close>

theorem default_handlers_pre_storage_post_witness:
  "onGet (hooks (resource0\<lparr>hooks := hooks_multi\<rparr>)) 2 world0 = (Some resource_ErrForbidden, world0) \<and>
   onGetMiddlewareDefault (resource0\<lparr>hooks := hooks_multi\<rparr>) 2 world0 =
     ((None, Some resource_ErrForbidden),
      world0\<lparr>trace := [Ev_onGet 2 (Some resource_ErrForbidden),
                        Ev_onGot None (Some resource_ErrForbidden) None (Some resource_ErrForbidden)],
             ext := [''seen'']\<rparr>) \<and>
   onGet (hooks (resource0\<lparr>hooks := hooks_multi\<rparr>)) 1 (world0\<lparr>ext := [''busy'']\<rparr>) =
     (None, world0\<lparr>ext := [''busy'']\<rparr>) \<and>
   onGetMiddlewareDefault (resource0\<lparr>hooks := hooks_multi\<rparr>) 1 (world0\<lparr>ext := [''busy'']\<rparr>) =
     ((Some 1, Some resource_ErrNotFound),
      world0\<lparr>trace := [Ev_onGet 1 None, Ev_storage_Get 1 (Some 1) None,
                        Ev_onGot (Some 1) None (Some 1) (Some resource_ErrNotFound)],
             ext := [''busy'']\<rparr>) \<and>
   onDelete (hooks resource0) (Some 0) world0 = (None, world0) \<and>
   onDeleteMiddlewareDefault resource0 (Some 0) world0 =
     ((Some 0, None),
      world0\<lparr>trace := [Ev_onDelete (Some 0) None, Ev_storage_Delete (Some 0) None,
                        Ev_onDeleted (Some 0) None None],
             ext := [''delete'']\<rparr>)"
proof -
  let ?r = "resource0\<lparr>hooks := hooks_multi\<rparr>"
  let ?b = "world0\<lparr>ext := [''busy'']\<rparr>"
  have hs: "hooks ?r = hooks_multi" "storage ?r = storage0" by (simp_all add: resource0_parts)
  have t0: "trace world0 = []" "ext world0 = []" by (simp_all add: world0_def)
  have g1: "onGet (hooks ?r) 2 world0 = (Some resource_ErrForbidden, world0)"
    by (simp add: hs hooks_multi_def)
  have g2: "onGot (hooks ?r) None (Some resource_ErrForbidden)
      (world0\<lparr>trace := trace world0 @ [Ev_onGet 2 (Some resource_ErrForbidden)]\<rparr>) =
      ((None, Some resource_ErrForbidden),
       world0\<lparr>trace := [Ev_onGet 2 (Some resource_ErrForbidden)], ext := [''seen'']\<rparr>)"
    by (simp add: hs hooks_multi_def t0)
  note A = default_handlers_pre_storage_post[where r = ?r and w = world0 and ident = 2,
      THEN conjunct1, rule_format, OF conjI, OF g1 g2]
  have a: "onGetMiddlewareDefault ?r 2 world0 =
     ((None, Some resource_ErrForbidden),
      world0\<lparr>trace := [Ev_onGet 2 (Some resource_ErrForbidden),
                        Ev_onGot None (Some resource_ErrForbidden) None (Some resource_ErrForbidden)],
             ext := [''seen'']\<rparr>)"
    using A by (simp add: t0)
  have h1: "onGet (hooks ?r) 1 ?b = (None, ?b)"
    by (simp add: hs hooks_multi_def)
  have h2: "storage_Get (storage ?r) 1 (?b\<lparr>trace := trace ?b @ [Ev_onGet 1 None]\<rparr>) =
      ((Some 1, None), ?b\<lparr>trace := [Ev_onGet 1 None]\<rparr>)"
    by (simp add: hs storage0_def t0)
  have h3: "onGot (hooks ?r) (Some 1) None
      (?b\<lparr>trace := [Ev_onGet 1 None]\<rparr>\<lparr>trace := trace ?b @ [Ev_onGet 1 None, Ev_storage_Get 1 (Some 1) None]\<rparr>) =
      ((Some 1, Some resource_ErrNotFound),
       ?b\<lparr>trace := [Ev_onGet 1 None, Ev_storage_Get 1 (Some 1) None]\<rparr>)"
    by (simp add: hs hooks_multi_def t0)
  note B = default_handlers_pre_storage_post[where r = ?r and w = ?b and ident = 1,
      THEN conjunct2, THEN conjunct1, rule_format, OF conjI, OF h1 conjI, OF h2 h3]
  have b: "onGetMiddlewareDefault ?r 1 ?b =
     ((Some 1, Some resource_ErrNotFound),
      world0\<lparr>trace := [Ev_onGet 1 None, Ev_storage_Get 1 (Some 1) None,
                        Ev_onGot (Some 1) None (Some 1) (Some resource_ErrNotFound)],
             ext := [''busy'']\<rparr>)"
    using B by (simp add: t0)
  have d1: "onDelete (hooks resource0) (Some 0) world0 = (None, world0)"
    by (simp add: resource0_parts no_hooks_def)
  have d2: "storage_Delete (storage resource0) (Some 0)
      (world0\<lparr>trace := trace world0 @ [Ev_onDelete (Some 0) None]\<rparr>) =
      (None, world0\<lparr>trace := [Ev_onDelete (Some 0) None], ext := [''delete'']\<rparr>)"
    by (simp add: resource0_parts storage0_def t0)
  have d3: "onDeleted (hooks resource0) (Some 0) None
      (world0\<lparr>trace := [Ev_onDelete (Some 0) None], ext := [''delete'']\<rparr>
         \<lparr>trace := trace world0 @ [Ev_onDelete (Some 0) None, Ev_storage_Delete (Some 0) None]\<rparr>) =
      (None, world0\<lparr>trace := [Ev_onDelete (Some 0) None, Ev_storage_Delete (Some 0) None],
                   ext := [''delete'']\<rparr>)"
    by (simp add: resource0_parts no_hooks_def t0)
  note D = default_handlers_pre_storage_post[where r = resource0 and w = world0 and item = "Some 0",
      THEN conjunct2, THEN conjunct2, THEN conjunct2, THEN conjunct2, THEN conjunct2, THEN conjunct2,
      THEN conjunct2, THEN conjunct2, THEN conjunct2, THEN conjunct2, THEN conjunct2, THEN conjunct2,
      THEN conjunct2, THEN conjunct1, rule_format, OF conjI, OF d1 conjI, OF d2 d3]
  have d: "onDeleteMiddlewareDefault resource0 (Some 0) world0 =
     ((Some 0, None),
      world0\<lparr>trace := [Ev_onDelete (Some 0) None, Ev_storage_Delete (Some 0) None,
                        Ev_onDeleted (Some 0) None None],
             ext := [''delete'']\<rparr>)"
    using D by (simp add: t0)
  from g1 a h1 b d1 d show ?thesis by blast
qed

text \<open>
  As the claim words it, the storage call is left out only when the
  pre-hook returns an error, and the post-hook is called in all cases. An
  Update whose payload cannot be hashed leaves the storage call out after a
  pre-hook that returned none; a Find whose storage returns a nil list with
  a nil error panics before the post-hook.
\<close>

theorem default_handlers_pre_storage_post_counterexample:
  "onUpdate (hooks resource0) (Some 0) (Some 1) world_unhashable = (None, world_unhashable) \<and>
   onUpdateMiddlewareDefault lib0 resource0 (Some 0) (Some 1) world_unhashable =
     ((Some 0, Some (errors_New ''json: unsupported value'')),
      world_unhashable
        \<lparr>trace := [Ev_onUpdate (Some 0) (Some 1) None,
                   Ev_onUpdated (Some 0) (Some 1) (Some (errors_New ''json: unsupported value''))
                     (Some (errors_New ''json: unsupported value''))]\<rparr>) \<and>
   onFind (hooks resource0) 0 world0 = (None, world0) \<and>
   onFindMiddlewareDefault
     (resource0\<lparr>storage := storage0\<lparr>storage_Find := (\<lambda>q w. ((None, None), w))\<rparr>\<rparr>) 0 False world0 =
     Inl NilDereference"
proof -
  have g: "GenEtag lib0 (Some [(''name'', - 1), (''id'', 1)]) = Inl (errors_New ''json: unsupported value'')"
    by (simp add: GenEtag_def json_Marshal_def lib0_def)
  have u: "onUpdateMiddlewareDefault lib0 resource0 (Some 0) (Some 1) world_unhashable =
     ((Some 0, Some (errors_New ''json: unsupported value'')),
      world_unhashable
        \<lparr>trace := [Ev_onUpdate (Some 0) (Some 1) None,
                   Ev_onUpdated (Some 0) (Some 1) (Some (errors_New ''json: unsupported value''))
                     (Some (errors_New ''json: unsupported value''))]\<rparr>)"
    by (simp add: onUpdateMiddlewareDefault_def call_def resource0_parts no_hooks_def
        world_unhashable_def world0_def item0_def g)
  have f: "onFindMiddlewareDefault
     (resource0\<lparr>storage := storage0\<lparr>storage_Find := (\<lambda>q w. ((None, None), w))\<rparr>\<rparr>) 0 False world0 =
     Inl NilDereference"
    by (simp add: onFindMiddlewareDefault_def call_def resource0_parts no_hooks_def)
  show ?thesis using u f by (simp add: resource0_parts no_hooks_def)
qed

text \<open>
  C6, as amended. On a resource whose Find handler is the default one (no
  Find middleware registered), when the pre-hook passes and the storage's
  Find returns a list with total \<open>-1\<close> and no error: \<^verbatim>\<open>FindWithTotal\<close> then
  calls the storage's Count with a query holding only the predicate of the
  query as it then stands (no window, sort or projection), writes the count
  into the list, hands the list and Count's error to the post-hook and
  returns what the post-hook leaves; a plain \<^verbatim>\<open>Find\<close> hands the storage's
  list and nil error to the post-hook without calling Count and returns
  what the post-hook leaves. On such a resource no plain Find ever calls
  Count, so only the forced-total path can surface a storage that cannot
  count.
\<close>

theorem FindWithTotal_counts_by_predicate_only:
  assumes dflt: "onFindThen (middlewares r) = onFindMiddlewareDefault r"
    and pre: "onFind (hooks r) q w = (None, w1)"
    and st: "storage_Find (storage r) q (w1\<lparr>trace := trace w @ [Ev_onFind q None]\<rparr>) = ((Some l, None), w2)"
    and unknown: "Total l = - 1"
    and cq: "cq = \<lparr>Projection = [], Predicate = Predicate (query_at w2 q), Sort = [], Window = None\<rparr>"
  shows
    "(\<forall>tot cerr w3 res w4.
        storage_Count (storage r) cq
          (w2\<lparr>trace := trace w @ [Ev_onFind q None, Ev_storage_Find q (Some l) None]\<rparr>) = ((tot, cerr), w3) \<and>
        onFound (hooks r) q (Some (l\<lparr>Total := tot\<rparr>)) cerr
          (w3\<lparr>trace := trace w @
             [Ev_onFind q None, Ev_storage_Find q (Some l) None, Ev_storage_Count cq tot cerr]\<rparr>) = (res, w4) \<longrightarrow>
        FindWithTotal r q w =
          Inr (res, w4\<lparr>trace := trace w @
                 [Ev_onFind q None, Ev_storage_Find q (Some l) None, Ev_storage_Count cq tot cerr,
                  Ev_onFound q (Some (l\<lparr>Total := tot\<rparr>)) cerr (fst res) (snd res)]\<rparr>)) \<and>
     (\<forall>res w3.
        onFound (hooks r) q (Some l) None
          (w2\<lparr>trace := trace w @ [Ev_onFind q None, Ev_storage_Find q (Some l) None]\<rparr>) = (res, w3) \<longrightarrow>
        Resource_Find r q w =
          Inr (res, w3\<lparr>trace := trace w @
                 [Ev_onFind q None, Ev_storage_Find q (Some l) None,
                  Ev_onFound q (Some l) None (fst res) (snd res)]\<rparr>)) \<and>
     (\<forall>q0 w0 res w'. Resource_Find r q0 w0 = Inr (res, w') \<longrightarrow>
        (\<exists>new. trace w' = trace w0 @ new \<and> (\<forall>c t e. Ev_storage_Count c t e \<notin> set new)))"
proof (intro conjI)
  show "\<forall>tot cerr w3 res w4.
        storage_Count (storage r) cq
          (w2\<lparr>trace := trace w @ [Ev_onFind q None, Ev_storage_Find q (Some l) None]\<rparr>) = ((tot, cerr), w3) \<and>
        onFound (hooks r) q (Some (l\<lparr>Total := tot\<rparr>)) cerr
          (w3\<lparr>trace := trace w @
             [Ev_onFind q None, Ev_storage_Find q (Some l) None, Ev_storage_Count cq tot cerr]\<rparr>) = (res, w4) \<longrightarrow>
        FindWithTotal r q w =
          Inr (res, w4\<lparr>trace := trace w @
                 [Ev_onFind q None, Ev_storage_Find q (Some l) None, Ev_storage_Count cq tot cerr,
                  Ev_onFound q (Some (l\<lparr>Total := tot\<rparr>)) cerr (fst res) (snd res)]\<rparr>)"
    using pre st unknown cq
    by (simp add: FindWithTotal_def Resource_find_def dflt onFindMiddlewareDefault_def call_def split_beta)
  show "\<forall>res w3.
        onFound (hooks r) q (Some l) None
          (w2\<lparr>trace := trace w @ [Ev_onFind q None, Ev_storage_Find q (Some l) None]\<rparr>) = (res, w3) \<longrightarrow>
        Resource_Find r q w =
          Inr (res, w3\<lparr>trace := trace w @
                 [Ev_onFind q None, Ev_storage_Find q (Some l) None,
                  Ev_onFound q (Some l) None (fst res) (snd res)]\<rparr>)"
    using pre st unknown
    by (simp add: Resource_Find_def Resource_find_def dflt onFindMiddlewareDefault_def call_def split_beta)
  show "\<forall>q0 w0 res w'. Resource_Find r q0 w0 = Inr (res, w') \<longrightarrow>
        (\<exists>new. trace w' = trace w0 @ new \<and> (\<forall>c t e. Ev_storage_Count c t e \<notin> set new))"
    by (auto simp: Resource_Find_def Resource_find_def dflt onFindMiddlewareDefault_def call_def Let_def
        split: prod.splits if_splits option.splits)
qed

text \<open>
  On \<open>resource0\<close>, whose storage finds one item without knowing the total
  and counts 7, and whose post-hook leaves the list as it is: the forced
  total is 7, the plain Find keeps \<open>-1\<close>.
\<close>

theorem FindWithTotal_counts_by_predicate_only_witness:
  "onFindThen (middlewares resource0) = onFindMiddlewareDefault resource0 \<and>
   onFind (hooks resource0) 0 world0 = (None, world0) \<and>
   storage_Find (storage resource0) 0 (world0\<lparr>trace := trace world0 @ [Ev_onFind 0 None]\<rparr>) =
     ((Some \<lparr>Total = - 1, Items = [Some 1]\<rparr>, None), world0\<lparr>trace := [Ev_onFind 0 None]\<rparr>) \<and>
   FindWithTotal resource0 0 world0 =
     Inr ((Some \<lparr>Total = 7, Items = [Some 1]\<rparr>, None),
          world0\<lparr>trace :=
            [Ev_onFind 0 None, Ev_storage_Find 0 (Some \<lparr>Total = - 1, Items = [Some 1]\<rparr>) None,
             Ev_storage_Count \<lparr>Projection = [], Predicate = [''id == 1''], Sort = [], Window = None\<rparr> 7 None,
             Ev_onFound 0 (Some \<lparr>Total = 7, Items = [Some 1]\<rparr>) None (Some \<lparr>Total = 7, Items = [Some 1]\<rparr>) None]\<rparr>) \<and>
   Resource_Find resource0 0 world0 =
     Inr ((Some \<lparr>Total = - 1, Items = [Some 1]\<rparr>, None),
          world0\<lparr>trace :=
            [Ev_onFind 0 None, Ev_storage_Find 0 (Some \<lparr>Total = - 1, Items = [Some 1]\<rparr>) None,
             Ev_onFound 0 (Some \<lparr>Total = - 1, Items = [Some 1]\<rparr>) None (Some \<lparr>Total = - 1, Items = [Some 1]\<rparr>) None]\<rparr>)"
proof -
  let ?l = "\<lparr>Total = - 1, Items = [Some 1]\<rparr>"
  let ?cq = "\<lparr>Projection = [], Predicate = [''id == 1''], Sort = [], Window = None\<rparr>"
  note hs = resource0_parts(1,2)
  note d = resource0_handlers(2)
  have t0: "trace world0 = []" by (simp add: world0_def)
  have p: "onFind (hooks resource0) 0 world0 = (None, world0)"
    by (simp add: hs no_hooks_def)
  have s: "storage_Find (storage resource0) 0 (world0\<lparr>trace := trace world0 @ [Ev_onFind 0 None]\<rparr>) =
     ((Some ?l, None), world0\<lparr>trace := [Ev_onFind 0 None]\<rparr>)"
    by (simp add: hs storage0_def t0)
  have u: "Total ?l = - 1" by simp
  have q: "?cq =
      \<lparr>Projection = [], Predicate = Predicate (query_at (world0\<lparr>trace := [Ev_onFind 0 None]\<rparr>) 0), Sort = [], Window = None\<rparr>"
    by (simp add: world0_def query0_def)
  note T = FindWithTotal_counts_by_predicate_only[OF d p s u q]
  have c: "storage_Count (storage resource0) ?cq
      (world0\<lparr>trace := [Ev_onFind 0 None]\<rparr>
         \<lparr>trace := trace world0 @ [Ev_onFind 0 None, Ev_storage_Find 0 (Some ?l) None]\<rparr>) =
      ((7, None), world0\<lparr>trace := [Ev_onFind 0 None, Ev_storage_Find 0 (Some ?l) None]\<rparr>)"
    by (simp add: hs storage0_def t0)
  have f: "onFound (hooks resource0) 0 (Some (?l\<lparr>Total := 7\<rparr>)) None
      (world0\<lparr>trace := [Ev_onFind 0 None, Ev_storage_Find 0 (Some ?l) None]\<rparr>
         \<lparr>trace := trace world0 @ [Ev_onFind 0 None, Ev_storage_Find 0 (Some ?l) None, Ev_storage_Count ?cq 7 None]\<rparr>) =
      ((Some \<lparr>Total = 7, Items = [Some 1]\<rparr>, None),
       world0\<lparr>trace := [Ev_onFind 0 None, Ev_storage_Find 0 (Some ?l) None, Ev_storage_Count ?cq 7 None]\<rparr>)"
    by (simp add: hs no_hooks_def t0)
  have g: "onFound (hooks resource0) 0 (Some ?l) None
      (world0\<lparr>trace := [Ev_onFind 0 None]\<rparr>
         \<lparr>trace := trace world0 @ [Ev_onFind 0 None, Ev_storage_Find 0 (Some ?l) None]\<rparr>) =
      ((Some ?l, None), world0\<lparr>trace := [Ev_onFind 0 None, Ev_storage_Find 0 (Some ?l) None]\<rparr>)"
    by (simp add: hs no_hooks_def t0)
  have f1: "FindWithTotal resource0 0 world0 =
     Inr ((Some \<lparr>Total = 7, Items = [Some 1]\<rparr>, None),
          world0\<lparr>trace :=
            [Ev_onFind 0 None, Ev_storage_Find 0 (Some ?l) None, Ev_storage_Count ?cq 7 None,
             Ev_onFound 0 (Some \<lparr>Total = 7, Items = [Some 1]\<rparr>) None (Some \<lparr>Total = 7, Items = [Some 1]\<rparr>) None]\<rparr>)"
    using T[THEN conjunct1, rule_format, OF conjI, OF c f] by (simp add: t0)
  have f2: "Resource_Find resource0 0 world0 =
     Inr ((Some ?l, None),
          world0\<lparr>trace :=
            [Ev_onFind 0 None, Ev_storage_Find 0 (Some ?l) None,
             Ev_onFound 0 (Some ?l) None (Some ?l) None]\<rparr>)"
    using T[THEN conjunct2, THEN conjunct1, rule_format, OF g] by (simp add: t0)
  from d p s f1 f2 show ?thesis by blast
qed

text \<open>
  As the claim words it, every \<^verbatim>\<open>FindWithTotal\<close> with an unknown total
  counts and no plain \<^verbatim>\<open>Find\<close> does. A registered Find middleware chooses
  the \<^verbatim>\<open>forceTotal\<close> it hands on: behind one that forces it, a plain
  \<^verbatim>\<open>Find\<close> calls Count; behind one that clears it, \<^verbatim>\<open>FindWithTotal\<close> returns
  the total \<open>-1\<close> without a Count.
\<close>

theorem FindWithTotal_counts_by_predicate_only_counterexample:
  "Chain lib0 resource0 [OnFindMiddleware forcing] = Inr resource_forcing \<and>
   Resource_Find resource_forcing 0 world0 =
     Inr ((Some \<lparr>Total = 7, Items = [Some 1]\<rparr>, None),
          world0\<lparr>trace :=
            [Ev_onFind 0 None, Ev_storage_Find 0 (Some \<lparr>Total = - 1, Items = [Some 1]\<rparr>) None,
             Ev_storage_Count \<lparr>Projection = [], Predicate = [''id == 1''], Sort = [], Window = None\<rparr> 7 None,
             Ev_onFound 0 (Some \<lparr>Total = 7, Items = [Some 1]\<rparr>) None (Some \<lparr>Total = 7, Items = [Some 1]\<rparr>) None]\<rparr>) \<and>
   Chain lib0 resource0 [OnFindMiddleware unforcing] = Inr resource_unforcing \<and>
   FindWithTotal resource_unforcing 0 world0 =
     Inr ((Some \<lparr>Total = - 1, Items = [Some 1]\<rparr>, None),
          world0\<lparr>trace :=
            [Ev_onFind 0 None, Ev_storage_Find 0 (Some \<lparr>Total = - 1, Items = [Some 1]\<rparr>) None,
             Ev_onFound 0 (Some \<lparr>Total = - 1, Items = [Some 1]\<rparr>) None (Some \<lparr>Total = - 1, Items = [Some 1]\<rparr>) None]\<rparr>)"
proof -
  have c0: "onFindC (middlewares resource0) = []"
    by (simp add: resource0_def initMiddlewares_def nil_handlers_def)
  have c1: "Chain lib0 resource0 [OnFindMiddleware forcing] = Inr resource_forcing"
    by (simp add: resource_forcing_def c0 Let_def)
  have c2: "Chain lib0 resource0 [OnFindMiddleware unforcing] = Inr resource_unforcing"
    by (simp add: resource_unforcing_def c0 Let_def)
  have r1: "Resource_Find resource_forcing 0 world0 =
     Inr ((Some \<lparr>Total = 7, Items = [Some 1]\<rparr>, None),
          world0\<lparr>trace :=
            [Ev_onFind 0 None, Ev_storage_Find 0 (Some \<lparr>Total = - 1, Items = [Some 1]\<rparr>) None,
             Ev_storage_Count \<lparr>Projection = [], Predicate = [''id == 1''], Sort = [], Window = None\<rparr> 7 None,
             Ev_onFound 0 (Some \<lparr>Total = 7, Items = [Some 1]\<rparr>) None (Some \<lparr>Total = 7, Items = [Some 1]\<rparr>) None]\<rparr>)"
    by (simp add: Resource_Find_def Resource_find_def resource_forcing_def forcing_def
        onFindMiddlewareDefault_def call_def resource0_parts no_hooks_def storage0_def world0_def query0_def)
  have r2: "FindWithTotal resource_unforcing 0 world0 =
     Inr ((Some \<lparr>Total = - 1, Items = [Some 1]\<rparr>, None),
          world0\<lparr>trace :=
            [Ev_onFind 0 None, Ev_storage_Find 0 (Some \<lparr>Total = - 1, Items = [Some 1]\<rparr>) None,
             Ev_onFound 0 (Some \<lparr>Total = - 1, Items = [Some 1]\<rparr>) None (Some \<lparr>Total = - 1, Items = [Some 1]\<rparr>) None]\<rparr>)"
    by (simp add: FindWithTotal_def Resource_find_def resource_unforcing_def unforcing_def
        onFindMiddlewareDefault_def call_def resource0_parts no_hooks_def storage0_def world0_def query0_def)
  from c1 r1 c2 r2 show ?thesis by blast
qed

section \<open>Content hash before storage (C1)\<close>




lemma hashed_carries: "hashable L it \<Longrightarrow> carries_hash L (hashed L it)"
  by (auto simp: hashable_def carries_hash_def hashed_def split: sum.splits)

lemma hashed_payload: "Payload (hashed L it) = Payload it"
  by (simp add: hashed_def split: sum.splits)

lemma hashed_idem: "hashed L (hashed L it) = hashed L it"
  by (simp add: hashed_def split: sum.splits)

lemma recalcEtag_ok:
  "\<forall>a. Some a \<in> set vs \<longrightarrow> hashable L (item_at w a) \<Longrightarrow>
   recalcEtag L vs w =
     (None, w\<lparr>item_at := (\<lambda>a. if Some a \<in> set vs then hashed L (item_at w a) else item_at w a)\<rparr>)"
proof (induction L vs w rule: recalcEtag.induct)
  case (1 L w)
  then show ?case by simp
next
  case (2 L vs w)
  then show ?case by simp
next
  case (3 L a vs w)
  from 3(2) have ha: "hashable L (item_at w a)" by simp
  then obtain etag where e: "GenEtag L (Payload (item_at w a)) = Inr etag"
    by (auto simp: hashable_def split: sum.splits)
  let ?w = "w\<lparr>item_at := (item_at w)(a := (item_at w a)\<lparr>ETag := etag\<rparr>)\<rparr>"
  have h: "(item_at w a)\<lparr>ETag := etag\<rparr> = hashed L (item_at w a)"
    by (simp add: hashed_def e)
  have all: "\<forall>b. Some b \<in> set vs \<longrightarrow> hashable L (item_at ?w b)"
    using 3(2) ha by (auto simp: h hashable_def hashed_payload)
  have "recalcEtag L (Some a # vs) w = recalcEtag L vs ?w" by (simp add: e)
  also have "\<dots> = (None, ?w\<lparr>item_at := (\<lambda>b. if Some b \<in> set vs then hashed L (item_at ?w b) else item_at ?w b)\<rparr>)"
    by (rule 3(1)[OF e all])
  also have "?w\<lparr>item_at := (\<lambda>b. if Some b \<in> set vs then hashed L (item_at ?w b) else item_at ?w b)\<rparr> =
     w\<lparr>item_at := (\<lambda>b. if Some b \<in> set (Some a # vs) then hashed L (item_at w b) else item_at w b)\<rparr>"
    by (auto simp: h hashed_idem fun_eq_iff)
  finally show ?case .
qed

lemma recalcEtag_fails:
  "\<not> (\<forall>a. Some a \<in> set vs \<longrightarrow> hashable L (item_at w a)) \<Longrightarrow>
   \<exists>e w' a. recalcEtag L vs w = (Some e, w') \<and> trace w' = trace w \<and>
     Some a \<in> set vs \<and> GenEtag L (Payload (item_at w a)) = Inl e"
proof (induction L vs w rule: recalcEtag.induct)
  case (1 L w)
  then show ?case by simp
next
  case (2 L vs w)
  then show ?case by simp
next
  case (3 L a vs w)
  show ?case
  proof (cases "GenEtag L (Payload (item_at w a))")
    case (Inl e)
    then show ?thesis by auto
  next
    case (Inr etag)
    let ?w = "w\<lparr>item_at := (item_at w)(a := (item_at w a)\<lparr>ETag := etag\<rparr>)\<rparr>"
    have pay: "\<And>b. Payload (item_at ?w b) = Payload (item_at w b)" by simp
    have "hashable L (item_at w a)" using Inr by (simp add: hashable_def)
    with 3(2) have "\<not> (\<forall>b. Some b \<in> set vs \<longrightarrow> hashable L (item_at ?w b))"
      by (auto simp: hashable_def)
    from 3(1)[OF Inr this] obtain e w' b where
      "recalcEtag L vs ?w = (Some e, w')" "trace w' = trace ?w" "Some b \<in> set vs"
      "GenEtag L (Payload (item_at ?w b)) = Inl e" by blast
    then show ?thesis using Inr pay by (auto simp del: fun_upd_apply)
  qed
qed


lemma call_simps:
  "f w = (a, w') \<Longrightarrow> call ev f w = (a, w'\<lparr>trace := trace w @ [ev a]\<rparr>)"
  by (simp add: call_def)

text \<open>
  C1, as amended. When the pre-hook of an Insert or Update returns no error,
  the default handler computes the hash of each non-nil item's payload as
  the pre-hook left it. If every payload can be hashed, the storage is called
  next, and every item it is handed carries the hash of its payload; the
  storage's error goes to the post-hook. If some payload cannot be hashed,
  the storage is not called and the hashing error goes to the post-hook. In
  both cases the handler returns the error the post-hook leaves.
\<close>

theorem etag_written_before_storage:
  "(onInsert (hooks r) items w = (None, w1) \<longrightarrow>
      (if \<forall>a. Some a \<in> set (slice_at w1 items) \<longrightarrow> hashable L (item_at w1 a)
       then \<exists>stored serr err' w'.
              onInsertMiddlewareDefault L r items w = ((items, err'), w') \<and>
              trace w' = trace w @
                [Ev_onInsert items None, Ev_storage_Insert items stored serr, Ev_onInserted items serr err'] \<and>
              stored = map (map_option (\<lambda>a. hashed L (item_at w1 a))) (slice_at w1 items) \<and>
              (\<forall>it. Some it \<in> set stored \<longrightarrow> carries_hash L it)
       else \<exists>e a err' w'.
              Some a \<in> set (slice_at w1 items) \<and> GenEtag L (Payload (item_at w1 a)) = Inl e \<and>
              onInsertMiddlewareDefault L r items w = ((items, err'), w') \<and>
              trace w' = trace w @ [Ev_onInsert items None, Ev_onInserted items (Some e) err'])) \<and>
   (onUpdate (hooks r) (Some i) original w = (None, w1) \<longrightarrow>
      (if hashable L (item_at w1 i)
       then \<exists>serr err' w'.
              onUpdateMiddlewareDefault L r (Some i) original w = ((Some i, err'), w') \<and>
              trace w' = trace w @
                [Ev_onUpdate (Some i) original None,
                 Ev_storage_Update (Some i) original (Some (hashed L (item_at w1 i))) serr,
                 Ev_onUpdated (Some i) original serr err'] \<and>
              carries_hash L (hashed L (item_at w1 i))
       else \<exists>e err' w'.
              GenEtag L (Payload (item_at w1 i)) = Inl e \<and>
              onUpdateMiddlewareDefault L r (Some i) original w = ((Some i, err'), w') \<and>
              trace w' = trace w @
                [Ev_onUpdate (Some i) original None, Ev_onUpdated (Some i) original (Some e) err']))"
proof (intro conjI impI)
  assume pre: "onInsert (hooks r) items w = (None, w1)"
  let ?w1 = "w1\<lparr>trace := trace w @ [Ev_onInsert items None]\<rparr>"
  let ?vs = "slice_at w1 items"
  note c1 = call_simps[where f = "onInsert (hooks r) items" and w = w and ev = "Ev_onInsert items", OF pre]
  show "if \<forall>a. Some a \<in> set (slice_at w1 items) \<longrightarrow> hashable L (item_at w1 a)
       then \<exists>stored serr err' w'.
              onInsertMiddlewareDefault L r items w = ((items, err'), w') \<and>
              trace w' = trace w @
                [Ev_onInsert items None, Ev_storage_Insert items stored serr, Ev_onInserted items serr err'] \<and>
              stored = map (map_option (\<lambda>a. hashed L (item_at w1 a))) (slice_at w1 items) \<and>
              (\<forall>it. Some it \<in> set stored \<longrightarrow> carries_hash L it)
       else \<exists>e a err' w'.
              Some a \<in> set (slice_at w1 items) \<and> GenEtag L (Payload (item_at w1 a)) = Inl e \<and>
              onInsertMiddlewareDefault L r items w = ((items, err'), w') \<and>
              trace w' = trace w @ [Ev_onInsert items None, Ev_onInserted items (Some e) err']"
  proof (cases "\<forall>a. Some a \<in> set ?vs \<longrightarrow> hashable L (item_at w1 a)")
    case True
    then have all: "\<forall>a. Some a \<in> set (slice_at ?w1 items) \<longrightarrow> hashable L (item_at ?w1 a)" by simp
    have rc: "recalcEtag L ?vs ?w1 =
        (None, ?w1\<lparr>item_at := \<lambda>a. if Some a \<in> set ?vs then hashed L (item_at w1 a) else item_at w1 a\<rparr>)"
      using recalcEtag_ok[OF all] by (simp cong: if_cong)
    have snap: "map (map_option (\<lambda>a. if Some a \<in> set ?vs then hashed L (item_at w1 a) else item_at w1 a)) ?vs =
        map (map_option (\<lambda>a. hashed L (item_at w1 a))) ?vs"
      by (auto intro!: option.map_cong)
    have carried: "\<forall>it. Some it \<in> set (map (map_option (\<lambda>a. hashed L (item_at w1 a))) ?vs) \<longrightarrow> carries_hash L it"
    proof (intro allI impI)
      fix it assume "Some it \<in> set (map (map_option (\<lambda>a. hashed L (item_at w1 a))) ?vs)"
      then obtain x where x: "x \<in> set ?vs" "Some it = map_option (\<lambda>a. hashed L (item_at w1 a)) x" by auto
      from x(2) obtain a where "x = Some a" "it = hashed L (item_at w1 a)" by (cases x) auto
      with x True show "carries_hash L it" by (simp add: hashed_carries)
    qed
    show ?thesis
      using True carried unfolding onInsertMiddlewareDefault_def c1
      by (simp add: rc snap call_def split: prod.splits)
  next
    case False
    then have "\<not> (\<forall>a. Some a \<in> set (slice_at ?w1 items) \<longrightarrow> hashable L (item_at ?w1 a))" by simp
    from recalcEtag_fails[OF this] obtain e w2 a where
      rc: "recalcEtag L ?vs ?w1 = (Some e, w2)" and tr: "trace w2 = trace w @ [Ev_onInsert items None]"
      and a: "Some a \<in> set ?vs" "GenEtag L (Payload (item_at w1 a)) = Inl e" by auto
    show ?thesis
      using False a tr unfolding onInsertMiddlewareDefault_def c1
      by (auto simp: rc call_def split: prod.splits)
  qed
next
  assume pre: "onUpdate (hooks r) (Some i) original w = (None, w1)"
  let ?w1 = "w1\<lparr>trace := trace w @ [Ev_onUpdate (Some i) original None]\<rparr>"
  note c1 = call_simps[where f = "onUpdate (hooks r) (Some i) original" and w = w and ev = "Ev_onUpdate (Some i) original", OF pre]
  show "if hashable L (item_at w1 i)
       then \<exists>serr err' w'.
              onUpdateMiddlewareDefault L r (Some i) original w = ((Some i, err'), w') \<and>
              trace w' = trace w @
                [Ev_onUpdate (Some i) original None,
                 Ev_storage_Update (Some i) original (Some (hashed L (item_at w1 i))) serr,
                 Ev_onUpdated (Some i) original serr err'] \<and>
              carries_hash L (hashed L (item_at w1 i))
       else \<exists>e err' w'.
              GenEtag L (Payload (item_at w1 i)) = Inl e \<and>
              onUpdateMiddlewareDefault L r (Some i) original w = ((Some i, err'), w') \<and>
              trace w' = trace w @
                [Ev_onUpdate (Some i) original None, Ev_onUpdated (Some i) original (Some e) err']"
  proof (cases "hashable L (item_at w1 i)")
    case True
    then have all: "\<forall>a. Some a \<in> set [Some i] \<longrightarrow> hashable L (item_at ?w1 a)" by simp
    have rc: "recalcEtag L [Some i] ?w1 =
        (None, ?w1\<lparr>item_at := \<lambda>a. if a = i then hashed L (item_at w1 a) else item_at w1 a\<rparr>)"
      using recalcEtag_ok[OF all] by (simp cong: if_cong)
    show ?thesis
      using True hashed_carries[OF True] unfolding onUpdateMiddlewareDefault_def c1
      by (simp add: rc call_def del: recalcEtag.simps split: prod.splits)
  next
    case False
    then have "\<not> (\<forall>a. Some a \<in> set [Some i] \<longrightarrow> hashable L (item_at ?w1 a))" by simp
    from recalcEtag_fails[OF this] obtain e w2 a where
      rc: "recalcEtag L [Some i] ?w1 = (Some e, w2)"
      and tr: "trace w2 = trace w @ [Ev_onUpdate (Some i) original None]"
      and a: "a = i" "GenEtag L (Payload (item_at w1 a)) = Inl e" by auto
    show ?thesis
      using False a tr unfolding onUpdateMiddlewareDefault_def c1
      by (auto simp: rc call_def simp del: recalcEtag.simps split: prod.splits)
  qed
qed

theorem etag_written_before_storage_witness:
  "onUpdate (hooks resource0) (Some 0) (Some 1) world0 = (None, world0) \<and>
   hashable lib0 (item_at world0 0) \<and>
   hashed lib0 (item_at world0 0) = item0\<lparr>ETag := ''{id:1,name:2}''\<rparr> \<and>
   carries_hash lib0 (hashed lib0 (item_at world0 0)) \<and>
   onUpdateMiddlewareDefault lib0 resource0 (Some 0) (Some 1) world0 =
     ((Some 0, None),
      world0\<lparr>trace :=
        [Ev_onUpdate (Some 0) (Some 1) None,
         Ev_storage_Update (Some 0) (Some 1) (Some (item0\<lparr>ETag := ''{id:1,name:2}''\<rparr>)) None,
         Ev_onUpdated (Some 0) (Some 1) None None],
        item_at := (\<lambda>a. if a = 0 then item0\<lparr>ETag := ''{id:1,name:2}''\<rparr> else item1),
        ext := [''update'']\<rparr>) \<and>
   onInsert (hooks resource0) 0 world_unhashable = (None, world_unhashable) \<and>
   \<not> hashable lib0 (item_at world_unhashable 0) \<and>
   onInsertMiddlewareDefault lib0 resource0 0 world_unhashable =
     ((0, Some (errors_New ''json: unsupported value'')),
      world_unhashable\<lparr>trace :=
        [Ev_onInsert 0 None,
         Ev_onInserted 0 (Some (errors_New ''json: unsupported value''))
           (Some (errors_New ''json: unsupported value''))]\<rparr>)"
proof -
  note hs = resource0_parts(1,2)
  have p: "onUpdate (hooks resource0) (Some 0) (Some 1) world0 = (None, world0)"
    by (simp add: hs no_hooks_def)
  have g: "GenEtag lib0 (Payload (item_at world0 0)) = Inr ''{id:1,name:2}''"
    by (simp add: world0_def item0_def GenEtag_def json_Marshal_def lib0_def)
  have h: "hashable lib0 (item_at world0 0)" by (simp add: hashable_def g)
  have hd: "hashed lib0 (item_at world0 0) = item0\<lparr>ETag := ''{id:1,name:2}''\<rparr>"
    by (simp add: hashed_def g) (simp add: world0_def)
  have p': "onInsert (hooks resource0) 0 world_unhashable = (None, world_unhashable)"
    by (simp add: hs no_hooks_def)
  have g': "GenEtag lib0 (Payload (item_at world_unhashable 0)) = Inl (errors_New ''json: unsupported value'')"
    by (simp add: world_unhashable_def world0_def item0_def GenEtag_def json_Marshal_def lib0_def)
  have h': "\<not> hashable lib0 (item_at world_unhashable 0)" by (simp add: hashable_def g')
  from etag_written_before_storage[where r = resource0 and i = 0 and original = "Some 1" and w = world0
      and ?w1.0 = world0 and L = lib0] p h
  have c: "carries_hash lib0 (hashed lib0 (item_at world0 0))" by auto
  have run: "onUpdateMiddlewareDefault lib0 resource0 (Some 0) (Some 1) world0 =
     ((Some 0, None),
      world0\<lparr>trace :=
        [Ev_onUpdate (Some 0) (Some 1) None,
         Ev_storage_Update (Some 0) (Some 1) (Some (item0\<lparr>ETag := ''{id:1,name:2}''\<rparr>)) None,
         Ev_onUpdated (Some 0) (Some 1) None None],
        item_at := (\<lambda>a. if a = 0 then item0\<lparr>ETag := ''{id:1,name:2}''\<rparr> else item1),
        ext := [''update'']\<rparr>)"
    using g by (simp add: onUpdateMiddlewareDefault_def call_def hs no_hooks_def storage0_def)
      (auto simp: world0_def fun_eq_iff)
  have run': "onInsertMiddlewareDefault lib0 resource0 0 world_unhashable =
     ((0, Some (errors_New ''json: unsupported value'')),
      world_unhashable\<lparr>trace :=
        [Ev_onInsert 0 None,
         Ev_onInserted 0 (Some (errors_New ''json: unsupported value''))
           (Some (errors_New ''json: unsupported value''))]\<rparr>)"
    using g' by (simp add: onInsertMiddlewareDefault_def call_def hs no_hooks_def storage0_def)
      (simp add: world_unhashable_def world0_def)
  from p h hd c run p' h' run' show ?thesis by blast
qed

theorem etag_written_before_storage_counterexample:
  "fst (onUpdate (hooks (resource0\<lparr>hooks := hooks_clearing\<rparr>)) (Some 0) (Some 1) world_unhashable) = None \<and>
   GenEtag lib0 (Payload (item_at world_unhashable 0)) = Inl (errors_New ''json: unsupported value'') \<and>
   onUpdateMiddlewareDefault lib0 (resource0\<lparr>hooks := hooks_clearing\<rparr>) (Some 0) (Some 1) world_unhashable =
     ((Some 0, None),
      world_unhashable\<lparr>trace :=
        [Ev_onUpdate (Some 0) (Some 1) None,
         Ev_onUpdated (Some 0) (Some 1) (Some (errors_New ''json: unsupported value'')) None]\<rparr>) \<and>
   ETag (item_at world_unhashable 0) = ''stale''"
proof -
  have g': "GenEtag lib0 (Payload (item_at world_unhashable 0)) = Inl (errors_New ''json: unsupported value'')"
    by (simp add: world_unhashable_def world0_def item0_def GenEtag_def json_Marshal_def lib0_def)
  have run: "onUpdateMiddlewareDefault lib0 (resource0\<lparr>hooks := hooks_clearing\<rparr>) (Some 0) (Some 1) world_unhashable =
     ((Some 0, None),
      world_unhashable\<lparr>trace :=
        [Ev_onUpdate (Some 0) (Some 1) None,
         Ev_onUpdated (Some 0) (Some 1) (Some (errors_New ''json: unsupported value'')) None]\<rparr>)"
    using g' by (simp add: onUpdateMiddlewareDefault_def call_def hooks_clearing_def no_hooks_def)
      (simp add: world_unhashable_def world0_def)
  have e: "ETag (item_at world_unhashable 0) = ''stale''"
    by (simp add: world_unhashable_def item0_def)
  have p: "fst (onUpdate (hooks (resource0\<lparr>hooks := hooks_clearing\<rparr>)) (Some 0) (Some 1) world_unhashable) = None"
    by (simp add: hooks_clearing_def no_hooks_def)
  from p g' run e show ?thesis by blast
qed


section \<open>MultiGet (C3)\<close>












section \<open>Write-back (C9)\<close>


lemma copy_length: "length (copy dst src) = length dst"
  by (simp add: copy_def Let_def)

lemma copy_nth: "i < length dst \<Longrightarrow> copy dst src ! i = (if i < length src then src ! i else dst ! i)"
  by (auto simp: copy_def Let_def nth_append min_def)

text \<open>
  C9. Whatever the composed handler returns, \<^verbatim>\<open>Resource.Update\<close> and
  \<^verbatim>\<open>Resource.Delete\<close> leave the world as the handler left it when it returns
  an error, and otherwise overwrite the caller's item with the returned item
  and change nothing else (a nil pointer on either side panics);
  \<^verbatim>\<open>Resource.Insert\<close> leaves the world as the handler left it when it returns
  an error, and otherwise copies the returned slice over the caller's slice,
  as far as both reach.
\<close>

theorem write_back_exactly_on_success:
  "(onUpdateThen (middlewares r) item original w = ((newItem, err), w1) \<longrightarrow>
      Resource_Update r item original w =
        (if err \<noteq> None then Inr (err, w1)
         else case (item, newItem) of
                (Some a, Some b) \<Rightarrow> Inr (None, w1\<lparr>item_at := (item_at w1)(a := item_at w1 b)\<rparr>)
              | _ \<Rightarrow> Inl NilDereference)) \<and>
   (onDeleteThen (middlewares r) item w = ((newItem, err), w1) \<longrightarrow>
      Resource_Delete r item w =
        (if err \<noteq> None then Inr (err, w1)
         else case (item, newItem) of
                (Some a, Some b) \<Rightarrow> Inr (None, w1\<lparr>item_at := (item_at w1)(a := item_at w1 b)\<rparr>)
              | _ \<Rightarrow> Inl NilDereference)) \<and>
   (onInsertThen (middlewares r) items w = ((newItems, err), w1) \<longrightarrow>
      (if err \<noteq> None then Resource_Insert r items w = (err, w1)
       else \<exists>s. Resource_Insert r items w = (None, w1\<lparr>slice_at := (slice_at w1)(items := s)\<rparr>) \<and>
              length s = length (slice_at w1 items) \<and>
              (\<forall>i < length s. s ! i = (if i < length (slice_at w1 newItems) then slice_at w1 newItems ! i
                                        else slice_at w1 items ! i))))"
  by (auto simp: Resource_Update_def Resource_Delete_def Resource_Insert_def assign_item_def copy_length
      copy_nth split: option.splits)

theorem write_back_exactly_on_success_witness:
  "onUpdateThen (middlewares resource_intercepted) (Some 0) (Some 1) world0 = ((Some 1, None), world0) \<and>
   Resource_Update resource_intercepted (Some 0) (Some 1) world0 =
     Inr (None, world0\<lparr>item_at := (item_at world0)(0 := item1)\<rparr>) \<and>
   onDeleteThen (middlewares resource_intercepted) (Some 0) world0 =
     ((Some 1, Some resource_ErrConflict), world0) \<and>
   Resource_Delete resource_intercepted (Some 0) world0 = Inr (Some resource_ErrConflict, world0) \<and>
   onInsertThen (middlewares resource_intercepted) 0 world0 = ((1, None), world0) \<and>
   Resource_Insert resource_intercepted 0 world0 =
     (None, world0\<lparr>slice_at := (slice_at world0)(0 := [Some 1])\<rparr>)"
proof -
  have u: "onUpdateThen (middlewares resource_intercepted) (Some 0) (Some 1) world0 = ((Some 1, None), world0)"
    by (simp add: resource_intercepted_def)
  have d: "onDeleteThen (middlewares resource_intercepted) (Some 0) world0 =
     ((Some 1, Some resource_ErrConflict), world0)"
    by (simp add: resource_intercepted_def)
  have i: "onInsertThen (middlewares resource_intercepted) 0 world0 = ((1, None), world0)"
    by (simp add: resource_intercepted_def)
  from write_back_exactly_on_success[where r = resource_intercepted and item = "Some 0" and original = "Some 1"
      and w = world0 and newItem = "Some 1" and err = None and ?w1.0 = world0] u
  have U: "Resource_Update resource_intercepted (Some 0) (Some 1) world0 =
     Inr (None, world0\<lparr>item_at := (item_at world0)(0 := item1)\<rparr>)"
    by (simp add: world0_def)
  from write_back_exactly_on_success[where r = resource_intercepted and item = "Some 0"
      and w = world0 and newItem = "Some 1" and err = "Some resource_ErrConflict" and ?w1.0 = world0] d
  have D: "Resource_Delete resource_intercepted (Some 0) world0 = Inr (Some resource_ErrConflict, world0)"
    by simp
  from write_back_exactly_on_success[where r = resource_intercepted and items = 0 and newItems = 1
      and w = world0 and err = None and ?w1.0 = world0, THEN conjunct2, THEN conjunct2, THEN mp, OF i]
  have "\<exists>s. Resource_Insert resource_intercepted 0 world0 =
      (None, world0\<lparr>slice_at := (slice_at world0)(0 := s)\<rparr>) \<and>
      length s = length (slice_at world0 0) \<and>
      (\<forall>i < length s. s ! i = (if i < length (slice_at world0 1) then slice_at world0 1 ! i
                                        else slice_at world0 0 ! i))"
    by (simp only: if_False simp_thms)
  then obtain s where s: "Resource_Insert resource_intercepted 0 world0 =
      (None, world0\<lparr>slice_at := (slice_at world0)(0 := s)\<rparr>)"
      "length s = length (slice_at world0 0)"
      "\<forall>i < length s. s ! i = (if i < length (slice_at world0 1) then slice_at world0 1 ! i
                                        else slice_at world0 0 ! i)"
    by blast
  from s(2) have len: "length s = 1" by (simp add: world0_def)
  with s(3) have "s ! 0 = Some 1" by (simp add: world0_def)
  with len have "s = [Some 1]" by (cases s) auto
  with s(1) have I: "Resource_Insert resource_intercepted 0 world0 =
     (None, world0\<lparr>slice_at := (slice_at world0)(0 := [Some 1])\<rparr>)" by simp
  from u U d D i I show ?thesis by blast
qed


section \<open>PUT on an item: the integrity check (C2)\<close>

lemma default_find_fetches:
  "onFindMiddlewareDefault r q forceTotal w = Inr (res, w') \<Longrightarrow>
   \<exists>new. trace w' = trace w @ new \<and> list_all is_fetch new"
  by (auto simp: onFindMiddlewareDefault_def call_def Let_def
      split: prod.splits if_splits option.splits)

text \<open>
  C2, as amended. A PUT on an existing item whose conditional-request token
  does not match the fetched original (an expected hash other than the
  original's, or a timestamp before the original's last update), with the
  integrity check as the specification describes it: the replace handler,
  when the configuration allows the Replace mode, and the command handler
  both answer 412 Precondition Failed and leave the world exactly as the
  fetch of the original left it, so neither Prepare nor Validate nor a
  storage write is called. With the default Find handler the calls made up
  to the response are the Find hooks and the storage's Find and Count only.
  When the configuration does not allow the Replace mode, the replace
  handler answers 405 Method Not Allowed instead and leaves the world as the
  fetch left it as well.
\<close>

theorem precondition_failed_before_validation:
  assumes dec: "decodePayload req = Inr payload"
    and qry: "route_Query route = Inr q"
    and fetch: "Resource_Find (route_Resource route) q (limit_one q w) = Inr ((Some l, err), w1)"
    and chk: "checkIntegrityRequest env = checkIntegrityRequest_spec"
    and mismatch: "(\<exists>etag. If_Match req = Some etag \<and> etag \<noteq> ETag (item_at w1 orig)) \<or>
                   (\<exists>t. If_Unmodified_Since req = Some t \<and> t < Updated (item_at w1 orig))"
  shows
    "(Items l = [Some orig] \<and> (err = None \<or> err = Some (RestError ErrNotFound)) \<and>
      IsModeAllowed (conf (route_Resource route)) Replace \<longrightarrow>
        itemPutCreateReplace L env req route w =
          Inr ((412, [], Body_error (RestError ErrPreconditionFailed)), w1)) \<and>
     (Items l \<noteq> [] \<and> Items l ! 0 = Some orig \<and> err = None \<longrightarrow>
        itemPutCommand env req route w =
          Inr ((412, [], Body_error (RestError ErrPreconditionFailed)), w1)) \<and>
     (onFindThen (middlewares (route_Resource route)) = onFindMiddlewareDefault (route_Resource route) \<longrightarrow>
        (\<exists>new. trace w1 = trace w @ new \<and> list_all is_fetch new)) \<and>
     (Items l = [Some orig] \<and> (err = None \<or> err = Some (RestError ErrNotFound)) \<and>
      \<not> IsModeAllowed (conf (route_Resource route)) Replace \<longrightarrow>
        itemPutCreateReplace L env req route w =
          Inr ((405, [], Body_error (RestError (Error 405 ''Method Not Allowed'' []))), w1))"
proof (intro conjI impI)
  have failed: "checkIntegrityRequest env req (Some (item_at w1 orig)) = Some ErrPreconditionFailed"
    using mismatch by (auto simp: chk checkIntegrityRequest_spec_def)
  {
    assume a: "Items l = [Some orig] \<and> (err = None \<or> err = Some (RestError ErrNotFound)) \<and>
      IsModeAllowed (conf (route_Resource route)) Replace"
    then have e: "\<not> (err \<noteq> None \<and> err \<noteq> Some (RestError ErrNotFound))" by blast
    show "itemPutCreateReplace L env req route w =
          Inr ((412, [], Body_error (RestError ErrPreconditionFailed)), w1)"
      unfolding itemPutCreateReplace_def dec qry fetch sum.case prod.case if_not_P[OF e] option.case
      using a failed
      by (simp add: itemPutCreateReplace_validate_def rest_error_response_def ErrPreconditionFailed_def)
  }
  {
    assume a: "Items l \<noteq> [] \<and> Items l ! 0 = Some orig \<and> err = None"
    show "itemPutCommand env req route w =
          Inr ((412, [], Body_error (RestError ErrPreconditionFailed)), w1)"
      unfolding itemPutCommand_def dec qry fetch sum.case prod.case option.case
      using a failed
      by (simp add: itemPutCommand_run_def rest_error_response_def ErrPreconditionFailed_def)
  }
  {
    assume d: "onFindThen (middlewares (route_Resource route)) = onFindMiddlewareDefault (route_Resource route)"
    from fetch have "onFindMiddlewareDefault (route_Resource route) q False (limit_one q w) = Inr ((Some l, err), w1)"
      by (simp add: Resource_Find_def Resource_find_def d)
    from default_find_fetches[OF this] show "\<exists>new. trace w1 = trace w @ new \<and> list_all is_fetch new"
      by (simp add: limit_one_def)
  }
  {
    assume a: "Items l = [Some orig] \<and> (err = None \<or> err = Some (RestError ErrNotFound)) \<and>
      \<not> IsModeAllowed (conf (route_Resource route)) Replace"
    then have e: "\<not> (err \<noteq> None \<and> err \<noteq> Some (RestError ErrNotFound))" by blast
    show "itemPutCreateReplace L env req route w =
          Inr ((405, [], Body_error (RestError (Error 405 ''Method Not Allowed'' []))), w1)"
      unfolding itemPutCreateReplace_def dec qry fetch sum.case prod.case if_not_P[OF e] option.case
      using a by (simp add: itemPutCreateReplace_validate_def)
  }
qed


lemma fetch0:
  "Resource_Find resource0 0 (limit_one 0 world0) =
     Inr ((Some \<lparr>Total = - 1, Items = [Some 1]\<rparr>, None), world_fetched)"
  by (simp add: Resource_Find_def Resource_find_def resource0_handlers onFindMiddlewareDefault_def call_def
      resource0_parts no_hooks_def storage0_def limit_one_def world_fetched_def world0_def)

text \<open>
  A replace and a command on the item of \<open>resource0\<close> with an expected hash
  that is not the original's.
\<close>

theorem precondition_failed_before_validation_witness:
  "decodePayload (request0\<lparr>If_Match := Some ''other''\<rparr>) = Inr (Some [(''name'', 2)]) \<and>
   route_Query route0 = Inr 0 \<and>
   Resource_Find (route_Resource route0) 0 (limit_one 0 world0) =
     Inr ((Some \<lparr>Total = - 1, Items = [Some 1]\<rparr>, None), world_fetched) \<and>
   If_Match (request0\<lparr>If_Match := Some ''other''\<rparr>) = Some ''other'' \<and>
   ETag (item_at world_fetched 1) = ''{id:1,name:0}'' \<and>
   IsModeAllowed (conf (route_Resource route0)) Replace \<and>
   itemPutCreateReplace lib0 env0 (request0\<lparr>If_Match := Some ''other''\<rparr>) route0 world0 =
     Inr ((412, [], Body_error (RestError ErrPreconditionFailed)), world_fetched) \<and>
   itemPutCommand env0 (request0\<lparr>If_Match := Some ''other''\<rparr>) route0 world0 =
     Inr ((412, [], Body_error (RestError ErrPreconditionFailed)), world_fetched) \<and>
   list_all is_fetch (trace world_fetched)"
proof -
  let ?req = "request0\<lparr>If_Match := Some ''other''\<rparr>"
  have dec: "decodePayload ?req = Inr (Some [(''name'', 2)])" by (simp add: request0_def)
  have qry: "route_Query route0 = Inr 0" by (simp add: route0_def)
  have fetch: "Resource_Find (route_Resource route0) 0 (limit_one 0 world0) =
     Inr ((Some \<lparr>Total = - 1, Items = [Some 1]\<rparr>, None), world_fetched)"
    using fetch0 by (simp add: route0_def)
  have chk: "checkIntegrityRequest env0 = checkIntegrityRequest_spec" by (simp add: env0_def)
  have im: "If_Match ?req = Some ''other''" by simp
  have et: "ETag (item_at world_fetched 1) = ''{id:1,name:0}''"
    by (simp add: world_fetched_def world0_def item1_def)
  have mismatch: "(\<exists>etag. If_Match ?req = Some etag \<and> etag \<noteq> ETag (item_at world_fetched 1)) \<or>
                   (\<exists>t. If_Unmodified_Since ?req = Some t \<and> t < Updated (item_at world_fetched 1))"
    unfolding et by simp
  have allowed: "IsModeAllowed (conf (route_Resource route0)) Replace"
    by (simp add: route0_def resource0_parts)
  have dflt: "onFindThen (middlewares (route_Resource route0)) = onFindMiddlewareDefault (route_Resource route0)"
    by (simp add: route0_def resource0_handlers)
  note T = precondition_failed_before_validation[OF dec qry fetch chk mismatch, where L = lib0]
  from T allowed have r1: "itemPutCreateReplace lib0 env0 ?req route0 world0 =
     Inr ((412, [], Body_error (RestError ErrPreconditionFailed)), world_fetched)" by simp
  from T have r2: "itemPutCommand env0 ?req route0 world0 =
     Inr ((412, [], Body_error (RestError ErrPreconditionFailed)), world_fetched)" by simp
  have r3: "list_all is_fetch (trace world_fetched)" by (simp add: world_fetched_def)
  from dec qry fetch im et allowed r1 r2 r3 show ?thesis by blast
qed

text \<open>
  As the claim words it, every PUT on an existing item with such a token
  answers Precondition Failed. The replace handler checks the mode first: on
  a resource whose configuration does not allow Replace the answer is 405.
\<close>

theorem precondition_failed_before_validation_counterexample:
  "If_Match (request0\<lparr>If_Match := Some ''other''\<rparr>) = Some ''other'' \<and>
   ETag (item_at world_fetched 1) = ''{id:1,name:0}'' \<and>
   Resource_Find resource0 0 (limit_one 0 world0) =
     Inr ((Some \<lparr>Total = - 1, Items = [Some 1]\<rparr>, None), world_fetched) \<and>
   itemPutCreateReplace lib0 env0 (request0\<lparr>If_Match := Some ''other''\<rparr>)
     (route0\<lparr>route_Resource := resource0\<lparr>conf := \<lparr>IsModeAllowed = (\<lambda>m. m \<noteq> Replace)\<rparr>\<rparr>\<rparr>) world0 =
     Inr ((405, [], Body_error (RestError (Error 405 ''Method Not Allowed'' []))), world_fetched)"
proof -
  have f: "Resource_Find (resource0\<lparr>conf := \<lparr>IsModeAllowed = (\<lambda>m. m \<noteq> Replace)\<rparr>\<rparr>) 0 (limit_one 0 world0) =
     Inr ((Some \<lparr>Total = - 1, Items = [Some 1]\<rparr>, None), world_fetched)"
    using fetch0 by (simp add: Resource_Find_def Resource_find_def)
  have et: "ETag (item_at world_fetched 1) = ''{id:1,name:0}''"
    by (simp add: world_fetched_def world0_def item1_def)
  have "itemPutCreateReplace lib0 env0 (request0\<lparr>If_Match := Some ''other''\<rparr>)
     (route0\<lparr>route_Resource := resource0\<lparr>conf := \<lparr>IsModeAllowed = (\<lambda>m. m \<noteq> Replace)\<rparr>\<rparr>\<rparr>) world0 =
     Inr ((405, [], Body_error (RestError (Error 405 ''Method Not Allowed'' []))), world_fetched)"
    by (simp add: itemPutCreateReplace_def request0_def route0_def f itemPutCreateReplace_validate_def)
  with et fetch0 show ?thesis by simp
qed


section \<open>PUT on an item: the document ID (C7)\<close>

text \<open>
  C7, as amended. A PUT on an existing original that passes the integrity
  check and whose validation returns, without errors, a document with an
  \<^verbatim>\<open>id\<close> field other than the original's ID: the replace handler, when the
  configuration allows the Replace mode, and the command handler, when the
  command changed the payload, answer 422 \<^verbatim>\<open>Cannot change document ID\<close>.
  The world is as Validate left it and the last calls are Prepare and
  Validate (after the command, for a command): \<^verbatim>\<open>NewItem\<close> and Update are
  not reached. The check reads the validated document only.
\<close>

theorem document_ID_cannot_change:
  assumes dec: "decodePayload req = Inr payload"
    and qry: "route_Query route = Inr q"
    and fetch: "Resource_Find (route_Resource route) q (limit_one q w) = Inr ((Some l, err), w1)"
    and intact: "checkIntegrityRequest env req (Some (item_at w1 orig)) = None"
  shows "(Items l = [Some orig] \<and> (err = None \<or> err = Some (RestError ErrNotFound)) \<and>
          IsModeAllowed (conf (route_Resource route)) Replace \<and>
          Prepare (validator (route_Resource route)) payload (Some (Payload (item_at w1 orig))) True w1 =
            (prepared, w2) \<and>
          lookup_fields (Tombstone env) (entries (route_ResourcePath_Values route)) prepared = Inr (changes, base) \<and>
          Validate (validator (route_Resource route)) changes base
            (w2\<lparr>trace := trace w1 @ [Ev_Prepare payload (Some (Payload (item_at w1 orig))) True]\<rparr>) =
            ((doc, []), w3) \<and>
          map_of (entries doc) ''id'' = Some i \<and> i \<noteq> ID (item_at w3 orig) \<longrightarrow>
            itemPutCreateReplace L env req route w =
              Inr ((422, [], Body_error (RestError (Error 422 ''Cannot change document ID'' []))),
                   w3\<lparr>trace := trace w1 @ [Ev_Prepare payload (Some (Payload (item_at w1 orig))) True,
                                            Ev_Validate changes base]\<rparr>)) \<and>
         (Items l \<noteq> [] \<and> Items l ! 0 = Some orig \<and> err = None \<and>
          route_Command route = Some command \<and>
          clone_Clone env (Some orig) w1 = (copied, u1) \<and>
          command req copied payload u1 = ((hdr, Some it, responseBody, None), u2) \<and>
          Prepare (validator (route_Resource route)) (Payload (item_at u2 it)) (Some (Payload (item_at u2 orig))) True
            (u2\<lparr>trace := trace u1 @ [Ev_Command copied payload]\<rparr>) = ((cchanges, cbase), u3) \<and>
          entries cchanges \<noteq> [] \<and>
          lookup_base (entries (route_ResourcePath_Values route)) cbase = Inr cbase' \<and>
          Validate (validator (route_Resource route)) cchanges cbase'
            (u3\<lparr>trace := trace u1 @ [Ev_Command copied payload,
                                     Ev_Prepare (Payload (item_at u2 it)) (Some (Payload (item_at u2 orig))) True]\<rparr>) =
            ((cdoc, []), u4) \<and>
          map_of (entries cdoc) ''id'' = Some j \<and> j \<noteq> ID (item_at u4 orig) \<longrightarrow>
            itemPutCommand env req route w =
              Inr ((422, [], Body_error (RestError (Error 422 ''Cannot change document ID'' []))),
                   u4\<lparr>trace := trace u1 @ [Ev_Command copied payload,
                                            Ev_Prepare (Payload (item_at u2 it)) (Some (Payload (item_at u2 orig))) True,
                                            Ev_Validate cchanges cbase']\<rparr>))"
proof (intro conjI impI; elim conjE)
  assume a: "Items l = [Some orig]" "err = None \<or> err = Some (RestError ErrNotFound)"
    "IsModeAllowed (conf (route_Resource route)) Replace"
    "Prepare (validator (route_Resource route)) payload (Some (Payload (item_at w1 orig))) True w1 = (prepared, w2)"
    "lookup_fields (Tombstone env) (entries (route_ResourcePath_Values route)) prepared = Inr (changes, base)"
    "Validate (validator (route_Resource route)) changes base
       (w2\<lparr>trace := trace w1 @ [Ev_Prepare payload (Some (Payload (item_at w1 orig))) True]\<rparr>) = ((doc, []), w3)"
    "map_of (entries doc) ''id'' = Some i" "i \<noteq> ID (item_at w3 orig)"
  have v: "itemPutCreateReplace_validate L env req route payload q (Some orig) w1 =
      Inr ((422, [], Body_error (RestError (Error 422 ''Cannot change document ID'' []))),
           w3\<lparr>trace := trace w1 @ [Ev_Prepare payload (Some (Payload (item_at w1 orig))) True,
                                    Ev_Validate changes base]\<rparr>)"
    using a(3-8) intact by (simp add: itemPutCreateReplace_validate_def call_def changes_ID_def)
  show "itemPutCreateReplace L env req route w =
      Inr ((422, [], Body_error (RestError (Error 422 ''Cannot change document ID'' []))),
           w3\<lparr>trace := trace w1 @ [Ev_Prepare payload (Some (Payload (item_at w1 orig))) True,
                                    Ev_Validate changes base]\<rparr>)"
    unfolding itemPutCreateReplace_def using dec qry fetch a(1,2) v by auto
next
  assume a: "Items l \<noteq> []" "Items l ! 0 = Some orig" "err = None"
    "route_Command route = Some command"
    "clone_Clone env (Some orig) w1 = (copied, u1)"
    "command req copied payload u1 = ((hdr, Some it, responseBody, None), u2)"
    "Prepare (validator (route_Resource route)) (Payload (item_at u2 it)) (Some (Payload (item_at u2 orig))) True
       (u2\<lparr>trace := trace u1 @ [Ev_Command copied payload]\<rparr>) = ((cchanges, cbase), u3)"
    "entries cchanges \<noteq> []"
    "lookup_base (entries (route_ResourcePath_Values route)) cbase = Inr cbase'"
    "Validate (validator (route_Resource route)) cchanges cbase'
       (u3\<lparr>trace := trace u1 @ [Ev_Command copied payload,
                                Ev_Prepare (Payload (item_at u2 it)) (Some (Payload (item_at u2 orig))) True]\<rparr>) =
       ((cdoc, []), u4)"
    "map_of (entries cdoc) ''id'' = Some j" "j \<noteq> ID (item_at u4 orig)"
  let ?u3 = "u3\<lparr>trace := trace u1 @ [Ev_Command copied payload,
                                Ev_Prepare (Payload (item_at u2 it)) (Some (Payload (item_at u2 orig))) True]\<rparr>"
  have s: "itemPutCommand_store env req route q orig hdr responseBody cchanges cbase ?u3 =
      Inr ((422, [], Body_error (RestError (Error 422 ''Cannot change document ID'' []))),
           u4\<lparr>trace := trace u1 @ [Ev_Command copied payload,
                                    Ev_Prepare (Payload (item_at u2 it)) (Some (Payload (item_at u2 orig))) True,
                                    Ev_Validate cchanges cbase']\<rparr>)"
    using a(9-12) by (simp add: itemPutCommand_store_def call_def changes_ID_def)
  have r: "itemPutCommand_run env req route payload q (Some orig) w1 =
      itemPutCommand_store env req route q orig hdr responseBody cchanges cbase ?u3"
    using a(4-8) intact by (cases cchanges) (simp_all add: itemPutCommand_run_def call_def entries_def)
  show "itemPutCommand env req route w =
      Inr ((422, [], Body_error (RestError (Error 422 ''Cannot change document ID'' []))),
           u4\<lparr>trace := trace u1 @ [Ev_Command copied payload,
                                    Ev_Prepare (Payload (item_at u2 it)) (Some (Payload (item_at u2 orig))) True,
                                    Ev_Validate cchanges cbase']\<rparr>)"
    unfolding itemPutCommand_def using dec qry fetch a(1-3) r s by simp
qed


lemma world_fetched_simps:
  "trace world_fetched =
     [Ev_onFind 0 None, Ev_storage_Find 0 (Some \<lparr>Total = - 1, Items = [Some 1]\<rparr>) None,
      Ev_onFound 0 (Some \<lparr>Total = - 1, Items = [Some 1]\<rparr>) None (Some \<lparr>Total = - 1, Items = [Some 1]\<rparr>) None]"
  "item_at world_fetched = (\<lambda>a. if a = 0 then item0 else item1)"
  "next_addr world_fetched = 10"
  "ext world_fetched = []"
  "slice_at world_fetched = slice_at world0"
  "query_at world_fetched = (query_at world0)(0 := query0\<lparr>Window := Some \<lparr>Offset = 0, Limit = 1\<rparr>\<rparr>)"
  by (simp_all add: world_fetched_def world0_def)

text \<open>A replace and a command on item 1 that ask for the id 5.\<close>

theorem document_ID_cannot_change_witness:
  "decodePayload request_rename = Inr (Some [(''id'', 5), (''name'', 2)]) \<and>
   Resource_Find resource0 0 (limit_one 0 world0) =
     Inr ((Some \<lparr>Total = - 1, Items = [Some 1]\<rparr>, None), world_fetched) \<and>
   checkIntegrityRequest env0 request_rename (Some (item_at world_fetched 1)) = None \<and>
   ID (item_at world_fetched 1) = 1 \<and>
   itemPutCreateReplace lib0 env0 request_rename route0 world0 =
     Inr ((422, [], Body_error (RestError (Error 422 ''Cannot change document ID'' []))),
          world_fetched
            \<lparr>trace := trace world_fetched @
               [Ev_Prepare (Some [(''id'', 5), (''name'', 2)]) (Some (Some [(''id'', 1), (''name'', 0)])) True,
                Ev_Validate (Some [(''id'', 5), (''name'', 2)]) (Some [(''id'', 1), (''name'', 0)])]\<rparr>) \<and>
   itemPutCommand env0 request_rename route_command world0 =
     Inr ((422, [], Body_error (RestError (Error 422 ''Cannot change document ID'' []))),
          world_fetched
            \<lparr>trace := trace world_fetched @
               [Ev_Command (Some 10) (Some [(''id'', 5), (''name'', 2)]),
                Ev_Prepare (Some [(''id'', 5), (''name'', 2)]) (Some (Some [(''id'', 1), (''name'', 0)])) True,
                Ev_Validate (Some [(''id'', 5), (''name'', 2)]) (Some [(''id'', 1), (''name'', 0)])],
             item_at := (item_at world_fetched)(10 := item1\<lparr>Payload := Some [(''id'', 5), (''name'', 2)]\<rparr>),
             next_addr := 11\<rparr>)"
proof -
  let ?p = "Some [(''id'', 5), (''name'', 2)] :: int payload"
  let ?b = "Some [(''id'', 1), (''name'', 0)] :: int payload"
  let ?l = "\<lparr>Total = - 1, Items = [Some 1]\<rparr>"
  have dec: "decodePayload request_rename = Inr ?p" by (simp add: request_rename_def)
  have qry: "route_Query route0 = Inr 0" by (simp add: route0_def)
  have qryc: "route_Query route_command = Inr 0" by (simp add: route_command_def route0_def)
  have fetch: "Resource_Find (route_Resource route0) 0 (limit_one 0 world0) = Inr ((Some ?l, None), world_fetched)"
    using fetch0 by (simp add: route0_def)
  have fetchc: "Resource_Find (route_Resource route_command) 0 (limit_one 0 world0) =
      Inr ((Some ?l, None), world_fetched)"
    using fetch0 by (simp add: route_command_def route0_def)
  have intact: "checkIntegrityRequest env0 request_rename (Some (item_at world_fetched 1)) = None"
    by (simp add: env0_def checkIntegrityRequest_spec_def request_rename_def request0_def
        world_fetched_simps item1_def)
  have ident: "ID (item_at world_fetched 1) = 1" by (simp add: world_fetched_simps item1_def)
  note T1 = document_ID_cannot_change[where L = lib0 and env = env0 and req = request_rename
      and route = route0 and w = world0 and payload = ?p and q = 0 and l = ?l and err = None
      and ?w1.0 = world_fetched and orig = 1 and prepared = "(?p, ?b)" and ?w2.0 = world_fetched
      and changes = ?p and base = ?b and doc = ?p
      and ?w3.0 = "world_fetched\<lparr>trace := trace world_fetched @ [Ev_Prepare ?p (Some ?b) True]\<rparr>"
      and i = 5, OF dec qry fetch intact, THEN conjunct1]
  have r1: "itemPutCreateReplace lib0 env0 request_rename route0 world0 =
     Inr ((422, [], Body_error (RestError (Error 422 ''Cannot change document ID'' []))),
          world_fetched\<lparr>trace := trace world_fetched @ [Ev_Prepare ?p (Some ?b) True, Ev_Validate ?p ?b]\<rparr>)"
    using T1 by (simp add: route0_def resource0_parts validator0_def env0_def entries_def world_fetched_simps item1_def)
  let ?u1 = "world_fetched\<lparr>item_at := (item_at world_fetched)(10 := item1), next_addr := 11\<rparr>"
  let ?u2 = "world_fetched\<lparr>item_at := (item_at world_fetched)(10 := item1\<lparr>Payload := ?p\<rparr>), next_addr := 11\<rparr>"
  note T2 = document_ID_cannot_change[where L = lib0 and env = env0 and req = request_rename
      and route = route_command and w = world0 and payload = ?p and q = 0 and l = ?l and err = None
      and ?w1.0 = world_fetched and orig = 1 and command = command0 and copied = "Some 10"
      and ?u1.0 = ?u1 and hdr = "[(''X-Command'', [''done''])]" and it = 10 and responseBody = 1
      and ?u2.0 = ?u2 and cchanges = ?p and cbase = ?b and cbase' = ?b
      and ?u3.0 = "?u2\<lparr>trace := trace world_fetched @ [Ev_Command (Some 10) ?p]\<rparr>"
      and cdoc = ?p
      and ?u4.0 = "?u2\<lparr>trace := trace world_fetched @ [Ev_Command (Some 10) ?p, Ev_Prepare ?p (Some ?b) True]\<rparr>"
      and j = 5, OF dec qryc fetchc intact, THEN conjunct2]
  have r2: "itemPutCommand env0 request_rename route_command world0 =
     Inr ((422, [], Body_error (RestError (Error 422 ''Cannot change document ID'' []))),
          world_fetched
            \<lparr>trace := trace world_fetched @
               [Ev_Command (Some 10) ?p, Ev_Prepare ?p (Some ?b) True, Ev_Validate ?p ?b],
             item_at := (item_at world_fetched)(10 := item1\<lparr>Payload := ?p\<rparr>),
             next_addr := 11\<rparr>)"
    using T2 by (simp add: route_command_def route0_def resource0_parts validator0_def env0_def entries_def
        world_fetched_simps item1_def command0_def set_Payload_def)
  from dec fetch0 intact ident r1 r2 show ?thesis by blast
qed


lemma resource_renaming_parts:
  "hooks resource_renaming = hooks_renaming" "storage resource_renaming = storage0"
  "conf resource_renaming = \<lparr>IsModeAllowed = (\<lambda>m. True)\<rparr>" "validator resource_renaming = validator0"
  "onFindThen (middlewares resource_renaming) = onFindMiddlewareDefault resource_renaming"
  "onUpdateThen (middlewares resource_renaming) = onUpdateMiddlewareDefault lib0 resource_renaming"
  unfolding resource_renaming_def
  by (simp_all add: initMiddlewares_frame initMiddlewares_handlers)

text \<open>
  As the claim words it, the check keeps the identity of a document
  unchanged across every successful replace. The check runs on the validated
  document, before the Update pre-hook, which is handed the item and can
  write its ID. A replace of item 1 that only names a new name passes the
  check; with a pre-hook that sets the item's ID to 5 it succeeds (204), and
  the storage's Update is handed an item with ID 5 for the original with
  ID 1.
\<close>

theorem document_ID_cannot_change_counterexample:
  "(case itemPutCreateReplace lib0 env0 request0 (route0\<lparr>route_Resource := resource_renaming\<rparr>) world0 of
      Inl p \<Rightarrow> False
    | Inr ((status, hdr, body), w') \<Rightarrow>
        status = 204 \<and> body = Body_item (Some 10) \<and>
        ID (item_at w' 1) = 1 \<and> ID (item_at w' 10) = 5 \<and>
        trace w' = trace world_fetched @
          [Ev_Prepare (Some [(''name'', 2)]) (Some (Some [(''id'', 1), (''name'', 0)])) True,
           Ev_Validate (Some [(''name'', 2)]) (Some [(''id'', 1), (''name'', 0)]),
           Ev_onUpdate (Some 10) (Some 1) None,
           Ev_storage_Update (Some 10) (Some 1)
             (Some \<lparr>ID = 5, ETag = ''{id:1,name:2}'', Updated = 200,
                    Payload = Some [(''name'', 2), (''id'', 1)]\<rparr>) None,
           Ev_onUpdated (Some 10) (Some 1) None None] \<and>
        ext w' = [''update''])"
proof -
  let ?route = "route0\<lparr>route_Resource := resource_renaming\<rparr>"
  let ?doc = "Some [(''name'', 2), (''id'', 1)] :: int payload"
  let ?new = "\<lparr>ID = 1, ETag = ''{id:1,name:2}'', Updated = 200, Payload = ?doc\<rparr> :: int Item"
  let ?wn = "world_fetched
      \<lparr>trace := trace world_fetched @
         [Ev_Prepare (Some [(''name'', 2)]) (Some (Some [(''id'', 1), (''name'', 0)])) True,
          Ev_Validate (Some [(''name'', 2)]) (Some [(''id'', 1), (''name'', 0)])],
       item_at := (item_at world_fetched)(10 := ?new), next_addr := 11\<rparr>"
  have h: "GenEtag lib0 ?doc = Inr ''{id:1,name:2}''"
    by (simp add: GenEtag_def json_Marshal_def lib0_def)
  have f: "Resource_Find resource_renaming 0 (limit_one 0 world0) =
     Inr ((Some \<lparr>Total = - 1, Items = [Some 1]\<rparr>, None), world_fetched)"
    by (simp add: Resource_Find_def Resource_find_def resource_renaming_parts onFindMiddlewareDefault_def
        call_def hooks_renaming_def no_hooks_def storage0_def limit_one_def world_fetched_def world0_def)
  have v: "itemPutCreateReplace_validate lib0 env0 request0 ?route (Some [(''name'', 2)]) 0 (Some 1) world_fetched =
      itemPutCreateReplace_store lib0 env0 request0 resource_renaming 0 (Some 1) 200 10 ?wn"
    by (simp add: itemPutCreateReplace_validate_def route0_def resource_renaming_parts env0_def
        checkIntegrityRequest_spec_def request0_def call_def validator0_def h world_fetched_simps
        entries_def item1_def changes_ID_def)
  have top: "itemPutCreateReplace lib0 env0 request0 ?route world0 =
      itemPutCreateReplace_store lib0 env0 request0 resource_renaming 0 (Some 1) 200 10 ?wn"
    unfolding v[symmetric]
    by (simp add: itemPutCreateReplace_def request0_def route0_def f)
  have pre: "itemPutCreateReplace_preHookEtag lib0 env0 resource_renaming 0 10 ?wn = (Inr ''{id:1,name:2}'', ?wn)"
    by (simp add: itemPutCreateReplace_preHookEtag_def world_fetched_simps world0_def query0_def)
  have s: "(case itemPutCreateReplace_store lib0 env0 request0 resource_renaming 0 (Some 1) 200 10 ?wn of
      Inl p \<Rightarrow> False
    | Inr ((status, hdr, body), w') \<Rightarrow>
        status = 204 \<and> body = Body_item (Some 10) \<and>
        ID (item_at w' 1) = 1 \<and> ID (item_at w' 10) = 5 \<and>
        trace w' = trace world_fetched @
          [Ev_Prepare (Some [(''name'', 2)]) (Some (Some [(''id'', 1), (''name'', 0)])) True,
           Ev_Validate (Some [(''name'', 2)]) (Some [(''id'', 1), (''name'', 0)]),
           Ev_onUpdate (Some 10) (Some 1) None,
           Ev_storage_Update (Some 10) (Some 1)
             (Some \<lparr>ID = 5, ETag = ''{id:1,name:2}'', Updated = 200,
                    Payload = Some [(''name'', 2), (''id'', 1)]\<rparr>) None,
           Ev_onUpdated (Some 10) (Some 1) None None] \<and>
        ext w' = [''update''])"
    unfolding itemPutCreateReplace_store_def pre
    by (simp add: itemPutCreateReplace_mutate_def Resource_Update_def assign_item_def resource_renaming_parts
        onUpdateMiddlewareDefault_def call_def hooks_renaming_def no_hooks_def storage0_def h
        world_fetched_simps world0_def query0_def itemPutCreateReplace_postHookEtag_def env0_def
        set_Payload_def itemPutCreateReplace_respond_def request0_def item1_def)
  from s show ?thesis unfolding top by simp
qed


section \<open>PUT on an item: no content (C8)\<close>

text \<open>
  C8, as amended. In \<^verbatim>\<open>itemPutCreateReplace\<close>, once the document is validated
  and the item built, when the hash of the output before the mutation and
  the hash after it are obtained and the mutation returns no error: if no
  content was asked for and the two hashes are equal, the item is returned
  with an empty payload, with status 204 for a replace and 201 for a create;
  otherwise the item is returned as it is, with status 200 for a replace and
  201 for a create.
\<close>

theorem no_content_when_output_unchanged:
  assumes pre: "itemPutCreateReplace_preHookEtag L env rsrc q item w = (Inr preHookEtag, w1)"
    and mut: "itemPutCreateReplace_mutate rsrc item original w1 = Inr (None, w2)"
    and post: "itemPutCreateReplace_postHookEtag L env rsrc q item w2 = (Inr postHookEtag, w3)"
  shows "itemPutCreateReplace_store L env req rsrc q original (if original = None then 201 else 200) item w =
           Inr (if isNoContent req \<and> preHookEtag = postHookEtag
                then ((if original = None then 201 else 204, [], Body_item (Some item)), set_Payload item None w3)
                else ((if original = None then 201 else 200, [], Body_item (Some item)), w3))"
  using pre mut post by (simp add: itemPutCreateReplace_store_def itemPutCreateReplace_respond_def)

text \<open>
  A replace that asks for no content: of an item that already carries the
  hash of its payload (204, empty), and of an item with a stale hash (200,
  the item).
\<close>

theorem no_content_when_output_unchanged_witness:
  "isNoContent request0 \<and>
   fst (itemPutCreateReplace_preHookEtag lib0 env0 resource0 0 0 world_fresh) = Inr ''{id:1,name:2}'' \<and>
   (case itemPutCreateReplace_store lib0 env0 request0 resource0 0 (Some 1) 200 0 world_fresh of
      Inl p \<Rightarrow> False
    | Inr ((status, hdr, body), w') \<Rightarrow>
        status = 204 \<and> body = Body_item (Some 0) \<and> Payload (item_at w' 0) = None \<and>
        ETag (item_at w' 0) = ''{id:1,name:2}'' \<and> ext w' = [''update'']) \<and>
   fst (itemPutCreateReplace_preHookEtag lib0 env0 resource0 0 0 world0) = Inr ''stale'' \<and>
   (case itemPutCreateReplace_store lib0 env0 request0 resource0 0 (Some 1) 200 0 world0 of
      Inl p \<Rightarrow> False
    | Inr ((status, hdr, body), w') \<Rightarrow>
        status = 200 \<and> body = Body_item (Some 0) \<and> Payload (item_at w' 0) = Some [(''name'', 2), (''id'', 1)] \<and>
        ETag (item_at w' 0) = ''{id:1,name:2}'' \<and> ext w' = [''update''])"
proof -
  have nc: "isNoContent request0" by (simp add: request0_def)
  have h: "GenEtag lib0 (Some [(''name'', 2), (''id'', 1)]) = Inr ''{id:1,name:2}''"
    by (simp add: GenEtag_def json_Marshal_def lib0_def)
  have run: "itemPutCreateReplace_preHookEtag lib0 env0 resource0 0 0 w = (Inr (ETag (item_at w 0)), w)"
    if "query_at w = query_at world0" for w :: "(int, string list) world"
    using that by (simp add: itemPutCreateReplace_preHookEtag_def world0_def query0_def)
  have mut: "itemPutCreateReplace_mutate resource0 0 (Some 1) w =
      Inr (None, w\<lparr>trace := trace w @
               [Ev_onUpdate (Some 0) (Some 1) None,
                Ev_storage_Update (Some 0) (Some 1) (Some (item0\<lparr>ETag := ''{id:1,name:2}''\<rparr>)) None,
                Ev_onUpdated (Some 0) (Some 1) None None],
             item_at := (item_at w)(0 := item0\<lparr>ETag := ''{id:1,name:2}''\<rparr>),
             ext := ext w @ [''update'']\<rparr>)"
    if "Payload (item_at w 0) = Some [(''name'', 2), (''id'', 1)]" "item_at w 0 = item0\<lparr>ETag := e\<rparr>"
    for w :: "(int, string list) world" and e
    using that h
    by (simp add: itemPutCreateReplace_mutate_def Resource_Update_def resource0_handlers
        onUpdateMiddlewareDefault_def call_def resource0_parts no_hooks_def storage0_def assign_item_def)
  have post: "itemPutCreateReplace_postHookEtag lib0 env0 resource0 0 0 w =
      (Inr (ETag (item_at w 0)), set_Payload 0 (Payload (item_at w 0)) w)"
    if "query_at w = query_at world0" for w :: "(int, string list) world"
    using that by (simp add: itemPutCreateReplace_postHookEtag_def env0_def world0_def query0_def set_Payload_def)
  let ?stored = "\<lambda>w :: (int, string list) world. w\<lparr>trace := trace w @
               [Ev_onUpdate (Some 0) (Some 1) None,
                Ev_storage_Update (Some 0) (Some 1) (Some (item0\<lparr>ETag := ''{id:1,name:2}''\<rparr>)) None,
                Ev_onUpdated (Some 0) (Some 1) None None],
             item_at := (item_at w)(0 := item0\<lparr>ETag := ''{id:1,name:2}''\<rparr>),
             ext := ext w @ [''update'']\<rparr>"
  have q1: "query_at world_fresh = query_at world0" by (simp add: world_fresh_def)
  have q2: "query_at (?stored world_fresh) = query_at world0" by (simp add: world_fresh_def)
  have q3: "query_at (?stored world0) = query_at world0" by simp
  have p1: "Payload (item_at world_fresh 0) = Some [(''name'', 2), (''id'', 1)]"
    by (simp add: world_fresh_def item0_def)
  have i1: "item_at world_fresh 0 = item0\<lparr>ETag := ''{id:1,name:2}''\<rparr>" by (simp add: world_fresh_def)
  have p2: "Payload (item_at world0 0) = Some [(''name'', 2), (''id'', 1)]"
    by (simp add: world0_def item0_def)
  have i2: "item_at world0 0 = item0\<lparr>ETag := ''stale''\<rparr>" by (simp add: world0_def item0_def)
  note A = no_content_when_output_unchanged[where req = request0 and original = "Some 1",
      OF run[OF q1] mut[OF p1 i1] post[OF q2]]
  note B = no_content_when_output_unchanged[where req = request0 and original = "Some 1",
      OF run[of world0, OF refl] mut[OF p2 i2] post[OF q3]]
  have a0: "fst (itemPutCreateReplace_preHookEtag lib0 env0 resource0 0 0 world_fresh) = Inr ''{id:1,name:2}''"
    by (simp add: run[OF q1] i1)
  have b0: "fst (itemPutCreateReplace_preHookEtag lib0 env0 resource0 0 0 world0) = Inr ''stale''"
    by (simp add: run[of world0, OF refl] i2)
  have a: "(case itemPutCreateReplace_store lib0 env0 request0 resource0 0 (Some 1) 200 0 world_fresh of
      Inl p \<Rightarrow> False
    | Inr ((status, hdr, body), w') \<Rightarrow>
        status = 204 \<and> body = Body_item (Some 0) \<and> Payload (item_at w' 0) = None \<and>
        ETag (item_at w' 0) = ''{id:1,name:2}'' \<and> ext w' = [''update''])"
    using A nc by (simp add: i1 set_Payload_def item0_def world_fresh_def world0_def)
  have b: "(case itemPutCreateReplace_store lib0 env0 request0 resource0 0 (Some 1) 200 0 world0 of
      Inl p \<Rightarrow> False
    | Inr ((status, hdr, body), w') \<Rightarrow>
        status = 200 \<and> body = Body_item (Some 0) \<and> Payload (item_at w' 0) = Some [(''name'', 2), (''id'', 1)] \<and>
        ETag (item_at w' 0) = ''{id:1,name:2}'' \<and> ext w' = [''update''])"
    using B nc by (simp add: i2 set_Payload_def item0_def world0_def)
  from nc a0 a b0 b show ?thesis by blast
qed

lemma resource_empty_parts:
  "hooks resource_empty = no_hooks"
  "storage resource_empty = storage0\<lparr>storage_Find := (\<lambda>q w. ((Some \<lparr>Total = 0, Items = []\<rparr>, None), w))\<rparr>"
  "conf resource_empty = \<lparr>IsModeAllowed = (\<lambda>m. True)\<rparr>" "validator resource_empty = validator0"
  "onFindThen (middlewares resource_empty) = onFindMiddlewareDefault resource_empty"
  "onInsertThen (middlewares resource_empty) = onInsertMiddlewareDefault lib0 resource_empty"
  unfolding resource_empty_def
  by (simp_all add: initMiddlewares_frame initMiddlewares_handlers)

lemma fetch_empty:
  "Resource_Find resource_empty 0 (limit_one 0 world0) =
     Inr ((Some \<lparr>Total = 0, Items = []\<rparr>, None),
          world_fetched\<lparr>trace :=
            [Ev_onFind 0 None, Ev_storage_Find 0 (Some \<lparr>Total = 0, Items = []\<rparr>) None,
             Ev_onFound 0 (Some \<lparr>Total = 0, Items = []\<rparr>) None (Some \<lparr>Total = 0, Items = []\<rparr>) None]\<rparr>)"
  by (simp add: Resource_Find_def Resource_find_def resource_empty_parts onFindMiddlewareDefault_def call_def
      no_hooks_def storage0_def limit_one_def world_fetched_def world0_def)

text \<open>
  As the claim words it, equal hashes and a no-content request give status
  204. A PUT that creates the item answers 201 with the empty payload.
\<close>

theorem no_content_when_output_unchanged_counterexample:
  "isNoContent (request0\<lparr>If_Match := None\<rparr>) \<and>
   (case itemPutCreateReplace lib0 env0 (request0\<lparr>If_Match := None\<rparr>)
           (route0\<lparr>route_Resource := resource_empty\<rparr>) world0 of
      Inl p \<Rightarrow> False
    | Inr ((status, hdr, body), w') \<Rightarrow>
        status = 201 \<and> body = Body_item (Some 10) \<and> Payload (item_at w' 10) = None \<and>
        ETag (item_at w' 10) = ''{id:1,name:2}'' \<and> ext w' = [''insert''])"
proof -
  let ?req = "request0\<lparr>If_Match := None\<rparr>"
  let ?route = "route0\<lparr>route_Resource := resource_empty\<rparr>"
  let ?doc = "Some [(''name'', 2), (''id'', 1)] :: int payload"
  let ?new = "\<lparr>ID = 1, ETag = ''{id:1,name:2}'', Updated = 200, Payload = ?doc\<rparr> :: int Item"
  let ?wf = "world_fetched\<lparr>trace :=
            [Ev_onFind 0 None, Ev_storage_Find 0 (Some \<lparr>Total = 0, Items = []\<rparr>) None,
             Ev_onFound 0 (Some \<lparr>Total = 0, Items = []\<rparr>) None (Some \<lparr>Total = 0, Items = []\<rparr>) None]\<rparr>"
  let ?wn = "?wf\<lparr>trace := trace ?wf @ [Ev_Prepare (Some [(''name'', 2)]) None False, Ev_Validate (Some [(''name'', 2)]) (Some [(''id'', 1)])],
                item_at := (item_at ?wf)(10 := ?new), next_addr := 11\<rparr>"
  have h: "GenEtag lib0 ?doc = Inr ''{id:1,name:2}''"
    by (simp add: GenEtag_def json_Marshal_def lib0_def)
  have nc: "isNoContent ?req" by (simp add: request0_def)
  have v: "itemPutCreateReplace_validate lib0 env0 ?req ?route (Some [(''name'', 2)]) 0 None ?wf =
      itemPutCreateReplace_store lib0 env0 ?req resource_empty 0 None 201 10 ?wn"
    by (simp add: itemPutCreateReplace_validate_def route0_def resource_empty_parts env0_def
        checkIntegrityRequest_spec_def call_def validator0_def h world_fetched_simps entries_def)
  have top: "itemPutCreateReplace lib0 env0 ?req ?route world0 =
      itemPutCreateReplace_store lib0 env0 ?req resource_empty 0 None 201 10 ?wn"
    unfolding v[symmetric]
    by (simp add: itemPutCreateReplace_def request0_def route0_def fetch_empty)
  have pre: "itemPutCreateReplace_preHookEtag lib0 env0 resource_empty 0 10 ?wn = (Inr ''{id:1,name:2}'', ?wn)"
    by (simp add: itemPutCreateReplace_preHookEtag_def world_fetched_simps world0_def query0_def)
  have s: "(case itemPutCreateReplace_store lib0 env0 ?req resource_empty 0 None 201 10 ?wn of
      Inl p \<Rightarrow> False
    | Inr ((status, hdr, body), w') \<Rightarrow>
        status = 201 \<and> body = Body_item (Some 10) \<and> Payload (item_at w' 10) = None \<and>
        ETag (item_at w' 10) = ''{id:1,name:2}'' \<and> ext w' = [''insert''])"
    unfolding itemPutCreateReplace_store_def pre
    by (simp add: itemPutCreateReplace_mutate_def new_slice_def Resource_Insert_def resource_empty_parts
        onInsertMiddlewareDefault_def call_def no_hooks_def storage0_def h world_fetched_simps world0_def
        query0_def itemPutCreateReplace_postHookEtag_def env0_def set_Payload_def
        itemPutCreateReplace_respond_def request0_def copy_def)
  from nc s show ?thesis unfolding top by simp
qed

end
